(* ===== verification/Prelude.thy ===== *)
theory Prelude
  imports Complex_Main
begin

text \<open>
  Shared vocabulary of the POS development. JavaScript numbers are modelled by
  two HOL types: money amounts (prices, totals, tax, cash) by \<open>rat\<close>, so that the
  arithmetic of the source is exact and the spec's ``full precision'' reading
  of totals holds by construction; stock levels and line quantities, which the
  source only ever adds and subtracts as whole numbers, by \<open>int\<close>, so that a
  negative stock stays visible instead of being cut off at 0.
  Timestamps (\<open>Date.now()\<close>, ISO dates compared through \<open>new Date\<close>) are
  milliseconds as \<open>nat\<close>.

  The theory also holds the list helpers that mirror JavaScript's array
  methods: \<open>Array.prototype.find\<close> is HOL's \<open>List.find\<close>,
  \<open>Array.prototype.findIndex\<close> is \<open>findIndex\<close> below (with \<open>None\<close> for
  the source's \<open>-1\<close>), \<open>reduce\<close> with a start value is \<open>foldl\<close>; and the
  generic lemmas about them that the component theories share.
\<close>

type_synonym money = rat
type_synonym timestamp = nat

named_theorems pos_defs "definitions of handlers unfolded by the component proofs"

subsection \<open>JavaScript array helpers\<close>

primrec findIndex :: "('a \<Rightarrow> bool) \<Rightarrow> 'a list \<Rightarrow> nat option" where
  "findIndex P [] = None"
| "findIndex P (x # xs) = (if P x then Some 0 else map_option Suc (findIndex P xs))"

text \<open>\<open>reduce((acc, x) => acc + f(x), a)\<close> is a left fold; it computes a sum.\<close>

lemma foldl_add_sum_list [simp]:
  fixes f :: "'a \<Rightarrow> 'b::comm_monoid_add"
  shows "foldl (\<lambda>acc x. acc + f x) a xs = a + sum_list (map f xs)"
  by (induction xs arbitrary: a) (simp_all add: add.assoc)

lemma findIndex_None_iff: "findIndex P xs = None \<longleftrightarrow> (\<forall>x \<in> set xs. \<not> P x)"
  by (induction xs) auto

lemma findIndex_Some:
  "findIndex P xs = Some i \<Longrightarrow> i < length xs \<and> P (xs ! i) \<and> (\<forall>j < i. \<not> P (xs ! j))"
proof (induction xs arbitrary: i)
  case Nil
  then show ?case by simp
next
  case (Cons x xs)
  show ?case
  proof (cases "P x")
    case True
    with Cons.prems show ?thesis by simp
  next
    case False
    with Cons.prems obtain k where k: "findIndex P xs = Some k" and i: "i = Suc k"
      by auto
    from Cons.IH [OF k] False i show ?thesis
      by (auto simp: less_Suc_eq_0_disj)
  qed
qed

lemma find_conv_findIndex: "find P xs = map_option ((!) xs) (findIndex P xs)"
  by (induction xs) (auto simp: option.map_comp comp_def)

lemma find_Some_iff_findIndex:
  "find P xs = Some x \<longleftrightarrow> (\<exists>i. findIndex P xs = Some i \<and> xs ! i = x)"
  by (auto simp: find_conv_findIndex)

lemma find_None_iff': "find P xs = None \<longleftrightarrow> (\<forall>x \<in> set xs. \<not> P x)"
  by (induction xs) auto

lemma find_Some_in_set: "find P xs = Some x \<Longrightarrow> x \<in> set xs \<and> P x"
  by (auto simp: find_Some_iff)

text \<open>Writing a slot that neither the old nor the new value of matches leaves a search alone.\<close>

lemma find_update_other:
  "\<not> P (xs ! i) \<Longrightarrow> \<not> P y \<Longrightarrow> find P (xs[i := y]) = find P xs"
proof (induction xs arbitrary: i)
  case Nil
  then show ?case by simp
next
  case (Cons x xs)
  then show ?case by (cases i) auto
qed

text \<open>Writing the first match with a value that still matches makes it the new answer.\<close>

lemma find_update_findIndex:
  "findIndex P xs = Some i \<Longrightarrow> P y \<Longrightarrow> find P (xs[i := y]) = Some y"
proof (induction xs arbitrary: i)
  case Nil
  then show ?case by simp
next
  case (Cons x xs)
  then show ?case by (cases "P x") auto
qed

lemma find_map_cong:
  "(\<And>x. P (f x) = P x) \<Longrightarrow> find P (map f xs) = map_option f (find P xs)"
  by (induction xs) auto

lemma find_append_None:
  "find P xs = None \<Longrightarrow> find P (xs @ ys) = find P ys"
  by (induction xs) auto

lemma find_filter_other:
  "(\<And>x. P x \<Longrightarrow> Q x) \<Longrightarrow> find P (filter Q xs) = find P xs"
  by (induction xs) auto

lemma find_filter_gone:
  "(\<And>x. P x \<Longrightarrow> \<not> Q x) \<Longrightarrow> find P (filter Q xs) = None"
  by (induction xs) auto

lemma find_distinct_key:
  "distinct (map f xs) \<Longrightarrow> x \<in> set xs \<Longrightarrow> find (\<lambda>y. f y = f x) xs = Some x"
  by (induction xs) (auto simp: image_iff)

lemma find_key_unique:
  "distinct (map f xs) \<Longrightarrow> x \<in> set xs \<Longrightarrow> f x = k \<Longrightarrow> find (\<lambda>y. f y = k) xs = Some x"
  using find_distinct_key [of f xs x] by simp

lemma case_option_False_iff:
  "(case x of None \<Rightarrow> False | Some y \<Rightarrow> P y) \<longleftrightarrow> (\<exists>y. x = Some y \<and> P y)"
  by (cases x) auto

lemma sorted_wrt_greater_distinct: "sorted_wrt (>) xs \<Longrightarrow> distinct (xs :: 'a::linorder list)"
  by (induction xs) auto

subsection \<open>JavaScript string helpers\<close>

text \<open>
  \<open>String.prototype.toLowerCase\<close> on the ASCII letters (bytes of other
  characters are left alone: the model's strings are byte strings, and the
  catalog's search terms are ASCII) and \<open>String.prototype.includes\<close>, the
  test for a contiguous occurrence.
\<close>

definition lower_char :: "char \<Rightarrow> char" where
  "lower_char c = (let n = (of_char c :: nat) in if 65 \<le> n \<and> n \<le> 90 then char_of (n + 32) else c)"

definition toLowerCase :: "string \<Rightarrow> string" where
  "toLowerCase s = map lower_char s"

fun str_includes :: "string \<Rightarrow> string \<Rightarrow> bool" where
  "str_includes [] needle = (needle = [])"
| "str_includes (c # cs) needle = (take (length needle) (c # cs) = needle \<or> str_includes cs needle)"

lemma str_includes_Nil [simp]: "str_includes s []"
  by (cases s) simp_all

lemma str_includes_self [simp]: "str_includes s s"
  by (cases s) simp_all

text \<open>\<open>String.prototype.trim\<close> on the ASCII white space characters.\<close>

definition is_space :: "char \<Rightarrow> bool" where
  "is_space c = (c \<in> set [CHR '' '', CHR 0x09, CHR 0x0A, CHR 0x0B, CHR 0x0C, CHR 0x0D])"

definition trim :: "string \<Rightarrow> string" where
  "trim s = rev (dropWhile is_space (rev (dropWhile is_space s)))"

subsection \<open>Decimal rendering of timestamps\<close>

text \<open>\<open>Date.now().toString()\<close>: the decimal digits of a nonnegative integer,
  and the reading back of such a string.\<close>

function string_of_nat :: "nat \<Rightarrow> string" where
  "string_of_nat n = (if n < 10 then [char_of (48 + n)] else string_of_nat (n div 10) @ [char_of (48 + n mod 10)])"
  by auto
termination
  by (relation "measure id") auto

definition nat_of_string :: "string \<Rightarrow> nat" where
  "nat_of_string s = foldl (\<lambda>acc c. acc * 10 + (of_char c - 48)) 0 s"

declare string_of_nat.simps [simp del]

lemmas string_of_nat_eval = string_of_nat.simps char_of_def bit_0

definition is_digit :: "char \<Rightarrow> bool" where
  "is_digit c = (48 \<le> (of_char c :: nat) \<and> (of_char c :: nat) \<le> 57)"

lemma nat_of_string_Nil [simp]: "nat_of_string [] = 0"
  by (simp add: nat_of_string_def)

lemma nat_of_string_snoc: "nat_of_string (s @ [c]) = nat_of_string s * 10 + (of_char c - 48)"
  by (simp add: nat_of_string_def)

lemma of_char_digit: "d < 10 \<Longrightarrow> of_char (char_of (48 + d) :: char) - 48 = (d::nat)"
  by (simp add: of_char_of)

lemma nat_of_string_of_nat [simp]: "nat_of_string (string_of_nat n) = n"
proof (induction n rule: string_of_nat.induct)
  case (1 n)
  show ?case
  proof (cases "n < 10")
    case True
    then show ?thesis by (simp add: string_of_nat.simps nat_of_string_def of_char_digit)
  next
    case False
    with 1 show ?thesis by (simp add: string_of_nat.simps [of n] nat_of_string_snoc of_char_digit)
  qed
qed

lemma string_of_nat_digits: "\<forall>c \<in> set (string_of_nat n). is_digit c"
proof (induction n rule: string_of_nat.induct)
  case (1 n)
  have "is_digit (char_of (48 + d)) \<longleftrightarrow> True" if "d < 10" for d :: nat
    using that by (simp add: is_digit_def of_char_of)
  with 1 show ?case by (subst string_of_nat.simps) auto
qed

lemma string_of_nat_not_Nil: "string_of_nat n \<noteq> []"
  by (subst string_of_nat.simps) simp

lemma string_of_nat_inject [simp]: "string_of_nat m = string_of_nat n \<longleftrightarrow> m = n"
  by (metis nat_of_string_of_nat)

lemma length_string_of_nat:
  "10 ^ k \<le> n \<Longrightarrow> n < 10 ^ Suc k \<Longrightarrow> length (string_of_nat n) = Suc k"
proof (induction k arbitrary: n)
  case 0
  then show ?case by (simp add: string_of_nat.simps)
next
  case (Suc k)
  have "(10::nat) \<le> 10 ^ Suc k" using one_le_power [of "10::nat" k] by simp
  from this Suc.prems(1) have "10 \<le> n" by (rule order_trans)
  then have "\<not> n < 10" by simp
  moreover have "10 ^ Suc k div 10 \<le> n div 10" using Suc.prems(1) by (rule div_le_mono)
  then have "10 ^ k \<le> n div 10" by simp
  moreover have "n div 10 < 10 ^ Suc k" using Suc.prems(2) by (intro less_mult_imp_div_less) (simp add: mult.commute)
  ultimately show ?case using Suc.IH by (simp add: string_of_nat.simps [of n])
qed

subsection \<open>Sums over lists\<close>

lemma sum_list_map_cong_set:
  "(\<And>x. x \<in> set xs \<Longrightarrow> f x = g x) \<Longrightarrow> sum_list (map f xs) = sum_list (map g xs)"
  by (induction xs) auto

lemma sum_list_filter_split:
  fixes f :: "'a \<Rightarrow> 'b::comm_monoid_add"
  shows "sum_list (map f xs) = sum_list (map f (filter P xs)) + sum_list (map f (filter (\<lambda>x. \<not> P x) xs))"
  by (induction xs) (simp_all add: ac_simps)

lemma sum_list_indicator:
  fixes v :: "'b::comm_monoid_add"
  shows "distinct ks \<Longrightarrow> a \<in> set ks \<Longrightarrow> sum_list (map (\<lambda>k. if a = k then v else 0) ks) = v"
proof (induction ks)
  case Nil
  then show ?case by simp
next
  case (Cons k ks)
  show ?case
  proof (cases "a = k")
    case True
    with Cons.prems have "sum_list (map (\<lambda>k. if a = k then v else 0) ks) = sum_list (map (\<lambda>_. 0) ks)"
      by (intro sum_list_map_cong_set) auto
    with True show ?thesis by simp
  next
    case False
    with Cons show ?thesis by simp
  qed
qed

text \<open>Summing a per-key group total over a duplicate-free list of all keys gives the total.\<close>

lemma sum_list_group:
  fixes f :: "'a \<Rightarrow> 'b::comm_monoid_add"
  assumes "distinct ks" "set (map key c) \<subseteq> set ks"
  shows "sum_list (map (\<lambda>k. sum_list (map f (filter (\<lambda>i. key i = k) c))) ks) = sum_list (map f c)"
  using assms(2)
proof (induction c)
  case Nil
  then show ?case by (simp add: sum_list_map_cong_set [of ks _ "\<lambda>_. 0"])
next
  case (Cons x c)
  have "\<And>k. sum_list (map f (filter (\<lambda>i. key i = k) (x # c))) =
        (if key x = k then f x else 0) + sum_list (map f (filter (\<lambda>i. key i = k) c))"
    by simp
  then have "sum_list (map (\<lambda>k. sum_list (map f (filter (\<lambda>i. key i = k) (x # c)))) ks) =
        sum_list (map (\<lambda>k. (if key x = k then f x else 0) + sum_list (map f (filter (\<lambda>i. key i = k) c))) ks)"
    by presburger
  also have "\<dots> = sum_list (map (\<lambda>k. if key x = k then f x else 0) ks) +
        sum_list (map (\<lambda>k. sum_list (map f (filter (\<lambda>i. key i = k) c))) ks)"
    by (rule sum_list_addf)
  also have "\<dots> = f x + sum_list (map f c)"
    using Cons assms(1) by (simp add: sum_list_indicator)
  finally show ?case by simp
qed

lemma sum_list_map_concat:
  "sum_list (map f (concat xss)) = sum_list (map (\<lambda>xs. sum_list (map f xs)) xss)"
  by (induction xss) simp_all

lemma sum_list_filter_if:
  fixes f :: "'a \<Rightarrow> 'b::comm_monoid_add"
  shows "sum_list (map f (filter P xs)) = sum_list (map (\<lambda>x. if P x then f x else 0) xs)"
  by (induction xs) auto

subsection \<open>Rounding to a fixed number of decimals\<close>

text \<open>\<open>toFixed(k)\<close> rounds half away from zero: the magnitude is
  \<open>\<lfloor>|y| * 10^k + 1/2\<rfloor>\<close> units of \<open>10^-k\<close>, within half a unit of \<open>|y|\<close>.\<close>

lemma round_half_bound:
  fixes y k :: "'a::floor_ceiling"
  assumes "0 < k"
  shows "\<bar>of_int \<lfloor>\<bar>y\<bar> * k + 1 / 2\<rfloor> / k - \<bar>y\<bar>\<bar> \<le> 1 / (2 * k)"
proof -
  let ?z = "\<bar>y\<bar> * k + 1 / 2"
  have lo: "of_int \<lfloor>?z\<rfloor> \<le> ?z" and hi: "?z < of_int \<lfloor>?z\<rfloor> + 1"
    using floor_correct [of ?z] by simp_all
  then have bnd: "\<bar>of_int \<lfloor>?z\<rfloor> - \<bar>y\<bar> * k\<bar> \<le> 1 / 2" unfolding abs_le_iff by linarith
  have "of_int \<lfloor>?z\<rfloor> / k - \<bar>y\<bar> = (of_int \<lfloor>?z\<rfloor> - \<bar>y\<bar> * k) / k" using assms by (simp add: field_simps)
  then have "\<bar>of_int \<lfloor>?z\<rfloor> / k - \<bar>y\<bar>\<bar> = \<bar>of_int \<lfloor>?z\<rfloor> - \<bar>y\<bar> * k\<bar> / k" using assms by (simp add: abs_divide)
  also have "\<dots> \<le> (1 / 2) / k" using divide_right_mono [OF bnd, of k] assms by simp
  finally show ?thesis by simp
qed

text \<open>Errors of at most \<open>e\<close> per element add up to at most \<open>n * e\<close>.\<close>

lemma sum_list_abs_diff_le:
  fixes f g :: "'a \<Rightarrow> 'b::linordered_idom"
  assumes "\<forall>x \<in> set xs. \<bar>f x - g x\<bar> \<le> e"
  shows "\<bar>sum_list (map f xs) - sum_list (map g xs)\<bar> \<le> of_nat (length xs) * e"
  using assms
proof (induction xs)
  case Nil
  then show ?case by simp
next
  case (Cons x xs)
  have "\<bar>sum_list (map f (x # xs)) - sum_list (map g (x # xs))\<bar>
        \<le> \<bar>f x - g x\<bar> + \<bar>sum_list (map f xs) - sum_list (map g xs)\<bar>"
    by simp
  also have "\<dots> \<le> e + of_nat (length xs) * e" using Cons by (intro add_mono) simp_all
  finally show ?case by (simp add: algebra_simps)
qed

lemma of_nat_sum_list_divide:
  "(of_nat (sum_list (map f xs)) :: 'a::field_char_0) / c = sum_list (map (\<lambda>x. of_nat (f x) / c) xs)"
  by (induction xs) (simp_all add: add_divide_distrib)

end
