(* ===== verification/Types.thy ===== *)
theory Types
  imports Prelude
begin

text \<open>
  The data model of \<open>src/types.ts\<close>: one record per interface, one datatype per
  enum or string-literal union, in the file's order. Field names follow the
  source; a field whose name clashes with a HOL constant (\<open>id\<close>, \<open>total\<close>) or
  with a field of another record of this theory carries its record's name
  (\<open>product_id\<close>, \<open>sale_total\<close>, \<open>client_name\<close>, ...). Optional fields
  (\<open>avatarUrl?\<close>, \<open>notes?\<close>, the latter named \<open>session_notes\<close> since \<open>notes\<close> is an Isar keyword) and nullable ones (\<open>string | null\<close>) are
  \<open>option\<close>s. \<open>CartItem extends Product\<close> is a record extension, so the
  functions of the source that take a \<open>Product\<close> and are also applied to cart
  items (\<open>getPrice\<close>) are stated over \<open>'a product_scheme\<close>.
\<close>

datatype UserRole = ADMIN | SELLER | SALES_MANAGER | STOCK_MANAGER

record user =
  user_id :: string
  user_name :: string
  user_email :: string
  role :: UserRole
  user_active :: bool
  avatarUrl :: "string option"

record client =
  client_id :: string
  client_name :: string
  client_email :: string
  client_phone :: string
  taxId :: string
  client_address :: string
  client_active :: bool

record brand =
  brand_id :: string
  brand_name :: string
  brand_color :: string
  brand_active :: bool

record category =
  category_id :: string
  category_name :: string
  category_color :: string
  category_active :: bool

record payment_method =
  payment_id :: string
  payment_name :: string
  payment_active :: bool

record product =
  product_id :: string
  code :: string
  name :: string
  categoryId :: string
  brandId :: string
  buyPrice :: money
  priceRetail :: money
  priceWholesale :: money
  priceSpecial :: money
  stock :: int
  minStock :: int
  imageUrl :: string
  isActive :: bool

record cart_item = product +
  quantity :: int
  finalPrice :: money

datatype sale_status = Completed | Canceled

record sale =
  sale_id :: string
  date :: timestamp
  clientId :: "string option"
  paymentMethod :: string
  items :: "cart_item list"
  subtotal :: money
  tax :: money
  sale_total :: money
  sale_status :: sale_status

record company_settings =
  company_name :: string
  address :: string
  phone :: string
  logoUrl :: string
  currencySymbol :: string
  taxName :: string
  taxRate :: money

datatype session_status = Open | Closed

record cash_register_session =
  session_id :: string
  openedAt :: timestamp
  closedAt :: "timestamp option"
  initialAmount :: money
  finalAmount :: "money option"
  salesTotal :: money
  session_status :: session_status
  session_notes :: "string option"

text \<open>\<open>{ ...product, quantity, finalPrice }\<close>: a product snapshot extended to a cart item.\<close>

definition item_of :: "product \<Rightarrow> int \<Rightarrow> money \<Rightarrow> cart_item" where
  "item_of p q pr = product.extend p (cart_item.fields q pr)"

lemma item_of_fields [simp]:
  "product_id (item_of p q pr) = product_id p"
  "code (item_of p q pr) = code p"
  "name (item_of p q pr) = name p"
  "priceRetail (item_of p q pr) = priceRetail p"
  "priceWholesale (item_of p q pr) = priceWholesale p"
  "priceSpecial (item_of p q pr) = priceSpecial p"
  "stock (item_of p q pr) = stock p"
  "quantity (item_of p q pr) = q"
  "finalPrice (item_of p q pr) = pr"
  by (simp_all add: item_of_def product.defs cart_item.defs)

text \<open>The line value of a cart item, \<open>item.finalPrice * item.quantity\<close>, used by the
  POS totals, the tickets and the per-product report alike.\<close>

definition line_amount :: "cart_item \<Rightarrow> money" where
  "line_amount item = finalPrice item * of_int (quantity item)"

end
