(* ===== verification/Pricing.thy ===== *)
theory Pricing
  imports Types
begin

text \<open>
  The pricing resolver of \<open>src/pages/Sales/POS.tsx\<close>: the three-valued
  \<open>PriceType\<close>, \<open>getPrice\<close> (a \<open>switch\<close> whose \<open>default\<close> is the retail
  price) and the re-pricing of every cart line that \<open>handlePriceTypeChange\<close>
  performs. \<open>getPrice\<close> is applied to products and to cart items alike, so it
  is stated over \<open>'a product_scheme\<close>; the re-pricing reads the prices of the
  line's own product snapshot, not the live catalog.
  The lemmas show that re-pricing touches only \<open>finalPrice\<close>, that it is
  idempotent and that the last tier chosen wins.
\<close>

datatype price_type = Retail | Wholesale | Special

definition getPrice :: "'a product_scheme \<Rightarrow> price_type \<Rightarrow> money" where
  "getPrice p t = (case t of Wholesale \<Rightarrow> priceWholesale p | Special \<Rightarrow> priceSpecial p | Retail \<Rightarrow> priceRetail p)"

definition reprice :: "price_type \<Rightarrow> cart_item list \<Rightarrow> cart_item list" where
  "reprice t c = map (\<lambda>item. item\<lparr>finalPrice := getPrice item t\<rparr>) c"

lemma getPrice_finalPrice_update [simp]: "getPrice (item\<lparr>finalPrice := x\<rparr>) t = getPrice item t"
  by (simp add: getPrice_def split: price_type.split)

lemma getPrice_quantity_update [simp]: "getPrice (item\<lparr>quantity := x\<rparr>) t = getPrice item t"
  by (simp add: getPrice_def split: price_type.split)

lemma getPrice_item_of [simp]: "getPrice (item_of p q pr) t = getPrice p t"
  by (simp add: getPrice_def split: price_type.split)

lemma getPrice_nonneg:
  "0 \<le> priceRetail p \<Longrightarrow> 0 \<le> priceWholesale p \<Longrightarrow> 0 \<le> priceSpecial p \<Longrightarrow> 0 \<le> getPrice p t"
  by (simp add: getPrice_def split: price_type.split)

lemma reprice_length [simp]: "length (reprice t c) = length c"
  by (simp add: reprice_def)

lemma reprice_nth: "i < length c \<Longrightarrow> reprice t c ! i = (c ! i)\<lparr>finalPrice := getPrice (c ! i) t\<rparr>"
  by (simp add: reprice_def)

lemma reprice_Nil [simp]: "reprice t [] = []"
  by (simp add: reprice_def)

lemma map_product_id_reprice [simp]: "map product_id (reprice t c) = map product_id c"
  by (simp add: reprice_def comp_def)

lemma map_quantity_reprice [simp]: "map quantity (reprice t c) = map quantity c"
  by (simp add: reprice_def comp_def)

lemma reprice_append: "reprice t (c @ d) = reprice t c @ reprice t d"
  by (simp add: reprice_def)

lemma reprice_reprice: "reprice t2 (reprice t1 c) = reprice t2 c"
  by (simp add: reprice_def comp_def)

end
