(* ===== verification/MockData.thy ===== *)
theory MockData
  imports Types
begin

text \<open>
  The module-level data of \<open>src/services/mockData.ts\<close>: the default settings
  and the mock tables every page starts from. \<open>MOCK_PRODUCTS\<close> and
  \<open>MOCK_SALES\<close> are the two arrays the POS mutates in place (stock decrement,
  \<open>unshift\<close> of a new sale); here they are the initial values of the store of
  \<open>Checkout\<close>. The two mock sales are dated relative to the moment the
  module is loaded (\<open>Date.now()\<close>), so \<open>MOCK_SALES\<close> takes that moment as
  its argument. Strings are byte strings: the accented letters of the source
  are written as their UTF-8 bytes.
\<close>

definition e_acute :: string where "e_acute = [CHR 0xC3, CHR 0xA9]"
definition o_acute :: string where "o_acute = [CHR 0xC3, CHR 0xB3]"

definition DEFAULT_SETTINGS :: company_settings where
  "DEFAULT_SETTINGS = \<lparr>company_name = ''PerfiSoft Store'', address = ''Av. Principal 123, Ciudad'',
     phone = ''555-0000'', logoUrl = '''', currencySymbol = ''S/'', taxName = ''IGV'', taxRate = 18\<rparr>"

definition MOCK_USERS :: "user list" where
  "MOCK_USERS =
    [\<lparr>user_id = ''1'', user_name = ''Admin User'', user_email = ''admin@perfisoft.com'', role = ADMIN,
      user_active = True, avatarUrl = Some ''https://picsum.photos/100/100?random=1''\<rparr>,
     \<lparr>user_id = ''2'', user_name = ''Juan P'' @ e_acute @ ''rez'', user_email = ''juan@perfisoft.com'', role = SELLER,
      user_active = True, avatarUrl = Some ''https://picsum.photos/100/100?random=2''\<rparr>,
     \<lparr>user_id = ''3'', user_name = ''Maria Lopez'', user_email = ''maria@perfisoft.com'', role = SALES_MANAGER,
      user_active = True, avatarUrl = Some ''https://picsum.photos/100/100?random=3''\<rparr>]"

definition MOCK_CLIENTS :: "client list" where
  "MOCK_CLIENTS =
    [\<lparr>client_id = ''1'', client_name = ''Consumidor Final'', client_email = ''-'', client_phone = ''-'',
      taxId = ''00000000'', client_address = ''-'', client_active = True\<rparr>,
     \<lparr>client_id = ''2'', client_name = ''Empresa ABC S.A.'', client_email = ''contacto@abc.com'',
      client_phone = ''555-1234'', taxId = ''20123456789'', client_address = ''Av. Siempre Viva 123'',
      client_active = True\<rparr>]"

definition MOCK_BRANDS :: "brand list" where
  "MOCK_BRANDS =
    [\<lparr>brand_id = ''1'', brand_name = ''Nike'', brand_color = ''#000000'', brand_active = True\<rparr>,
     \<lparr>brand_id = ''2'', brand_name = ''Adidas'', brand_color = ''#0051ba'', brand_active = True\<rparr>,
     \<lparr>brand_id = ''3'', brand_name = ''Samsung'', brand_color = ''#1428a0'', brand_active = True\<rparr>,
     \<lparr>brand_id = ''4'', brand_name = ''Apple'', brand_color = ''#555555'', brand_active = True\<rparr>]"

definition MOCK_CATEGORIES :: "category list" where
  "MOCK_CATEGORIES =
    [\<lparr>category_id = ''1'', category_name = ''Zapatillas'', category_color = ''#ff6b6b'', category_active = True\<rparr>,
     \<lparr>category_id = ''2'', category_name = ''Electr'' @ o_acute @ ''nica'', category_color = ''#4ecdc4'',
      category_active = True\<rparr>,
     \<lparr>category_id = ''3'', category_name = ''Accesorios'', category_color = ''#ffe66d'', category_active = True\<rparr>]"

definition MOCK_PAYMENT_METHODS :: "payment_method list" where
  "MOCK_PAYMENT_METHODS =
    [\<lparr>payment_id = ''1'', payment_name = ''Efectivo'', payment_active = True\<rparr>,
     \<lparr>payment_id = ''2'', payment_name = ''Tarjeta de Cr'' @ e_acute @ ''dito/D'' @ e_acute @ ''bito'',
      payment_active = True\<rparr>,
     \<lparr>payment_id = ''3'', payment_name = ''Yape / Plin'', payment_active = True\<rparr>,
     \<lparr>payment_id = ''4'', payment_name = ''Transferencia Bancaria'', payment_active = True\<rparr>]"

definition MOCK_PRODUCTS :: "product list" where
  "MOCK_PRODUCTS =
    [\<lparr>product_id = ''1'', code = ''P001'', name = ''Nike Air Max'', categoryId = ''1'', brandId = ''1'',
      buyPrice = 80, priceRetail = 150, priceWholesale = 130, priceSpecial = 110,
      stock = 50, minStock = 10, imageUrl = ''https://picsum.photos/200/200?random=10'', isActive = True\<rparr>,
     \<lparr>product_id = ''2'', code = ''P002'', name = ''Adidas Superstar'', categoryId = ''1'', brandId = ''2'',
      buyPrice = 60, priceRetail = 110, priceWholesale = 95, priceSpecial = 85,
      stock = 35, minStock = 10, imageUrl = ''https://picsum.photos/200/200?random=11'', isActive = True\<rparr>,
     \<lparr>product_id = ''3'', code = ''P003'', name = ''Samsung Galaxy S23'', categoryId = ''2'', brandId = ''3'',
      buyPrice = 600, priceRetail = 900, priceWholesale = 850, priceSpecial = 800,
      stock = 10, minStock = 15, imageUrl = ''https://picsum.photos/200/200?random=12'', isActive = True\<rparr>,
     \<lparr>product_id = ''4'', code = ''P004'', name = ''iPhone 14'', categoryId = ''2'', brandId = ''4'',
      buyPrice = 700, priceRetail = 1100, priceWholesale = 1050, priceSpecial = 980,
      stock = 8, minStock = 5, imageUrl = ''https://picsum.photos/200/200?random=13'', isActive = True\<rparr>]"

definition MOCK_SALES :: "timestamp \<Rightarrow> sale list" where
  "MOCK_SALES loadedAt =
    [\<lparr>sale_id = ''1001'', date = loadedAt - 86400000, clientId = Some ''1'', paymentMethod = ''Efectivo'',
      items = [item_of (MOCK_PRODUCTS ! 0) 1 150, item_of (MOCK_PRODUCTS ! 2) 1 900],
      subtotal = 1050, tax = 0, sale_total = 1050, sale_status = Completed\<rparr>,
     \<lparr>sale_id = ''1002'', date = loadedAt, clientId = Some ''2'', paymentMethod = ''Transferencia Bancaria'',
      items = [item_of (MOCK_PRODUCTS ! 1) 2 110],
      subtotal = 220, tax = 0, sale_total = 220, sale_status = Completed\<rparr>]"

definition MOCK_SESSIONS :: "cash_register_session list" where
  "MOCK_SESSIONS = []"

lemma MOCK_PRODUCTS_ids_distinct: "distinct (map product_id MOCK_PRODUCTS)"
  by (simp add: MOCK_PRODUCTS_def)

lemma MOCK_PRODUCTS_stock_nonneg: "\<forall>p \<in> set MOCK_PRODUCTS. 0 \<le> stock p"
  by (simp add: MOCK_PRODUCTS_def)

end
