(* ===== verification/Cart.thy ===== *)
theory Cart
  imports Pricing MockData
begin

text \<open>
  The cart engine of \<open>src/pages/Sales/POS.tsx\<close>. The component's React state
  (\<open>useState\<close> hooks) is the record \<open>pos_state\<close>; each handler is a function
  from the state to the state, with the catalog \<open>MOCK_PRODUCTS\<close> (a module
  global read by \<open>handleKeyDown\<close> and \<open>updateQuantity\<close>) passed explicitly.
  \<open>showError\<close> records the message in \<open>errorToast\<close>; the messages are a
  datatype that keeps the values the source interpolates into them; the
  sounds played by \<open>playBeep\<close> are not modelled; the toast timers are in
  \<open>Timers\<close>.
  The invariant \<open>cart_inv\<close> says that cart lines have distinct product ids,
  a quantity of at least 1 and at most the live stock of their product; every
  cart handler keeps it when the catalog's ids are distinct.
\<close>

datatype pos_error =
    OutOfStock string
  | StockLeft int string
  | MaxStockReached int
  | NoPaymentMethod

datatype pos_notice = PlusOne string | Added string

record pos_state =
  cart :: "cart_item list"
  searchTerm :: string
  selectedClient :: "client option"
  isClientModalOpen :: bool
  priceType :: price_type
  selectedPaymentMethod :: string
  selectedCategory :: string
  errorToast :: "pos_error option"
  successToast :: "pos_notice option"
  showSuccessModal :: bool
  lastSale :: "sale option"

text \<open>The state right after the component mounts: the hooks' initial values and the
  effect that selects the first payment method offered (the active ones).\<close>

definition pos_init :: "payment_method list \<Rightarrow> pos_state" where
  "pos_init paymentMethods =
    \<lparr>cart = [], searchTerm = '''', selectedClient = None, isClientModalOpen = False,
     priceType = Retail,
     selectedPaymentMethod = (case paymentMethods of [] \<Rightarrow> '''' | m # _ \<Rightarrow> payment_name m),
     selectedCategory = ''all'', errorToast = None, successToast = None,
     showSuccessModal = False, lastSale = None\<rparr>"

definition filteredProducts :: "product list \<Rightarrow> pos_state \<Rightarrow> product list" where
  "filteredProducts products s =
     filter (\<lambda>p. let term = toLowerCase (searchTerm s);
                    matchesSearch = (str_includes (toLowerCase (name p)) term \<or>
                                     str_includes (toLowerCase (code p)) term);
                    matchesCategory = (selectedCategory s = ''all'' \<or> categoryId p = selectedCategory s)
                in matchesSearch \<and> matchesCategory) products"

definition showError :: "pos_error \<Rightarrow> pos_state \<Rightarrow> pos_state" where
  "showError msg s = s\<lparr>errorToast := Some msg\<rparr>"

definition addToCart :: "product \<Rightarrow> pos_state \<Rightarrow> pos_state" where
  "addToCart product s =
    (if stock product \<le> 0 then showError (OutOfStock (name product)) s
     else
       let existing = find (\<lambda>item. product_id item = product_id product) (cart s);
           priceToUse = getPrice product (priceType s)
       in case existing of
            Some ex \<Rightarrow>
              if quantity ex + 1 > stock product
              then showError (StockLeft (stock product) (name product)) s
              else s\<lparr>cart := map (\<lambda>item. if product_id item = product_id product
                                         then item\<lparr>quantity := quantity item + 1, finalPrice := priceToUse\<rparr>
                                         else item) (cart s),
                     successToast := Some (PlusOne (name product))\<rparr>
          | None \<Rightarrow>
              s\<lparr>cart := cart s @ [item_of product 1 priceToUse],
                successToast := Some (Added (name product))\<rparr>)"

text \<open>A click on a product card: out-of-stock cards ignore the click.\<close>

definition isOutOfStock :: "'a product_scheme \<Rightarrow> bool" where
  "isOutOfStock p = (stock p \<le> 0)"

definition isLowStock :: "'a product_scheme \<Rightarrow> bool" where
  "isLowStock p = (\<not> isOutOfStock p \<and> stock p \<le> minStock p)"

definition clickProduct :: "product \<Rightarrow> pos_state \<Rightarrow> pos_state" where
  "clickProduct p s = (if \<not> isOutOfStock p then addToCart p s else s)"

definition handleKeyDown :: "product list \<Rightarrow> string \<Rightarrow> pos_state \<Rightarrow> pos_state" where
  "handleKeyDown products key s =
    (if key = ''Enter'' \<and> searchTerm s \<noteq> ''''
     then (case find (\<lambda>p. code p = searchTerm s) products of
             Some scannedProduct \<Rightarrow> (addToCart scannedProduct s)\<lparr>searchTerm := ''''\<rparr>
           | None \<Rightarrow> s)
     else s)"

definition updateQuantity :: "product list \<Rightarrow> string \<Rightarrow> int \<Rightarrow> pos_state \<Rightarrow> pos_state" where
  "updateQuantity products pid delta s =
    (case (find (\<lambda>item. product_id item = pid) (cart s), find (\<lambda>p. product_id p = pid) products) of
       (Some itemInCart, Some originalProduct) \<Rightarrow>
         if delta > 0 \<and> quantity itemInCart + delta > stock originalProduct
         then showError (MaxStockReached (stock originalProduct)) s
         else s\<lparr>cart := map (\<lambda>item. if product_id item = pid
                                   then item\<lparr>quantity := max 1 (quantity item + delta)\<rparr> else item) (cart s)\<rparr>
     | _ \<Rightarrow> s)"

definition handlePriceTypeChange :: "price_type \<Rightarrow> pos_state \<Rightarrow> pos_state" where
  "handlePriceTypeChange newType s = s\<lparr>priceType := newType, cart := reprice newType (cart s)\<rparr>"

definition removeFromCart :: "string \<Rightarrow> pos_state \<Rightarrow> pos_state" where
  "removeFromCart pid s = s\<lparr>cart := filter (\<lambda>item. product_id item \<noteq> pid) (cart s)\<rparr>"

definition subTotal :: "cart_item list \<Rightarrow> money" where
  "subTotal c = foldl (\<lambda>acc item. acc + finalPrice item * of_int (quantity item)) 0 c"

definition taxAmount :: "company_settings \<Rightarrow> cart_item list \<Rightarrow> money" where
  "taxAmount settings c = (subTotal c * taxRate settings) / 100"

definition pos_total :: "company_settings \<Rightarrow> cart_item list \<Rightarrow> money" where
  "pos_total settings c = subTotal c + taxAmount settings c"

definition handleNewSale :: "pos_state \<Rightarrow> pos_state" where
  "handleNewSale s = s\<lparr>cart := [], selectedClient := None, lastSale := None, showSuccessModal := False\<rparr>"

declare showError_def [pos_defs] addToCart_def [pos_defs] clickProduct_def [pos_defs]
  handleKeyDown_def [pos_defs] updateQuantity_def [pos_defs] handlePriceTypeChange_def [pos_defs]
  removeFromCart_def [pos_defs] handleNewSale_def [pos_defs]

subsection \<open>The cart invariant\<close>

definition live_stock :: "product list \<Rightarrow> string \<Rightarrow> int option" where
  "live_stock products pid = map_option stock (find (\<lambda>p. product_id p = pid) products)"

definition line_ok :: "product list \<Rightarrow> cart_item \<Rightarrow> bool" where
  "line_ok products item =
     (1 \<le> quantity item \<and>
      (case live_stock products (product_id item) of None \<Rightarrow> False | Some n \<Rightarrow> quantity item \<le> n))"

definition cart_inv :: "product list \<Rightarrow> cart_item list \<Rightarrow> bool" where
  "cart_inv products c = (distinct (map product_id c) \<and> list_all (line_ok products) c)"


subsection \<open>Properties of the cart handlers\<close>

lemma live_stock_member:
  "distinct (map product_id products) \<Longrightarrow> p \<in> set products \<Longrightarrow> live_stock products (product_id p) = Some (stock p)"
  by (simp add: live_stock_def find_distinct_key)

lemma line_ok_finalPrice [simp]: "line_ok products (item\<lparr>finalPrice := x\<rparr>) = line_ok products item"
  by (simp add: line_ok_def split: option.split)

lemma cart_find_unique:
  "distinct (map product_id c) \<Longrightarrow> find (\<lambda>i. product_id i = k) c = Some ex \<Longrightarrow> item \<in> set c \<Longrightarrow> product_id item = k \<Longrightarrow> item = ex"
  using find_key_unique [of product_id c item k] by simp

lemma distinct_map_update_key:
  "(\<And>i. product_id (f i) = product_id i) \<Longrightarrow> distinct (map product_id (map f c)) = distinct (map product_id c)"
  by (simp add: comp_def)

lemma addToCart_cart_inv:
  assumes cat: "distinct (map product_id products)" "p \<in> set products"
    and inv: "cart_inv products (cart s)"
  shows "cart_inv products (cart (addToCart p s))"
proof (cases "stock p \<le> 0")
  case True
  with inv show ?thesis by (simp add: addToCart_def showError_def)
next
  case pos: False
  have ls: "live_stock products (product_id p) = Some (stock p)"
    using cat by (rule live_stock_member)
  show ?thesis
  proof (cases "find (\<lambda>item. product_id item = product_id p) (cart s)")
    case None
    then have "product_id p \<notin> set (map product_id (cart s))"
      by (auto simp: find_None_iff')
    with None pos inv ls show ?thesis
      by (auto simp: addToCart_def cart_inv_def line_ok_def Let_def)
  next
    case (Some ex)
    show ?thesis
    proof (cases "quantity ex + 1 > stock p")
      case True
      with pos Some inv show ?thesis by (simp add: addToCart_def showError_def Let_def)
    next
      case False
      have ex: "ex \<in> set (cart s)" "product_id ex = product_id p"
        using find_Some_in_set [OF Some] by simp_all
      have "line_ok products ex" using inv ex(1) by (simp add: cart_inv_def list_all_iff)
      then have "1 \<le> quantity ex" by (simp add: line_ok_def)
      have lines: "line_ok products (item\<lparr>quantity := quantity item + 1, finalPrice := getPrice p (priceType s)\<rparr>)"
        if "item \<in> set (cart s)" "product_id item = product_id p" for item
      proof -
        from inv that Some have "item = ex" by (auto simp: cart_inv_def intro: cart_find_unique)
        with False \<open>1 \<le> quantity ex\<close> ls that(2) show ?thesis by (simp add: line_ok_def)
      qed
      have ids: "map product_id (cart (addToCart p s)) = map product_id (cart s)"
        using pos Some False by (simp add: addToCart_def Let_def)
      have "list_all (line_ok products) (cart (addToCart p s))"
        using pos Some False inv lines by (auto simp: addToCart_def cart_inv_def list_all_iff Let_def)
      with ids inv show ?thesis by (simp add: cart_inv_def)
    qed
  qed
qed

text \<open>C17. Adding a product whose live stock is 0 or less fails with the out-of-stock
  message naming the product, and nothing else of the POS state changes: the cart
  is left as it was.\<close>

lemma addToCart_out_of_stock:
  "stock p \<le> 0 \<Longrightarrow> addToCart p s = s\<lparr>errorToast := Some (OutOfStock (name p))\<rparr>"
  by (simp add: addToCart_def showError_def)

text \<open>C18. Adding a product already in the cart whose line quantity plus one would
  exceed the product's live stock fails with the ``only n left'' message and
  leaves the cart unchanged.\<close>

lemma addToCart_stock_exceeded:
  assumes "0 < stock p" and "find (\<lambda>item. product_id item = product_id p) (cart s) = Some ex"
    and "stock p < quantity ex + 1"
  shows "addToCart p s = s\<lparr>errorToast := Some (StockLeft (stock p) (name p))\<rparr>"
  using assms by (simp add: addToCart_def showError_def Let_def)

lemma addToCart_new_line:
  assumes "0 < stock p" and "find (\<lambda>item. product_id item = product_id p) (cart s) = None"
  shows "cart (addToCart p s) = cart s @ [item_of p 1 (getPrice p (priceType s))]"
  using assms by (simp add: addToCart_def Let_def)

lemma addToCart_increment:
  assumes "0 < stock p" and "find (\<lambda>item. product_id item = product_id p) (cart s) = Some ex"
    and "quantity ex + 1 \<le> stock p"
  shows "find (\<lambda>item. product_id item = product_id p) (cart (addToCart p s)) =
           Some (ex\<lparr>quantity := quantity ex + 1, finalPrice := getPrice p (priceType s)\<rparr>)"
proof -
  have "cart (addToCart p s) = map (\<lambda>item. if product_id item = product_id p
          then item\<lparr>quantity := quantity item + 1, finalPrice := getPrice p (priceType s)\<rparr> else item) (cart s)"
    using assms by (simp add: addToCart_def Let_def)
  also have "find (\<lambda>item. product_id item = product_id p) \<dots> =
      map_option (\<lambda>item. if product_id item = product_id p
          then item\<lparr>quantity := quantity item + 1, finalPrice := getPrice p (priceType s)\<rparr> else item)
        (find (\<lambda>item. product_id item = product_id p) (cart s))"
    by (rule find_map_cong) simp
  finally show ?thesis
    using assms(2) find_Some_in_set [OF assms(2)] by simp
qed

text \<open>C19. Raising a line's quantity by a positive delta beyond the live stock of the
  catalog product with that id fails with the maximum-stock message and leaves
  the quantity (and the whole cart) unchanged.\<close>

lemma updateQuantity_stock_exceeded:
  assumes "find (\<lambda>item. product_id item = pid) (cart s) = Some itemInCart"
    and "find (\<lambda>p. product_id p = pid) products = Some originalProduct"
    and "0 < delta" and "stock originalProduct < quantity itemInCart + delta"
  shows "updateQuantity products pid delta s = s\<lparr>errorToast := Some (MaxStockReached (stock originalProduct))\<rparr>"
  using assms by (simp add: updateQuantity_def showError_def)

text \<open>C22. When the stock check passes (or the delta is not positive), the line's new
  quantity is \<open>max 1 (quantity + delta)\<close>: decrementing never removes a line,
  it clamps at 1.\<close>

lemma updateQuantity_line:
  assumes "find (\<lambda>item. product_id item = pid) (cart s) = Some itemInCart"
    and "find (\<lambda>p. product_id p = pid) products = Some originalProduct"
    and "\<not> (0 < delta \<and> stock originalProduct < quantity itemInCart + delta)"
  shows "find (\<lambda>item. product_id item = pid) (cart (updateQuantity products pid delta s)) =
           Some (itemInCart\<lparr>quantity := max 1 (quantity itemInCart + delta)\<rparr>)"
proof -
  have "cart (updateQuantity products pid delta s) = map (\<lambda>item. if product_id item = pid
          then item\<lparr>quantity := max 1 (quantity item + delta)\<rparr> else item) (cart s)"
    using assms by (auto simp: updateQuantity_def)
  also have "find (\<lambda>item. product_id item = pid) \<dots> =
      map_option (\<lambda>item. if product_id item = pid then item\<lparr>quantity := max 1 (quantity item + delta)\<rparr> else item)
        (find (\<lambda>item. product_id item = pid) (cart s))"
    by (rule find_map_cong) simp
  finally show ?thesis
    using assms(1) find_Some_in_set [OF assms(1)] by simp
qed

lemma updateQuantity_missing:
  "find (\<lambda>item. product_id item = pid) (cart s) = None \<or> find (\<lambda>p. product_id p = pid) products = None \<Longrightarrow>
   updateQuantity products pid delta s = s"
  by (auto simp: updateQuantity_def split: option.split)

lemma updateQuantity_cart_inv:
  assumes inv: "cart_inv products (cart s)"
  shows "cart_inv products (cart (updateQuantity products pid delta s))"
proof (cases "find (\<lambda>item. product_id item = pid) (cart s)")
  case None
  with inv show ?thesis by (simp add: updateQuantity_missing)
next
  case (Some itemInCart)
  note inCart = Some
  show ?thesis
  proof (cases "find (\<lambda>p. product_id p = pid) products")
    case None
    with inv show ?thesis by (simp add: updateQuantity_missing)
  next
    case (Some originalProduct)
    show ?thesis
    proof (cases "0 < delta \<and> stock originalProduct < quantity itemInCart + delta")
      case True
      with inv inCart Some show ?thesis by (simp add: updateQuantity_stock_exceeded)
    next
      case ok: False
      have ls: "live_stock products pid = Some (stock originalProduct)"
        using Some by (simp add: live_stock_def)
      have it: "itemInCart \<in> set (cart s)" "product_id itemInCart = pid"
        using find_Some_in_set [OF inCart] by simp_all
      then have "line_ok products itemInCart" using inv by (simp add: cart_inv_def list_all_iff)
      with ls it have q: "1 \<le> quantity itemInCart" "quantity itemInCart \<le> stock originalProduct"
        by (simp_all add: line_ok_def)
      have lines: "line_ok products (item\<lparr>quantity := max 1 (quantity item + delta)\<rparr>)"
        if "item \<in> set (cart s)" "product_id item = pid" for item
      proof -
        from inv that inCart have "item = itemInCart" by (auto simp: cart_inv_def intro: cart_find_unique)
        with ok q ls that(2) show ?thesis by (auto simp: line_ok_def)
      qed
      have ids: "map product_id (cart (updateQuantity products pid delta s)) = map product_id (cart s)"
        using inCart Some ok by (auto simp: updateQuantity_def)
      have "list_all (line_ok products) (cart (updateQuantity products pid delta s))"
        using inCart Some ok inv lines by (auto simp: updateQuantity_def cart_inv_def list_all_iff)
      with ids inv show ?thesis by (simp add: cart_inv_def)
    qed
  qed
qed

lemma removeFromCart_gone:
  "find (\<lambda>item. product_id item = pid) (cart (removeFromCart pid s)) = None"
  by (simp add: removeFromCart_def find_filter_gone)

lemma removeFromCart_cart_inv:
  "cart_inv products (cart s) \<Longrightarrow> cart_inv products (cart (removeFromCart pid s))"
  by (auto simp: removeFromCart_def cart_inv_def list_all_iff distinct_map_filter)

text \<open>Selecting the same price tier twice gives the same POS state, and so the
  same final prices, as selecting it once.\<close>

lemma handlePriceTypeChange_idem:
  "handlePriceTypeChange t (handlePriceTypeChange t s) = handlePriceTypeChange t s"
  by (simp add: handlePriceTypeChange_def reprice_reprice)

lemma line_ok_reprice: "list_all (line_ok products) (reprice t c) = list_all (line_ok products) c"
  by (simp add: reprice_def list_all_iff)

lemma handlePriceTypeChange_cart_inv:
  "cart_inv products (cart s) \<Longrightarrow> cart_inv products (cart (handlePriceTypeChange t s))"
  by (simp add: handlePriceTypeChange_def cart_inv_def line_ok_reprice)

lemma subTotal_sum: "subTotal c = sum_list (map line_amount c)"
  by (simp add: subTotal_def line_amount_def [abs_def])

lemma subTotal_reprice:
  "subTotal (reprice t c) = sum_list (map (\<lambda>item. getPrice item t * of_int (quantity item)) c)"
  by (simp add: subTotal_def reprice_def comp_def)

lemma pos_total_eq: "pos_total settings c = subTotal c * (1 + taxRate settings / 100)"
  by (simp add: pos_total_def taxAmount_def field_simps)

text \<open>A key press adds nothing unless a catalog product's code equals the search
  term exactly: with no exact match the state is unchanged (no substring match
  triggers an add).\<close>

lemma handleKeyDown_no_exact_match:
  "find (\<lambda>p. code p = searchTerm s) products = None \<Longrightarrow> handleKeyDown products key s = s"
  by (simp add: handleKeyDown_def)


subsection \<open>Witnesses on the mock catalog\<close>

theorem addToCart_out_of_stock_witness:
  "stock ((MOCK_PRODUCTS ! 0)\<lparr>stock := 0\<rparr>) \<le> 0 \<and>
   addToCart ((MOCK_PRODUCTS ! 0)\<lparr>stock := 0\<rparr>) (pos_init MOCK_PAYMENT_METHODS) =
     (pos_init MOCK_PAYMENT_METHODS)\<lparr>errorToast := Some (OutOfStock ''Nike Air Max'')\<rparr>"
  using addToCart_out_of_stock [of "(MOCK_PRODUCTS ! 0)\<lparr>stock := 0\<rparr>" "pos_init MOCK_PAYMENT_METHODS"]
  by (simp add: MOCK_PRODUCTS_def)

theorem addToCart_stock_exceeded_witness:
  "0 < stock ((MOCK_PRODUCTS ! 0)\<lparr>stock := 1\<rparr>) \<and>
   find (\<lambda>item. product_id item = product_id ((MOCK_PRODUCTS ! 0)\<lparr>stock := 1\<rparr>))
     (cart ((pos_init MOCK_PAYMENT_METHODS)\<lparr>cart := [item_of ((MOCK_PRODUCTS ! 0)\<lparr>stock := 1\<rparr>) 1 150]\<rparr>)) =
     Some (item_of ((MOCK_PRODUCTS ! 0)\<lparr>stock := 1\<rparr>) 1 150) \<and>
   stock ((MOCK_PRODUCTS ! 0)\<lparr>stock := 1\<rparr>) < quantity (item_of ((MOCK_PRODUCTS ! 0)\<lparr>stock := 1\<rparr>) 1 150) + 1 \<and>
   addToCart ((MOCK_PRODUCTS ! 0)\<lparr>stock := 1\<rparr>)
     ((pos_init MOCK_PAYMENT_METHODS)\<lparr>cart := [item_of ((MOCK_PRODUCTS ! 0)\<lparr>stock := 1\<rparr>) 1 150]\<rparr>) =
   (pos_init MOCK_PAYMENT_METHODS)\<lparr>cart := [item_of ((MOCK_PRODUCTS ! 0)\<lparr>stock := 1\<rparr>) 1 150],
      errorToast := Some (StockLeft 1 ''Nike Air Max'')\<rparr>"
  using addToCart_stock_exceeded [of "(MOCK_PRODUCTS ! 0)\<lparr>stock := 1\<rparr>"
      "(pos_init MOCK_PAYMENT_METHODS)\<lparr>cart := [item_of ((MOCK_PRODUCTS ! 0)\<lparr>stock := 1\<rparr>) 1 150]\<rparr>"
      "item_of ((MOCK_PRODUCTS ! 0)\<lparr>stock := 1\<rparr>) 1 150"]
  by (simp add: MOCK_PRODUCTS_def)

theorem updateQuantity_stock_exceeded_witness:
  "find (\<lambda>item. product_id item = ''3'') [item_of (MOCK_PRODUCTS ! 2) 10 900] = Some (item_of (MOCK_PRODUCTS ! 2) 10 900) \<and>
   find (\<lambda>p. product_id p = ''3'') MOCK_PRODUCTS = Some (MOCK_PRODUCTS ! 2) \<and>
   (0::int) < 1 \<and> stock (MOCK_PRODUCTS ! 2) < quantity (item_of (MOCK_PRODUCTS ! 2) 10 900) + 1 \<and>
   updateQuantity MOCK_PRODUCTS ''3'' 1 ((pos_init MOCK_PAYMENT_METHODS)\<lparr>cart := [item_of (MOCK_PRODUCTS ! 2) 10 900]\<rparr>) =
   (pos_init MOCK_PAYMENT_METHODS)\<lparr>cart := [item_of (MOCK_PRODUCTS ! 2) 10 900],
      errorToast := Some (MaxStockReached 10)\<rparr>"
  using updateQuantity_stock_exceeded [of "''3''"
      "(pos_init MOCK_PAYMENT_METHODS)\<lparr>cart := [item_of (MOCK_PRODUCTS ! 2) 10 900]\<rparr>"
      "item_of (MOCK_PRODUCTS ! 2) 10 900" MOCK_PRODUCTS "MOCK_PRODUCTS ! 2" 1]
  by (simp add: MOCK_PRODUCTS_def)

theorem updateQuantity_line_witness:
  "find (\<lambda>item. product_id item = ''3'') [item_of (MOCK_PRODUCTS ! 2) 1 900] = Some (item_of (MOCK_PRODUCTS ! 2) 1 900) \<and>
   find (\<lambda>p. product_id p = ''3'') MOCK_PRODUCTS = Some (MOCK_PRODUCTS ! 2) \<and>
   \<not> ((0::int) < -1 \<and> stock (MOCK_PRODUCTS ! 2) < quantity (item_of (MOCK_PRODUCTS ! 2) 1 900) + -1) \<and>
   find (\<lambda>item. product_id item = ''3'')
     (cart (updateQuantity MOCK_PRODUCTS ''3'' (-1) ((pos_init MOCK_PAYMENT_METHODS)\<lparr>cart := [item_of (MOCK_PRODUCTS ! 2) 1 900]\<rparr>))) =
     Some (item_of (MOCK_PRODUCTS ! 2) 1 900)"
  using updateQuantity_line [of "''3''"
      "(pos_init MOCK_PAYMENT_METHODS)\<lparr>cart := [item_of (MOCK_PRODUCTS ! 2) 1 900]\<rparr>"
      "item_of (MOCK_PRODUCTS ! 2) 1 900" MOCK_PRODUCTS "MOCK_PRODUCTS ! 2" "-1"]
  by (simp add: MOCK_PRODUCTS_def)

theorem handleKeyDown_no_exact_match_witness:
  "find (\<lambda>p. code p = searchTerm ((pos_init MOCK_PAYMENT_METHODS)\<lparr>searchTerm := ''P00''\<rparr>)) MOCK_PRODUCTS = None \<and>
   handleKeyDown MOCK_PRODUCTS ''Enter'' ((pos_init MOCK_PAYMENT_METHODS)\<lparr>searchTerm := ''P00''\<rparr>) =
     (pos_init MOCK_PAYMENT_METHODS)\<lparr>searchTerm := ''P00''\<rparr>"
  using handleKeyDown_no_exact_match [of "(pos_init MOCK_PAYMENT_METHODS)\<lparr>searchTerm := ''P00''\<rparr>" MOCK_PRODUCTS "''Enter''"]
  by (simp add: MOCK_PRODUCTS_def)

end
