(* ===== verification/Checkout.thy ===== *)
theory Checkout
  imports Cart
begin

text \<open>
  The checkout processor, \<open>handleCheckout\<close> of \<open>src/pages/Sales/POS.tsx\<close>.
  The two module-level arrays it mutates, \<open>MOCK_PRODUCTS\<close> and
  \<open>MOCK_SALES\<close>, are the record \<open>store\<close> (\<open>catalog\<close>, \<open>ledger\<close>); the
  handler takes the store and the POS state and returns both, together with
  the argument of the \<open>onSaleComplete\<close> callback when it is called
  (\<open>None\<close> when it is not), which the application (\<open>Session\<close>) adds to the
  open session. \<open>Date.now()\<close> is the handler's \<open>now\<close> and the id
  \<open>Date.now().toString()\<close> its \<open>saleId\<close>, both supplied by the environment.
  The stock loop (\<open>cart.forEach\<close> with \<open>findIndex\<close> and an in-place
  decrement) is a left fold of \<open>deductStock\<close>; \<open>MOCK_SALES.unshift\<close>
  is a cons.
  The lemmas show that a checkout without a payment method changes neither
  the catalog nor the ledger, and that a successful one lowers the live stock
  of each product by exactly the quantity the cart holds of it, prepends one
  completed sale and reports its total.
\<close>

record store =
  catalog :: "product list"
  ledger :: "sale list"

definition deductStock :: "product list \<Rightarrow> cart_item \<Rightarrow> product list" where
  "deductStock ps cartItem =
    (case findIndex (\<lambda>p. product_id p = product_id cartItem) ps of
       Some productIndex \<Rightarrow>
         ps[productIndex := (ps ! productIndex)\<lparr>stock := stock (ps ! productIndex) - quantity cartItem\<rparr>]
     | None \<Rightarrow> ps)"

definition sale_clientId :: "client option \<Rightarrow> string option" where
  "sale_clientId c = (case c of None \<Rightarrow> None | Some cl \<Rightarrow> if client_id cl = '''' then None else Some (client_id cl))"

definition handleCheckout ::
  "company_settings \<Rightarrow> string \<Rightarrow> timestamp \<Rightarrow> store \<Rightarrow> pos_state \<Rightarrow> store \<times> pos_state \<times> money option" where
  "handleCheckout settings saleId now db s =
    (if selectedPaymentMethod s = '''' then (db, showError NoPaymentMethod s, None)
     else
       let sale = \<lparr>sale_id = saleId, date = now, clientId = sale_clientId (selectedClient s),
                   paymentMethod = selectedPaymentMethod s, items = cart s,
                   subtotal = subTotal (cart s), tax = taxAmount settings (cart s),
                   sale_total = pos_total settings (cart s), sale_status = Completed\<rparr>;
           products' = foldl deductStock (catalog db) (cart s)
       in (db\<lparr>catalog := products', ledger := sale # ledger db\<rparr>,
           s\<lparr>lastSale := Some sale, showSuccessModal := True\<rparr>,
           Some (pos_total settings (cart s))))"

text \<open>How many units of product \<open>k\<close> a list of lines holds.\<close>

definition qty_of :: "cart_item list \<Rightarrow> string \<Rightarrow> int" where
  "qty_of c k = sum_list (map quantity (filter (\<lambda>item. product_id item = k) c))"

subsection \<open>The stock loop\<close>

lemma deductStock_ids [simp]: "map product_id (deductStock ps item) = map product_id ps"
proof (cases "findIndex (\<lambda>p. product_id p = product_id item) ps")
  case None
  then show ?thesis by (simp add: deductStock_def)
next
  case (Some i)
  then have "i < length ps" using findIndex_Some by blast
  with Some show ?thesis by (simp add: deductStock_def map_update list_update_same_conv)
qed

lemma foldl_deductStock_ids [simp]: "map product_id (foldl deductStock ps c) = map product_id ps"
  by (induction c arbitrary: ps) simp_all

lemma live_stock_deductStock:
  "live_stock (deductStock ps item) k =
     (if product_id item = k then map_option (\<lambda>n. n - quantity item) (live_stock ps k) else live_stock ps k)"
proof (cases "findIndex (\<lambda>p. product_id p = product_id item) ps")
  case None
  then have "find (\<lambda>p. product_id p = product_id item) ps = None"
    by (simp add: find_conv_findIndex)
  with None show ?thesis by (auto simp: deductStock_def live_stock_def)
next
  case (Some i)
  note fi = findIndex_Some [OF Some]
  show ?thesis
  proof (cases "product_id item = k")
    case True
    have "find (\<lambda>p. product_id p = k) (deductStock ps item) =
          Some ((ps ! i)\<lparr>stock := stock (ps ! i) - quantity item\<rparr>)"
      using Some fi True by (simp add: deductStock_def find_update_findIndex)
    moreover have "find (\<lambda>p. product_id p = k) ps = Some (ps ! i)"
      using Some True by (simp add: find_conv_findIndex)
    ultimately show ?thesis using True by (simp add: live_stock_def)
  next
    case False
    have "find (\<lambda>p. product_id p = k) (deductStock ps item) = find (\<lambda>p. product_id p = k) ps"
      using Some fi False by (simp add: deductStock_def find_update_other)
    with False show ?thesis by (simp add: live_stock_def)
  qed
qed

lemma qty_of_Nil [simp]: "qty_of [] k = 0"
  by (simp add: qty_of_def)

lemma qty_of_Cons: "qty_of (item # c) k = (if product_id item = k then quantity item else 0) + qty_of c k"
  by (simp add: qty_of_def)

lemma live_stock_foldl_deductStock:
  "live_stock (foldl deductStock ps c) k = map_option (\<lambda>n. n - qty_of c k) (live_stock ps k)"
proof (induction c arbitrary: ps)
  case Nil
  then show ?case by (simp add: qty_of_def option.map_ident)
next
  case (Cons item c)
  show ?case
    by (simp add: Cons.IH live_stock_deductStock qty_of_Cons option.map_comp comp_def algebra_simps)
qed


subsection \<open>Checkout\<close>

text \<open>C15. A checkout with no payment method selected only shows the error: the catalog
  and the ledger (the whole store) are unchanged and the session is not told of
  any sale (all-or-nothing).\<close>

lemma handleCheckout_no_payment:
  "selectedPaymentMethod s = '''' \<Longrightarrow>
   handleCheckout settings saleId now db s = (db, s\<lparr>errorToast := Some NoPaymentMethod\<rparr>, None)"
  by (simp add: handleCheckout_def showError_def)

text \<open>C16. A checkout with a payment method lowers the live stock of every product by
  exactly the quantity of it in the cart, prepends one completed sale dated now
  that holds the cart's lines and its total, shows that sale, keeps the cart
  for the receipt, and reports the sale's total to the session.\<close>

lemma handleCheckout_commit:
  assumes "selectedPaymentMethod s \<noteq> ''''"
  shows "case handleCheckout settings saleId now db s of (db', s', amt) \<Rightarrow>
     live_stock (catalog db') k = map_option (\<lambda>n. n - qty_of (cart s) k) (live_stock (catalog db) k) \<and>
     map product_id (catalog db') = map product_id (catalog db) \<and>
     (\<exists>sale. ledger db' = sale # ledger db \<and> lastSale s' = Some sale \<and> items sale = cart s \<and>
        sale_status sale = Completed \<and> date sale = now \<and> sale_total sale = pos_total settings (cart s) \<and>
        amt = Some (sale_total sale)) \<and>
     showSuccessModal s' \<and> cart s' = cart s"
  using assms by (simp add: handleCheckout_def Let_def live_stock_foldl_deductStock)

text \<open>C23. The handler itself does not reject an empty cart (only the disabled
  ``Pagar'' button does): with a payment method and no lines it records a sale of
  total 0 and reports 0 to the session, with the catalog unchanged.\<close>

lemma handleCheckout_empty_cart:
  assumes "selectedPaymentMethod s \<noteq> ''''" and "cart s = []"
  shows "case handleCheckout settings saleId now db s of (db', s', amt) \<Rightarrow>
     catalog db' = catalog db \<and> length (ledger db') = Suc (length (ledger db)) \<and> amt = Some 0"
  using assms by (simp add: handleCheckout_def Let_def subTotal_def pos_total_def taxAmount_def)

subsection \<open>Witnesses\<close>

theorem handleCheckout_no_payment_witness:
  "selectedPaymentMethod ((pos_init [])\<lparr>cart := [item_of (MOCK_PRODUCTS ! 0) 1 150]\<rparr>) = '''' \<and>
   handleCheckout DEFAULT_SETTINGS ''1700000000000'' 1700000000000
     \<lparr>catalog = MOCK_PRODUCTS, ledger = []\<rparr> ((pos_init [])\<lparr>cart := [item_of (MOCK_PRODUCTS ! 0) 1 150]\<rparr>) =
   (\<lparr>catalog = MOCK_PRODUCTS, ledger = []\<rparr>,
    (pos_init [])\<lparr>cart := [item_of (MOCK_PRODUCTS ! 0) 1 150], errorToast := Some NoPaymentMethod\<rparr>, None)"
proof -
  have h: "selectedPaymentMethod ((pos_init [])\<lparr>cart := [item_of (MOCK_PRODUCTS ! 0) 1 150]\<rparr>) = ''''"
    by (simp add: pos_init_def)
  show ?thesis
    using h handleCheckout_no_payment [OF h, where settings = DEFAULT_SETTINGS and saleId = "''1700000000000''"
        and now = 1700000000000 and db = "\<lparr>catalog = MOCK_PRODUCTS, ledger = []\<rparr>"]
    by simp
qed

theorem handleCheckout_commit_witness:
  "selectedPaymentMethod ((pos_init MOCK_PAYMENT_METHODS)\<lparr>cart := [item_of (MOCK_PRODUCTS ! 0) 1 150]\<rparr>) \<noteq> '''' \<and>
   (case handleCheckout DEFAULT_SETTINGS ''1700000000000'' 1700000000000
      \<lparr>catalog = MOCK_PRODUCTS, ledger = []\<rparr> ((pos_init MOCK_PAYMENT_METHODS)\<lparr>cart := [item_of (MOCK_PRODUCTS ! 0) 1 150]\<rparr>)
    of (db', s', amt) \<Rightarrow> live_stock (catalog db') ''1'' = Some 49 \<and> amt = Some 177)"
proof -
  let ?s = "(pos_init MOCK_PAYMENT_METHODS)\<lparr>cart := [item_of (MOCK_PRODUCTS ! 0) 1 150]\<rparr>"
  have h: "selectedPaymentMethod ?s \<noteq> ''''"
    by (simp add: pos_init_def MOCK_PAYMENT_METHODS_def)
  have "case handleCheckout DEFAULT_SETTINGS ''1700000000000'' 1700000000000 \<lparr>catalog = MOCK_PRODUCTS, ledger = []\<rparr> ?s of
     (db', s', amt) \<Rightarrow>
     live_stock (catalog db') ''1'' = map_option (\<lambda>n. n - qty_of (cart ?s) ''1'') (live_stock MOCK_PRODUCTS ''1'') \<and>
     map product_id (catalog db') = map product_id MOCK_PRODUCTS \<and>
     (\<exists>sale. ledger db' = sale # [] \<and> lastSale s' = Some sale \<and> items sale = cart ?s \<and>
        sale_status sale = Completed \<and> date sale = 1700000000000 \<and>
        sale_total sale = pos_total DEFAULT_SETTINGS (cart ?s) \<and> amt = Some (sale_total sale)) \<and>
     showSuccessModal s' \<and> cart s' = cart ?s"
    using handleCheckout_commit [OF h, where settings = DEFAULT_SETTINGS and saleId = "''1700000000000''"
        and now = 1700000000000 and db = "\<lparr>catalog = MOCK_PRODUCTS, ledger = []\<rparr>" and k = "''1''"] by simp
  then show ?thesis
    using h by (auto simp: MOCK_PRODUCTS_def live_stock_def qty_of_def DEFAULT_SETTINGS_def
        pos_total_def taxAmount_def subTotal_def split: prod.splits)
qed

theorem handleCheckout_empty_cart_witness:
  "selectedPaymentMethod (pos_init MOCK_PAYMENT_METHODS) \<noteq> '''' \<and> cart (pos_init MOCK_PAYMENT_METHODS) = [] \<and>
   (case handleCheckout DEFAULT_SETTINGS ''1700000000000'' 1700000000000
      \<lparr>catalog = MOCK_PRODUCTS, ledger = []\<rparr> (pos_init MOCK_PAYMENT_METHODS)
    of (db', s', amt) \<Rightarrow> catalog db' = MOCK_PRODUCTS \<and> length (ledger db') = 1 \<and> amt = Some 0)"
proof -
  have h1: "selectedPaymentMethod (pos_init MOCK_PAYMENT_METHODS) \<noteq> ''''"
    by (simp add: pos_init_def MOCK_PAYMENT_METHODS_def)
  have h2: "cart (pos_init MOCK_PAYMENT_METHODS) = []"
    by (simp add: pos_init_def)
  show ?thesis
    using h1 h2 handleCheckout_empty_cart [OF h1 h2, where settings = DEFAULT_SETTINGS and saleId = "''1700000000000''"
        and now = 1700000000000 and db = "\<lparr>catalog = MOCK_PRODUCTS, ledger = []\<rparr>"]
    by (simp split: prod.splits)
qed

end
