(* ===== verification/Session.thy ===== *)
theory Session
  imports Checkout
begin

text \<open>
  The application shell of \<open>src/App.tsx\<close> and the cash-register page of
  \<open>src/pages/CashRegister.tsx\<close>. The shell's React state is
  \<open>app_state\<close>; \<open>localStorage\<close> is its field \<open>storage\<close>, a map from keys to
  stored values, where \<open>JSON.stringify\<close> followed by \<open>JSON.parse\<close> is taken
  to give the value back (the \<open>blob\<close> datatype tags what was stored).
  The cash register is a state machine over \<open>currentSession\<close>: \<open>None\<close> is
  ``Caja Cerrada'', \<open>Some\<close> an open session. The page's own state
  (\<open>cr_state\<close>) holds the modal's action, the typed amount (already parsed:
  \<open>None\<close> for input \<open>parseFloat\<close> rejects) and the notes. \<open>handleSubmit\<close>
  opens a session, or closes the current one and produces the closure report
  (\<open>generateClosureReport\<close>, whose numbers and sale list are modelled and
  whose PDF layout is not). Closed sessions are handed to the report only:
  the source keeps no list of them (\<open>MOCK_SESSIONS\<close> stays empty).
\<close>

datatype blob =
    UserBlob user
  | SettingsBlob company_settings
  | SessionBlob cash_register_session
  | PaymentMethodsBlob "payment_method list"

record app_state =
  app_user :: "user option"
  app_settings :: company_settings
  currentSession :: "cash_register_session option"
  paymentMethods :: "payment_method list"
  storage :: "string \<Rightarrow> blob option"

definition app_init :: "(string \<Rightarrow> blob option) \<Rightarrow> app_state" where
  "app_init st = \<lparr>app_user = None, app_settings = DEFAULT_SETTINGS, currentSession = None,
                  paymentMethods = MOCK_PAYMENT_METHODS, storage = st\<rparr>"

text \<open>The mount effect: every key found in storage overrides the initial value.\<close>

definition loadFromStorage :: "app_state \<Rightarrow> app_state" where
  "loadFromStorage a =
    (let a1 = (case storage a ''pos_user'' of Some (UserBlob u) \<Rightarrow> a\<lparr>app_user := Some u\<rparr> | _ \<Rightarrow> a);
         a2 = (case storage a ''pos_settings'' of Some (SettingsBlob st) \<Rightarrow> a1\<lparr>app_settings := st\<rparr> | _ \<Rightarrow> a1);
         a3 = (case storage a ''pos_session'' of Some (SessionBlob cs) \<Rightarrow> a2\<lparr>currentSession := Some cs\<rparr> | _ \<Rightarrow> a2)
     in case storage a ''pos_payment_methods'' of
          Some (PaymentMethodsBlob ms) \<Rightarrow> a3\<lparr>paymentMethods := ms\<rparr>
        | _ \<Rightarrow> a3)"

definition handleLogin :: "string \<Rightarrow> app_state \<Rightarrow> app_state" where
  "handleLogin email a =
    (let foundUser = (case find (\<lambda>u. user_email u = email) MOCK_USERS of Some u \<Rightarrow> u | None \<Rightarrow> MOCK_USERS ! 0)
     in a\<lparr>app_user := Some foundUser, storage := (storage a)(''pos_user'' \<mapsto> UserBlob foundUser)\<rparr>)"

definition handleLogout :: "app_state \<Rightarrow> app_state" where
  "handleLogout a = a\<lparr>app_user := None, storage := (storage a)(''pos_user'' := None)\<rparr>"

definition handleSaveSettings :: "company_settings \<Rightarrow> app_state \<Rightarrow> app_state" where
  "handleSaveSettings newSettings a =
     a\<lparr>app_settings := newSettings, storage := (storage a)(''pos_settings'' \<mapsto> SettingsBlob newSettings)\<rparr>"

definition handleSessionChange :: "cash_register_session option \<Rightarrow> app_state \<Rightarrow> app_state" where
  "handleSessionChange session a =
    (case session of
       Some cs \<Rightarrow> a\<lparr>currentSession := Some cs, storage := (storage a)(''pos_session'' \<mapsto> SessionBlob cs)\<rparr>
     | None \<Rightarrow> a\<lparr>currentSession := None, storage := (storage a)(''pos_session'' := None)\<rparr>)"

definition updateSessionSales :: "money \<Rightarrow> app_state \<Rightarrow> app_state" where
  "updateSessionSales amount a =
    (case currentSession a of
       Some cs \<Rightarrow>
         let updated = cs\<lparr>salesTotal := salesTotal cs + amount\<rparr>
         in a\<lparr>currentSession := Some updated, storage := (storage a)(''pos_session'' \<mapsto> SessionBlob updated)\<rparr>
     | None \<Rightarrow> a)"

definition handlePaymentMethodsChange :: "payment_method list \<Rightarrow> app_state \<Rightarrow> app_state" where
  "handlePaymentMethodsChange methods a =
     a\<lparr>paymentMethods := methods, storage := (storage a)(''pos_payment_methods'' \<mapsto> PaymentMethodsBlob methods)\<rparr>"

text \<open>What the POS page receives: the active payment methods and whether a session is open.\<close>

definition activePaymentMethods :: "app_state \<Rightarrow> payment_method list" where
  "activePaymentMethods a = filter payment_active (paymentMethods a)"

definition isRegisterOpen :: "app_state \<Rightarrow> bool" where
  "isRegisterOpen a = (currentSession a \<noteq> None)"

subsection \<open>The cash-register page\<close>

datatype action_type = OpenAction | CloseAction

record cr_state =
  isModalOpen :: bool
  actionType :: action_type
  amount :: "money option"
  cr_notes :: string

definition cr_init :: cr_state where
  "cr_init = \<lparr>isModalOpen = False, actionType = OpenAction, amount = None, cr_notes = ''''\<rparr>"

definition handleOpenAction :: "action_type \<Rightarrow> cr_state \<Rightarrow> cr_state" where
  "handleOpenAction t c = c\<lparr>actionType := t, amount := None, cr_notes := '''', isModalOpen := True\<rparr>"

text \<open>\<open>currentSales\<close> mirrors \<open>currentSession.salesTotal\<close> through an effect.\<close>

definition currentSales :: "app_state \<Rightarrow> money" where
  "currentSales a = (case currentSession a of Some cs \<Rightarrow> salesTotal cs | None \<Rightarrow> 0)"

definition expectedTotal :: "app_state \<Rightarrow> money" where
  "expectedTotal a = (case currentSession a of Some cs \<Rightarrow> initialAmount cs + currentSales a | None \<Rightarrow> 0)"

record closure_report =
  report_session :: cash_register_session
  report_expected :: money
  report_counted :: money
  report_difference :: money
  report_sales :: "sale list"

definition sessionSales :: "sale list \<Rightarrow> cash_register_session \<Rightarrow> sale list" where
  "sessionSales sales session = filter (\<lambda>s. openedAt session \<le> date s) sales"

definition generateClosureReport :: "sale list \<Rightarrow> cash_register_session \<Rightarrow> closure_report" where
  "generateClosureReport sales session =
    \<lparr>report_session = session,
     report_expected = initialAmount session + salesTotal session,
     report_counted = (case finalAmount session of Some x \<Rightarrow> x | None \<Rightarrow> 0),
     report_difference = (case finalAmount session of Some x \<Rightarrow> x | None \<Rightarrow> 0) - (initialAmount session + salesTotal session),
     report_sales = sessionSales sales session\<rparr>"

definition close_notes :: "string option \<Rightarrow> string \<Rightarrow> string option" where
  "close_notes old new =
     (if new \<noteq> '''' then Some ((case old of Some n \<Rightarrow> n | None \<Rightarrow> ''undefined'') @ [CHR 0x0A] @ ''Cierre: '' @ new)
      else old)"

definition handleSubmit ::
  "string \<Rightarrow> timestamp \<Rightarrow> sale list \<Rightarrow> app_state \<Rightarrow> cr_state \<Rightarrow> app_state \<times> cr_state \<times> closure_report option" where
  "handleSubmit sessionId now sales a c =
    (let numAmount = (case amount c of Some x \<Rightarrow> x | None \<Rightarrow> 0)
     in if actionType c = OpenAction then
          let newSession = \<lparr>session_id = sessionId, openedAt = now, closedAt = None, initialAmount = numAmount,
                            finalAmount = None, salesTotal = 0, session_status = Open, session_notes = Some (cr_notes c)\<rparr>
          in (handleSessionChange (Some newSession) a, c\<lparr>isModalOpen := False\<rparr>, None)
        else case currentSession a of
          None \<Rightarrow> (a, c, None)
        | Some cs \<Rightarrow>
            let closedSession = cs\<lparr>closedAt := Some now, finalAmount := Some numAmount, salesTotal := currentSales a,
                                   session_status := Closed, session_notes := close_notes (session_notes cs) (cr_notes c)\<rparr>
            in (handleSessionChange None a, c\<lparr>isModalOpen := False\<rparr>, Some (generateClosureReport sales closedSession)))"

text \<open>The colour of the live difference in the closing modal: green down to -0.01.\<close>

definition difference_ok :: "money \<Rightarrow> app_state \<Rightarrow> bool" where
  "difference_ok counted a = (counted - expectedTotal a \<ge> - (1 / 100))"

subsection \<open>Persistence\<close>

definition session_persisted :: "app_state \<Rightarrow> bool" where
  "session_persisted a = (storage a ''pos_session'' = map_option SessionBlob (currentSession a))"

text \<open>Everything the shell keeps is in storage, or is still its initial value.\<close>

definition persisted :: "app_state \<Rightarrow> bool" where
  "persisted a =
    (storage a ''pos_user'' = map_option UserBlob (app_user a) \<and>
     (case storage a ''pos_settings'' of None \<Rightarrow> app_settings a = DEFAULT_SETTINGS
      | Some b \<Rightarrow> b = SettingsBlob (app_settings a)) \<and>
     session_persisted a \<and>
     (case storage a ''pos_payment_methods'' of None \<Rightarrow> paymentMethods a = MOCK_PAYMENT_METHODS
      | Some b \<Rightarrow> b = PaymentMethodsBlob (paymentMethods a)))"

definition reload :: "app_state \<Rightarrow> app_state" where
  "reload a = loadFromStorage (app_init (storage a))"


subsection \<open>Properties\<close>

lemma persisted_init: "persisted (app_init Map.empty)"
  by (simp add: persisted_def session_persisted_def app_init_def)

lemma persisted_handleLogin: "persisted a \<Longrightarrow> persisted (handleLogin email a)"
  by (auto simp: persisted_def session_persisted_def handleLogin_def Let_def split: option.splits)

lemma persisted_handleLogout: "persisted a \<Longrightarrow> persisted (handleLogout a)"
  by (auto simp: persisted_def session_persisted_def handleLogout_def split: option.splits)

lemma persisted_handleSaveSettings: "persisted a \<Longrightarrow> persisted (handleSaveSettings st a)"
  by (auto simp: persisted_def session_persisted_def handleSaveSettings_def split: option.splits)

lemma persisted_handleSessionChange: "persisted a \<Longrightarrow> persisted (handleSessionChange cs a)"
  by (auto simp: persisted_def session_persisted_def handleSessionChange_def split: option.splits)

lemma persisted_updateSessionSales: "persisted a \<Longrightarrow> persisted (updateSessionSales x a)"
  by (auto simp: persisted_def session_persisted_def updateSessionSales_def Let_def split: option.splits)

lemma persisted_handlePaymentMethodsChange: "persisted a \<Longrightarrow> persisted (handlePaymentMethodsChange ms a)"
  by (auto simp: persisted_def session_persisted_def handlePaymentMethodsChange_def split: option.splits)

lemma persisted_handleSubmit:
  "persisted a \<Longrightarrow> persisted (fst (handleSubmit sid now sales a c))"
  by (simp add: handleSubmit_def Let_def persisted_handleSessionChange split: option.split)

lemmas persisted_handlers = persisted_handleLogin persisted_handleLogout persisted_handleSaveSettings
  persisted_handleSessionChange persisted_updateSessionSales persisted_handlePaymentMethodsChange
  persisted_handleSubmit

text \<open>C24. Reloading the page restores the shell exactly: whenever what the shell keeps
  is persisted (as it is initially and after every handler), loading the
  application from its storage gives back the same user, settings, open session
  and payment methods.\<close>

lemma reload_restores:
  "persisted a \<Longrightarrow> reload a = a"
  by (cases a) (auto simp: reload_def persisted_def session_persisted_def loadFromStorage_def app_init_def Let_def comp_def
      split: option.splits blob.splits)

lemma updateSessionSales_open:
  "currentSession a = Some cs \<Longrightarrow>
   currentSession (updateSessionSales x a) = Some (cs\<lparr>salesTotal := salesTotal cs + x\<rparr>)"
  by (simp add: updateSessionSales_def Let_def)

lemma updateSessionSales_closed:
  "currentSession a = None \<Longrightarrow> updateSessionSales x a = a"
  by (simp add: updateSessionSales_def Let_def)

text \<open>C20. Closing the open session freezes the counted amount and the closing time,
  marks it closed, keeps its sales total, and the closure report's expected cash is
  the opening float plus that total and its difference is exactly the counted
  amount minus the expected cash; afterwards no session is open.\<close>

lemma handleSubmit_close:
  assumes "actionType c = CloseAction" and "currentSession a = Some cs"
  shows "case handleSubmit sid now sales a c of (a', c', rep) \<Rightarrow>
     currentSession a' = None \<and> \<not> isModalOpen c' \<and>
     (\<exists>r. rep = Some r \<and>
        closedAt (report_session r) = Some now \<and> session_status (report_session r) = Closed \<and>
        finalAmount (report_session r) = Some (case amount c of Some x \<Rightarrow> x | None \<Rightarrow> 0) \<and>
        salesTotal (report_session r) = salesTotal cs \<and>
        report_expected r = initialAmount cs + salesTotal cs \<and>
        report_difference r = (case amount c of Some x \<Rightarrow> x | None \<Rightarrow> 0) - (initialAmount cs + salesTotal cs))"
  using assms by (simp add: handleSubmit_def Let_def handleSessionChange_def currentSales_def generateClosureReport_def)

text \<open>Opening creates a fresh open session dated now, with the typed float, a
  sales total of 0, no counted amount and no closing time. The handler does not
  look at the current session: an open session would be replaced (only the page,
  which offers ``Abrir Caja'' only while closed, prevents it).\<close>

lemma handleSubmit_open:
  assumes "actionType c = OpenAction"
  shows "currentSession (fst (handleSubmit sid now sales a c)) =
     Some \<lparr>session_id = sid, openedAt = now, closedAt = None,
           initialAmount = (case amount c of Some x \<Rightarrow> x | None \<Rightarrow> 0), finalAmount = None,
           salesTotal = 0, session_status = Open, session_notes = Some (cr_notes c)\<rparr>"
  using assms by (simp add: handleSubmit_def Let_def handleSessionChange_def)

lemma handleSubmit_close_when_closed:
  "actionType c = CloseAction \<Longrightarrow> currentSession a = None \<Longrightarrow> handleSubmit sid now sales a c = (a, c, None)"
  by (simp add: handleSubmit_def Let_def)

subsection \<open>Witnesses\<close>

theorem reload_restores_witness:
  "persisted (handleLogin ''juan@perfisoft.com'' (app_init Map.empty)) \<and>
   reload (handleLogin ''juan@perfisoft.com'' (app_init Map.empty)) = handleLogin ''juan@perfisoft.com'' (app_init Map.empty)"
proof -
  have h: "persisted (handleLogin ''juan@perfisoft.com'' (app_init Map.empty))"
    by (rule persisted_handleLogin [OF persisted_init])
  show ?thesis using h reload_restores [OF h] by simp
qed

theorem handleSubmit_close_witness:
  "actionType (cr_init\<lparr>actionType := CloseAction, amount := Some 1339\<rparr>) = CloseAction \<and>
   currentSession ((app_init Map.empty)\<lparr>currentSession := Some \<lparr>session_id = ''1'', openedAt = 10, closedAt = None,
      initialAmount = 100, finalAmount = None, salesTotal = 1239, session_status = Open, session_notes = Some ''''\<rparr>\<rparr>) =
     Some \<lparr>session_id = ''1'', openedAt = 10, closedAt = None,
      initialAmount = 100, finalAmount = None, salesTotal = 1239, session_status = Open, session_notes = Some ''''\<rparr> \<and>
   (case handleSubmit ''2'' 20 [] ((app_init Map.empty)\<lparr>currentSession := Some \<lparr>session_id = ''1'', openedAt = 10,
      closedAt = None, initialAmount = 100, finalAmount = None, salesTotal = 1239, session_status = Open,
      session_notes = Some ''''\<rparr>\<rparr>) (cr_init\<lparr>actionType := CloseAction, amount := Some 1339\<rparr>)
    of (a', c', rep) \<Rightarrow> currentSession a' = None \<and> map_option report_difference rep = Some 0)"
proof -
  let ?cs = "\<lparr>session_id = ''1'', openedAt = 10, closedAt = None, initialAmount = 100, finalAmount = None,
              salesTotal = 1239, session_status = Open, session_notes = Some ''''\<rparr> :: cash_register_session"
  let ?a = "(app_init Map.empty)\<lparr>currentSession := Some ?cs\<rparr>"
  let ?c = "cr_init\<lparr>actionType := CloseAction, amount := Some 1339\<rparr>"
  have h1: "actionType ?c = CloseAction" by simp
  have h2: "currentSession ?a = Some ?cs" by simp
  from handleSubmit_close [OF h1 h2, where sid = "''2''" and now = 20 and sales = "[]"]
  show ?thesis by (auto split: prod.splits)
qed

theorem handleSubmit_open_witness:
  "actionType (cr_init\<lparr>amount := Some 100\<rparr>) = OpenAction \<and>
   currentSession (fst (handleSubmit ''1'' 10 [] (app_init Map.empty) (cr_init\<lparr>amount := Some 100\<rparr>))) =
     Some \<lparr>session_id = ''1'', openedAt = 10, closedAt = None, initialAmount = 100, finalAmount = None,
           salesTotal = 0, session_status = Open, session_notes = Some ''''\<rparr>"
proof -
  have h: "actionType (cr_init\<lparr>amount := Some 100\<rparr>) = OpenAction" by (simp add: cr_init_def)
  show ?thesis
    using h handleSubmit_open [OF h, where sid = "''1''" and now = 10 and sales = "[]" and a = "app_init Map.empty"]
    by (simp add: cr_init_def)
qed

end
