(* ===== verification/System.thy ===== *)
theory System
  imports Session
begin

text \<open>
  The composed program: the module-level store (\<open>MOCK_PRODUCTS\<close>,
  \<open>MOCK_SALES\<close>), the application shell (\<open>App.tsx\<close>), the POS page and the
  cash-register page, and the page the router shows. One user action is one
  step; \<open>sys_exec\<close> performs it by calling the handler the source wires to
  it, and \<open>sys_enabled\<close> is the condition under which the rendered UI offers
  it: the routes exist only for a logged-in user, the POS renders its controls
  only while the register is open (\<open>isRegisterOpen\<close>), the sale-complete
  modal covers the POS until ``Nueva Venta'', the ``Pagar'' button is
  disabled on an empty cart, out-of-stock cards ignore clicks, and the register
  page offers ``Abrir Caja'' only while closed and ``Cerrar Caja'' only while
  open. Leaving a page unmounts it, so its local state starts afresh.
  Every action happens at a later millisecond than the one before
  (\<open>sys_clock\<close>), and the timestamp is what \<open>Date.now()\<close> returns during it.
  \<open>reachable\<close> is the set of states reachable from a fresh browser (empty
  storage) that loaded the module at time \<open>t0\<close>. A sale and a session
  opened at time \<open>t\<close> get the id \<open>string_of_nat t\<close>.
  The theory also holds the invariant \<open>sys_inv\<close>, its preservation by every
  enabled action (\<open>sys_inv_step\<close>) and by \<open>reachable\<close>
  (\<open>reachable_sys_inv\<close>), \<open>run\<close>'s soundness for \<open>reachable\<close>, and
  the traces that close an open register.
\<close>

datatype page = PosPage | CashRegisterPage | OtherPage

record system =
  sys_db :: store
  sys_app :: app_state
  sys_pos :: pos_state
  sys_cr :: cr_state
  sys_page :: page
  sys_clock :: timestamp

datatype action =
    Login string
  | Logout
  | Navigate page
  | SaveSettings company_settings
  | ChangePaymentMethods "payment_method list"
  | SetSearch string
  | KeyDown string
  | SetCategory string
  | SelectClient "client option"
  | SelectPayment string
  | ClickProduct product
  | UpdateQty string int
  | RemoveItem string
  | SetPriceType price_type
  | Checkout
  | NewSale
  | OpenModal action_type
  | SetAmount "money option"
  | SetNotes string
  | Submit

definition sys_init :: "timestamp \<Rightarrow> system" where
  "sys_init t0 =
    \<lparr>sys_db = \<lparr>catalog = MOCK_PRODUCTS, ledger = MOCK_SALES t0\<rparr>,
     sys_app = loadFromStorage (app_init Map.empty),
     sys_pos = pos_init (filter payment_active MOCK_PAYMENT_METHODS),
     sys_cr = cr_init, sys_page = OtherPage, sys_clock = t0\<rparr>"

definition remount :: "page \<Rightarrow> system \<Rightarrow> system" where
  "remount p s = s\<lparr>sys_page := p, sys_pos := pos_init (activePaymentMethods (sys_app s)), sys_cr := cr_init\<rparr>"

definition pos_ready :: "system \<Rightarrow> bool" where
  "pos_ready s = (sys_page s = PosPage \<and> isRegisterOpen (sys_app s) \<and> \<not> showSuccessModal (sys_pos s))"

fun sys_enabled :: "action \<Rightarrow> system \<Rightarrow> bool" where
  "sys_enabled (Login e) s = (app_user (sys_app s) = None)"
| "sys_enabled Logout s = (app_user (sys_app s) \<noteq> None)"
| "sys_enabled (Navigate p) s = (app_user (sys_app s) \<noteq> None \<and> p \<noteq> sys_page s)"
| "sys_enabled (SaveSettings st) s = (app_user (sys_app s) \<noteq> None \<and> sys_page s = OtherPage)"
| "sys_enabled (ChangePaymentMethods ms) s = (app_user (sys_app s) \<noteq> None \<and> sys_page s = OtherPage)"
| "sys_enabled (ClickProduct p) s = (app_user (sys_app s) \<noteq> None \<and> pos_ready s \<and>
      p \<in> set (filteredProducts (catalog (sys_db s)) (sys_pos s)))"
| "sys_enabled Checkout s = (app_user (sys_app s) \<noteq> None \<and> pos_ready s \<and> cart (sys_pos s) \<noteq> [])"
| "sys_enabled NewSale s = (app_user (sys_app s) \<noteq> None \<and> sys_page s = PosPage \<and> showSuccessModal (sys_pos s))"
| "sys_enabled (OpenModal t) s = (app_user (sys_app s) \<noteq> None \<and> sys_page s = CashRegisterPage \<and>
      (t = OpenAction \<longleftrightarrow> currentSession (sys_app s) = None))"
| "sys_enabled (SetAmount x) s = (app_user (sys_app s) \<noteq> None \<and> sys_page s = CashRegisterPage \<and> isModalOpen (sys_cr s))"
| "sys_enabled (SetNotes x) s = (app_user (sys_app s) \<noteq> None \<and> sys_page s = CashRegisterPage \<and> isModalOpen (sys_cr s))"
| "sys_enabled Submit s = (app_user (sys_app s) \<noteq> None \<and> sys_page s = CashRegisterPage \<and> isModalOpen (sys_cr s))"
| "sys_enabled _ s = (app_user (sys_app s) \<noteq> None \<and> pos_ready s)"

fun sys_exec :: "timestamp \<Rightarrow> action \<Rightarrow> system \<Rightarrow> system" where
  "sys_exec t (Login e) s = s\<lparr>sys_app := handleLogin e (sys_app s), sys_clock := t\<rparr>"
| "sys_exec t Logout s = (remount OtherPage s)\<lparr>sys_app := handleLogout (sys_app s), sys_clock := t\<rparr>"
| "sys_exec t (Navigate p) s = (remount p s)\<lparr>sys_clock := t\<rparr>"
| "sys_exec t (SaveSettings st) s = s\<lparr>sys_app := handleSaveSettings st (sys_app s), sys_clock := t\<rparr>"
| "sys_exec t (ChangePaymentMethods ms) s = s\<lparr>sys_app := handlePaymentMethodsChange ms (sys_app s), sys_clock := t\<rparr>"
| "sys_exec t (SetSearch x) s = s\<lparr>sys_pos := (sys_pos s)\<lparr>searchTerm := x\<rparr>, sys_clock := t\<rparr>"
| "sys_exec t (KeyDown k) s = s\<lparr>sys_pos := handleKeyDown (catalog (sys_db s)) k (sys_pos s), sys_clock := t\<rparr>"
| "sys_exec t (SetCategory x) s = s\<lparr>sys_pos := (sys_pos s)\<lparr>selectedCategory := x\<rparr>, sys_clock := t\<rparr>"
| "sys_exec t (SelectClient c) s =
     s\<lparr>sys_pos := (sys_pos s)\<lparr>selectedClient := c, isClientModalOpen := False\<rparr>, sys_clock := t\<rparr>"
| "sys_exec t (SelectPayment x) s = s\<lparr>sys_pos := (sys_pos s)\<lparr>selectedPaymentMethod := x\<rparr>, sys_clock := t\<rparr>"
| "sys_exec t (ClickProduct p) s = s\<lparr>sys_pos := clickProduct p (sys_pos s), sys_clock := t\<rparr>"
| "sys_exec t (UpdateQty k d) s = s\<lparr>sys_pos := updateQuantity (catalog (sys_db s)) k d (sys_pos s), sys_clock := t\<rparr>"
| "sys_exec t (RemoveItem k) s = s\<lparr>sys_pos := removeFromCart k (sys_pos s), sys_clock := t\<rparr>"
| "sys_exec t (SetPriceType pt) s = s\<lparr>sys_pos := handlePriceTypeChange pt (sys_pos s), sys_clock := t\<rparr>"
| "sys_exec t Checkout s =
     (case handleCheckout (app_settings (sys_app s)) (string_of_nat t) t (sys_db s) (sys_pos s) of
        (db', pos', amt) \<Rightarrow>
          s\<lparr>sys_db := db', sys_pos := pos',
            sys_app := (case amt of Some x \<Rightarrow> updateSessionSales x (sys_app s) | None \<Rightarrow> sys_app s),
            sys_clock := t\<rparr>)"
| "sys_exec t NewSale s = s\<lparr>sys_pos := handleNewSale (sys_pos s), sys_clock := t\<rparr>"
| "sys_exec t (OpenModal a) s = s\<lparr>sys_cr := handleOpenAction a (sys_cr s), sys_clock := t\<rparr>"
| "sys_exec t (SetAmount x) s = s\<lparr>sys_cr := (sys_cr s)\<lparr>amount := x\<rparr>, sys_clock := t\<rparr>"
| "sys_exec t (SetNotes x) s = s\<lparr>sys_cr := (sys_cr s)\<lparr>cr_notes := x\<rparr>, sys_clock := t\<rparr>"
| "sys_exec t Submit s =
     (case handleSubmit (string_of_nat t) t (ledger (sys_db s)) (sys_app s) (sys_cr s) of
        (app', cr', rep) \<Rightarrow> s\<lparr>sys_app := app', sys_cr := cr', sys_clock := t\<rparr>)"

inductive reachable :: "timestamp \<Rightarrow> system \<Rightarrow> bool" for t0 where
  init: "reachable t0 (sys_init t0)"
| step: "reachable t0 s \<Longrightarrow> sys_enabled a s \<Longrightarrow> sys_clock s < t \<Longrightarrow> reachable t0 (sys_exec t a s)"

text \<open>Running a list of timed actions, skipping none: the executable form of a trace.\<close>

fun run :: "(timestamp \<times> action) list \<Rightarrow> system \<Rightarrow> system option" where
  "run [] s = Some s"
| "run ((t, a) # rest) s = (if sys_enabled a s \<and> sys_clock s < t then run rest (sys_exec t a s) else None)"

subsection \<open>The system invariant\<close>

text \<open>
  \<open>sold new k\<close> is the quantity of product \<open>k\<close> in the sales \<open>new\<close>.
  \<open>stock_conserved\<close>: the ledger is the mock sales with the new sales in
  front (\<open>unshift\<close>), and each product's live stock is its mock stock less
  what the new sales sold of it. \<open>session_ok\<close>: an open register session was
  opened in the past and its \<open>salesTotal\<close> is the sum of the ledger's sales
  since its opening. \<open>sys_inv\<close> adds the fixed product ids, nonnegative
  stock, the cart invariant of \<open>Cart\<close> while the POS is interactive, and
  ledger dates in the past.
\<close>
definition sold :: "sale list \<Rightarrow> string \<Rightarrow> int" where
  "sold sales k = sum_list (map (\<lambda>x. qty_of (items x) k) sales)"

definition new_sale_ok :: "timestamp \<Rightarrow> sale \<Rightarrow> bool" where
  "new_sale_ok t0 x =
    (sale_id x = string_of_nat (date x) \<and> t0 < date x \<and> sale_status x = Completed \<and>
     subtotal x = subTotal (items x) \<and> sale_total x = subtotal x + tax x)"

definition stock_conserved :: "timestamp \<Rightarrow> store \<Rightarrow> bool" where
  "stock_conserved t0 db =
    (\<exists>new. ledger db = new @ MOCK_SALES t0 \<and> sorted_wrt (>) (map date new) \<and> list_all (new_sale_ok t0) new \<and>
       (\<forall>k. live_stock (catalog db) k = map_option (\<lambda>n. n - sold new k) (live_stock MOCK_PRODUCTS k)))"

definition session_ok :: "app_state \<Rightarrow> store \<Rightarrow> timestamp \<Rightarrow> bool" where
  "session_ok a db clk =
    (case currentSession a of None \<Rightarrow> True
     | Some cs \<Rightarrow> openedAt cs \<le> clk \<and> salesTotal cs = sum_list (map sale_total (sessionSales (ledger db) cs)))"

definition sys_inv :: "timestamp \<Rightarrow> system \<Rightarrow> bool" where
  "sys_inv t0 s =
    (stock_conserved t0 (sys_db s) \<and>
     map product_id (catalog (sys_db s)) = map product_id MOCK_PRODUCTS \<and>
     list_all (\<lambda>p. 0 \<le> stock p) (catalog (sys_db s)) \<and>
     (\<not> showSuccessModal (sys_pos s) \<longrightarrow> cart_inv (catalog (sys_db s)) (cart (sys_pos s))) \<and>
     list_all (\<lambda>x. date x \<le> sys_clock s) (ledger (sys_db s)) \<and>
     session_ok (sys_app s) (sys_db s) (sys_clock s) \<and> t0 \<le> sys_clock s)"

subsection \<open>Invariant preservation\<close>

lemma run_reachable: "run tr s = Some s' \<Longrightarrow> reachable t0 s \<Longrightarrow> reachable t0 s'"
proof (induction tr arbitrary: s)
  case Nil
  then show ?case by simp
next
  case (Cons ta tr)
  obtain t a where ta: "ta = (t, a)" by (cases ta)
  with Cons.prems have en: "sys_enabled a s \<and> sys_clock s < t" and r: "run tr (sys_exec t a s) = Some s'"
    by (simp_all split: if_splits)
  from Cons.prems(2) en have "reachable t0 (sys_exec t a s)" by (blast intro: reachable.step)
  with r show ?case by (rule Cons.IH)
qed

lemma qty_of_notin: "k \<notin> set (map product_id c) \<Longrightarrow> qty_of c k = 0"
  by (induction c) (auto simp: qty_of_Cons)

lemma qty_of_le_live_stock:
  "cart_inv ps c \<Longrightarrow> live_stock ps k = Some n \<Longrightarrow> 0 \<le> n \<Longrightarrow> qty_of c k \<le> n"
proof (induction c)
  case Nil
  then show ?case by simp
next
  case (Cons x c)
  then have ic: "cart_inv ps c" and lx: "line_ok ps x" and nx: "product_id x \<notin> set (map product_id c)"
    by (simp_all add: cart_inv_def)
  show ?case
  proof (cases "product_id x = k")
    case True
    with nx have "qty_of c k = 0" by (simp add: qty_of_notin)
    with True lx Cons.prems(2) show ?thesis by (simp add: qty_of_Cons line_ok_def)
  next
    case False
    with Cons.IH [OF ic Cons.prems(2,3)] show ?thesis by (simp add: qty_of_Cons)
  qed
qed

lemma stock_nonneg_live:
  "distinct (map product_id ps) \<Longrightarrow>
   list_all (\<lambda>p. 0 \<le> stock p) ps \<longleftrightarrow> (\<forall>k n. live_stock ps k = Some n \<longrightarrow> 0 \<le> n)"
  by (auto simp: list_all_iff live_stock_def dest!: find_Some_in_set dest: live_stock_member)

lemma deduct_cart_stock_nonneg:
  assumes "distinct (map product_id ps)" "list_all (\<lambda>p. 0 \<le> stock p) ps" "cart_inv ps c"
  shows "list_all (\<lambda>p. 0 \<le> stock p) (foldl deductStock ps c)"
proof -
  have d: "distinct (map product_id (foldl deductStock ps c))" using assms(1) by simp
  have "0 \<le> n" if "live_stock (foldl deductStock ps c) k = Some n" for k n
  proof -
    from that obtain m where m: "live_stock ps k = Some m" and n: "n = m - qty_of c k"
      by (auto simp: live_stock_foldl_deductStock)
    have "0 \<le> m" using assms(1,2) m by (simp add: stock_nonneg_live)
    with qty_of_le_live_stock [OF assms(3) m] n show ?thesis by simp
  qed
  with d show ?thesis by (simp add: stock_nonneg_live)
qed

lemma sys_inv_init: "sys_inv t0 (sys_init t0)"
proof -
  have "stock_conserved t0 \<lparr>catalog = MOCK_PRODUCTS, ledger = MOCK_SALES t0\<rparr>"
    unfolding stock_conserved_def
    by (rule exI [of _ "[]"]) (simp add: sold_def option.map_ident)
  moreover have "list_all (\<lambda>x. date x \<le> t0) (MOCK_SALES t0)"
    by (simp add: MOCK_SALES_def)
  ultimately show ?thesis
    using MOCK_PRODUCTS_stock_nonneg
    by (simp add: sys_inv_def sys_init_def pos_init_def session_ok_def loadFromStorage_def app_init_def cart_inv_def
        list_all_iff Let_def)
qed

lemma sys_inv_frame:
  assumes "sys_inv t0 s" "sys_clock s \<le> t" "sys_db s' = sys_db s"
    "currentSession (sys_app s') = currentSession (sys_app s)" "sys_clock s' = t"
    "\<not> showSuccessModal (sys_pos s') \<longrightarrow> cart_inv (catalog (sys_db s)) (cart (sys_pos s'))"
  shows "sys_inv t0 s'"
  using assms by (auto simp: sys_inv_def session_ok_def list_all_iff split: option.splits)

lemma showSuccessModal_handlers [simp]:
  "showSuccessModal (addToCart p s) = showSuccessModal s"
  "showSuccessModal (clickProduct p s) = showSuccessModal s"
  "showSuccessModal (handleKeyDown ps k s) = showSuccessModal s"
  "showSuccessModal (updateQuantity ps k d s) = showSuccessModal s"
  "showSuccessModal (removeFromCart k s) = showSuccessModal s"
  "showSuccessModal (handlePriceTypeChange t s) = showSuccessModal s"
  by (auto simp: addToCart_def clickProduct_def handleKeyDown_def updateQuantity_def removeFromCart_def
      handlePriceTypeChange_def showError_def Let_def split: option.split prod.split)

lemma cart_inv_clickProduct:
  "distinct (map product_id ps) \<Longrightarrow> p \<in> set ps \<Longrightarrow> cart_inv ps (cart s) \<Longrightarrow> cart_inv ps (cart (clickProduct p s))"
  by (simp add: clickProduct_def addToCart_cart_inv)

lemma cart_inv_handleKeyDown:
  assumes "distinct (map product_id ps)" "cart_inv ps (cart s)"
  shows "cart_inv ps (cart (handleKeyDown ps k s))"
proof (cases "k = ''Enter'' \<and> searchTerm s \<noteq> ''''")
  case True
  show ?thesis
  proof (cases "find (\<lambda>p. code p = searchTerm s) ps")
    case None
    with True assms show ?thesis by (simp add: handleKeyDown_def)
  next
    case (Some p)
    then have "p \<in> set ps" by (simp add: find_Some_in_set)
    with True Some assms show ?thesis by (simp add: handleKeyDown_def addToCart_cart_inv)
  qed
next
  case False
  with assms show ?thesis by (auto simp: handleKeyDown_def)
qed

lemma filteredProducts_subset: "p \<in> set (filteredProducts ps s) \<Longrightarrow> p \<in> set ps"
  by (simp add: filteredProducts_def)

lemma sold_Cons: "sold (x # xs) k = qty_of (items x) k + sold xs k"
  by (simp add: sold_def)

lemma sessionSales_Cons_new:
  "openedAt cs \<le> date x \<Longrightarrow> sessionSales (x # xs) cs = x # sessionSales xs cs"
  by (simp add: sessionSales_def)

lemma sessionSales_salesTotal_update [simp]:
  "sessionSales xs (cs\<lparr>salesTotal := v\<rparr>) = sessionSales xs cs"
  by (simp add: sessionSales_def)

lemma sys_inv_checkout_no_payment:
  assumes inv: "sys_inv t0 s" and en: "sys_enabled Checkout s" and clk: "sys_clock s < t"
    and True: "selectedPaymentMethod (sys_pos s) = ''''"
  shows "sys_inv t0 (sys_exec t Checkout s)"
proof -
  have "\<not> showSuccessModal (sys_pos s)" using en by (simp add: pos_ready_def)
  with inv have ci: "cart_inv (catalog (sys_db s)) (cart (sys_pos s))" by (simp add: sys_inv_def)
  have e: "sys_exec t Checkout s = s\<lparr>sys_pos := showError NoPaymentMethod (sys_pos s), sys_clock := t\<rparr>"
    using True by (simp add: handleCheckout_def)
  show ?thesis unfolding e
    by (rule sys_inv_frame [OF inv]) (simp_all add: showError_def less_imp_le [OF clk] ci)
qed
lemma sys_inv_checkout_commit:
  assumes inv: "sys_inv t0 s" and en: "sys_enabled Checkout s" and clk: "sys_clock s < t"
    and pm: "selectedPaymentMethod (sys_pos s) \<noteq> ''''"
  shows "sys_inv t0 (sys_exec t Checkout s)"
proof -
  let ?db = "sys_db s" and ?p = "sys_pos s" and ?a = "sys_app s"
  let ?c = "cart ?p" and ?set = "app_settings ?a"
  define sale where "sale = \<lparr>sale_id = string_of_nat t, date = t, clientId = sale_clientId (selectedClient ?p),
     paymentMethod = selectedPaymentMethod ?p, items = ?c, subtotal = subTotal ?c,
     tax = taxAmount ?set ?c, sale_total = pos_total ?set ?c, sale_status = Completed\<rparr>"
  define db' where "db' = ?db\<lparr>catalog := foldl deductStock (catalog ?db) ?c, ledger := sale # ledger ?db\<rparr>"
  have ready: "\<not> showSuccessModal ?p" "currentSession ?a \<noteq> None"
    using en by (simp_all add: pos_ready_def isRegisterOpen_def)
  then obtain cs where cs: "currentSession ?a = Some cs" by auto
  have ci: "cart_inv (catalog ?db) ?c" using inv ready by (simp add: sys_inv_def)
  have ids: "map product_id (catalog ?db) = map product_id MOCK_PRODUCTS" using inv by (simp add: sys_inv_def)
  then have dist: "distinct (map product_id (catalog ?db))" by (simp add: MOCK_PRODUCTS_ids_distinct)
  have hc: "handleCheckout ?set (string_of_nat t) t ?db ?p =
      (db', ?p\<lparr>lastSale := Some sale, showSuccessModal := True\<rparr>, Some (pos_total ?set ?c))"
    using pm by (simp add: handleCheckout_def sale_def db'_def Let_def)
  have exec: "sys_exec t Checkout s =
      s\<lparr>sys_db := db', sys_pos := ?p\<lparr>lastSale := Some sale, showSuccessModal := True\<rparr>,
        sys_app := updateSessionSales (pos_total ?set ?c) ?a, sys_clock := t\<rparr>"
    by (simp add: hc)
  obtain new where new: "ledger ?db = new @ MOCK_SALES t0"
    and srt: "sorted_wrt (>) (map date new)" and nok: "list_all (new_sale_ok t0) new"
    and cons: "\<And>k. live_stock (catalog ?db) k = map_option (\<lambda>n. n - sold new k) (live_stock MOCK_PRODUCTS k)"
    using inv by (auto simp: sys_inv_def stock_conserved_def)
  have sc: "stock_conserved t0 db'"
    unfolding stock_conserved_def
  proof (intro exI conjI allI)
    show "ledger db' = (sale # new) @ MOCK_SALES t0" using new by (simp add: db'_def)
  next
    have "\<forall>x\<in>set new. date x \<le> sys_clock s" using inv new by (simp add: sys_inv_def list_all_iff)
    with srt clk show "sorted_wrt (>) (map date (sale # new))" by (auto simp: sale_def)
  next
    have "t0 \<le> sys_clock s" using inv by (simp add: sys_inv_def)
    with nok clk show "list_all (new_sale_ok t0) (sale # new)" by (simp add: new_sale_ok_def sale_def pos_total_def)
  next
    fix k
    show "live_stock (catalog db') k = map_option (\<lambda>n. n - sold (sale # new) k) (live_stock MOCK_PRODUCTS k)"
      by (simp add: db'_def live_stock_foldl_deductStock cons option.map_comp comp_def sold_Cons sale_def algebra_simps)
  qed
  have nn: "list_all (\<lambda>p. 0 \<le> stock p) (catalog db')"
    unfolding db'_def using dist inv ci by (simp add: deduct_cart_stock_nonneg sys_inv_def)
  have dates: "list_all (\<lambda>x. date x \<le> t) (ledger db')"
    using inv clk by (auto simp: sys_inv_def db'_def sale_def list_all_iff)
  have so: "session_ok (updateSessionSales (pos_total ?set ?c) ?a) db' t"
  proof -
    have o: "openedAt cs \<le> sys_clock s"
      and st: "salesTotal cs = sum_list (map sale_total (sessionSales (ledger ?db) cs))"
      using inv cs by (simp_all add: sys_inv_def session_ok_def)
    have "openedAt cs \<le> date sale" using o clk by (simp add: sale_def)
    then have "sessionSales (ledger db') cs = sale # sessionSales (ledger ?db) cs"
      by (simp add: db'_def sessionSales_Cons_new)
    moreover have "sale_total sale = pos_total ?set ?c" by (simp add: sale_def)
    ultimately show ?thesis using o st cs clk
      by (simp add: session_ok_def updateSessionSales_def Let_def)
  qed
  have ids': "map product_id (catalog db') = map product_id MOCK_PRODUCTS"
    using ids by (simp add: db'_def)
  have t0: "t0 \<le> t" using inv clk by (simp add: sys_inv_def)
  show ?thesis
    unfolding exec sys_inv_def using sc nn dates so ids' t0 by simp
qed

lemma frame_pos:
  "sys_inv t0 s \<Longrightarrow> sys_clock s < t \<Longrightarrow>
   (\<not> showSuccessModal p' \<longrightarrow> cart_inv (catalog (sys_db s)) (cart p')) \<Longrightarrow>
   sys_inv t0 (s\<lparr>sys_pos := p', sys_clock := t\<rparr>)"
  by (rule sys_inv_frame) simp_all

lemma frame_app:
  "sys_inv t0 s \<Longrightarrow> sys_clock s < t \<Longrightarrow> currentSession a' = currentSession (sys_app s) \<Longrightarrow>
   sys_inv t0 (s\<lparr>sys_app := a', sys_clock := t\<rparr>)"
  by (rule sys_inv_frame) (auto simp: sys_inv_def)

lemma frame_cr:
  "sys_inv t0 s \<Longrightarrow> sys_clock s < t \<Longrightarrow> sys_inv t0 (s\<lparr>sys_cr := c', sys_clock := t\<rparr>)"
  by (rule sys_inv_frame) (auto simp: sys_inv_def)

lemma frame_remount:
  "sys_inv t0 s \<Longrightarrow> sys_clock s < t \<Longrightarrow> currentSession a' = currentSession (sys_app s) \<Longrightarrow>
   sys_inv t0 ((remount p s)\<lparr>sys_app := a', sys_clock := t\<rparr>)"
  by (rule sys_inv_frame) (simp_all add: remount_def pos_init_def cart_inv_def)

lemma currentSession_app_handlers [simp]:
  "currentSession (handleLogin e a) = currentSession a"
  "currentSession (handleLogout a) = currentSession a"
  "currentSession (handleSaveSettings st a) = currentSession a"
  "currentSession (handlePaymentMethodsChange ms a) = currentSession a"
  by (simp_all add: handleLogin_def handleLogout_def handleSaveSettings_def handlePaymentMethodsChange_def Let_def)

lemma session_ok_handleSubmit:
  assumes "session_ok a db clk" "list_all (\<lambda>x. date x \<le> clk) (ledger db)" "clk < t"
  shows "session_ok (fst (handleSubmit sid t (ledger db) a c)) db t"
proof (cases "actionType c = OpenAction")
  case True
  have "sessionSales (ledger db) \<lparr>session_id = sid, openedAt = t, closedAt = None,
      initialAmount = (case amount c of Some x \<Rightarrow> x | None \<Rightarrow> 0), finalAmount = None,
      salesTotal = 0, session_status = Open, session_notes = Some (cr_notes c)\<rparr> = []"
    using assms(2,3) by (auto simp: sessionSales_def list_all_iff filter_empty_conv)
  with True show ?thesis
    by (simp add: handleSubmit_def Let_def handleSessionChange_def session_ok_def)
next
  case False
  then have "actionType c = CloseAction" by (cases "actionType c") simp_all
  with assms(1,3) show ?thesis
    by (auto simp: handleSubmit_def Let_def handleSessionChange_def session_ok_def split: option.splits)
qed

lemma sys_inv_submit:
  assumes inv: "sys_inv t0 s" and clk: "sys_clock s < t"
  shows "sys_inv t0 (sys_exec t Submit s)"
proof -
  obtain a' c' r where h: "handleSubmit (string_of_nat t) t (ledger (sys_db s)) (sys_app s) (sys_cr s) = (a', c', r)"
    by (cases "handleSubmit (string_of_nat t) t (ledger (sys_db s)) (sys_app s) (sys_cr s)") auto
  have "session_ok a' (sys_db s) t"
    using session_ok_handleSubmit [of "sys_app s" "sys_db s" "sys_clock s" t "string_of_nat t" "sys_cr s"] inv clk h
    by (simp add: sys_inv_def)
  with inv clk h show ?thesis
    by (auto simp: sys_inv_def list_all_iff)
qed

lemma frame_navigate:
  "sys_inv t0 s \<Longrightarrow> sys_clock s < t \<Longrightarrow> sys_inv t0 ((remount p s)\<lparr>sys_clock := t\<rparr>)"
  by (rule sys_inv_frame) (auto simp: remount_def pos_init_def cart_inv_def)

lemma sys_inv_step:
  assumes inv: "sys_inv t0 s" and en: "sys_enabled a s" and clk: "sys_clock s < t"
  shows "sys_inv t0 (sys_exec t a s)"
proof -
  have dist: "distinct (map product_id (catalog (sys_db s)))"
    using inv by (simp add: sys_inv_def MOCK_PRODUCTS_ids_distinct)
  have ci: "pos_ready s \<Longrightarrow> cart_inv (catalog (sys_db s)) (cart (sys_pos s))"
    using inv by (simp add: sys_inv_def pos_ready_def)
  note fp = frame_pos [OF inv clk]
  show ?thesis
  proof (cases a)
    case (Login e)
    then show ?thesis using frame_app [OF inv clk] by simp
  next
    case Logout
    then show ?thesis using frame_remount [OF inv clk] by simp
  next
    case (Navigate p)
    then show ?thesis using frame_navigate [OF inv clk] by simp
  next
    case (SaveSettings st)
    then show ?thesis using frame_app [OF inv clk] by simp
  next
    case (ChangePaymentMethods ms)
    then show ?thesis using frame_app [OF inv clk] by simp
  next
    case (SetSearch x)
    with en ci show ?thesis by (simp add: fp)
  next
    case (KeyDown k)
    with en ci dist show ?thesis by (simp add: fp cart_inv_handleKeyDown)
  next
    case (SetCategory x)
    with en ci show ?thesis by (simp add: fp)
  next
    case (SelectClient c)
    with en ci show ?thesis by (simp add: fp)
  next
    case (SelectPayment x)
    with en ci show ?thesis by (simp add: fp)
  next
    case (ClickProduct p)
    with en have "p \<in> set (catalog (sys_db s))" and r: "pos_ready s"
      by (auto dest: filteredProducts_subset)
    with ClickProduct ci dist show ?thesis by (simp add: fp cart_inv_clickProduct)
  next
    case (UpdateQty k d)
    with en ci show ?thesis by (simp add: fp updateQuantity_cart_inv)
  next
    case (RemoveItem k)
    with en ci show ?thesis by (simp add: fp removeFromCart_cart_inv)
  next
    case (SetPriceType pt)
    with en ci show ?thesis by (simp add: fp handlePriceTypeChange_cart_inv)
  next
    case Checkout
    then show ?thesis
      using sys_inv_checkout_no_payment [OF inv _ clk] sys_inv_checkout_commit [OF inv _ clk] en by blast
  next
    case NewSale
    then show ?thesis by (simp add: fp handleNewSale_def cart_inv_def)
  next
    case (OpenModal x)
    then show ?thesis using frame_cr [OF inv clk] by simp
  next
    case (SetAmount x)
    then show ?thesis using frame_cr [OF inv clk] by simp
  next
    case (SetNotes x)
    then show ?thesis using frame_cr [OF inv clk] by simp
  next
    case Submit
    then show ?thesis using sys_inv_submit [OF inv clk] by simp
  qed
qed

lemma reachable_sys_inv: "reachable t0 s \<Longrightarrow> sys_inv t0 s"
proof (induction rule: reachable.induct)
  case init
  show ?case by (rule sys_inv_init)
next
  case (step s a t)
  from step.IH step.hyps(2,3) show ?case by (rule sys_inv_step)
qed


subsection \<open>Closing the register\<close>

text \<open>From any page but the register page, a logged-in user with an open
  session closes it in three actions: go to the register, open the closing
  dialog, confirm.\<close>

lemma close_from_other_page:
  assumes "app_user (sys_app s) \<noteq> None" and "currentSession (sys_app s) \<noteq> None"
    and "sys_page s \<noteq> CashRegisterPage"
  shows "\<exists>s'. run [(sys_clock s + 1, Navigate CashRegisterPage), (sys_clock s + 2, OpenModal CloseAction),
                   (sys_clock s + 3, Submit)] s = Some s' \<and> currentSession (sys_app s') = None"
  using assms
  by (auto simp: remount_def handleOpenAction_def handleSubmit_def handleSessionChange_def Let_def cr_init_def)

lemma close_possible:
  assumes "app_user (sys_app s) \<noteq> None" and "currentSession (sys_app s) \<noteq> None"
  shows "\<exists>tr s'. run tr s = Some s' \<and> currentSession (sys_app s') = None"
proof (cases "sys_page s = CashRegisterPage")
  case False
  with close_from_other_page [OF assms] show ?thesis by blast
next
  case True
  let ?s1 = "sys_exec (sys_clock s + 1) (Navigate OtherPage) s"
  have en: "sys_enabled (Navigate OtherPage) s" using assms True by simp
  have "app_user (sys_app ?s1) \<noteq> None" "currentSession (sys_app ?s1) \<noteq> None" "sys_page ?s1 \<noteq> CashRegisterPage"
    using assms by (simp_all add: remount_def)
  from close_from_other_page [OF this] obtain s' where
    r: "run [(sys_clock ?s1 + 1, Navigate CashRegisterPage), (sys_clock ?s1 + 2, OpenModal CloseAction),
             (sys_clock ?s1 + 3, Submit)] ?s1 = Some s'" and c: "currentSession (sys_app s') = None"
    by blast
  have "run ((sys_clock s + 1, Navigate OtherPage) # [(sys_clock ?s1 + 1, Navigate CashRegisterPage),
      (sys_clock ?s1 + 2, OpenModal CloseAction), (sys_clock ?s1 + 3, Submit)]) s = Some s'"
    using en r by simp
  with c show ?thesis by blast
qed

end
