(* ===== verification/Reports.thy ===== *)
theory Reports
  imports Checkout
begin

text \<open>
  The read-only report pages over the ledger and the catalog.
  \<open>src/pages/Sales/SalesByProduct.tsx\<close>: \<open>aggregatedData\<close> walks the
  ledger (\<open>MOCK_SALES\<close>) in order and, for every line of a completed sale,
  either adds to the row of its product id or appends a new row, the
  insertion order of a JavaScript \<open>Map\<close>; \<open>filteredData\<close>,
  \<open>totalQuantity\<close>, \<open>totalRevenue\<close> and the percentage column follow.
  The abstract per-product rollup of the specification is \<open>rollup\<close>: the
  product ids in order of first sale, each with the summed quantity and line
  value; \<open>aggregatedData\<close> refines it.
  \<open>src/pages/Sales/SalesHistory.tsx\<close>: the page's own copy of the ledger,
  \<open>handleDelete\<close>, \<open>saleTax\<close>, \<open>getClientName\<close>.
  \<open>src/pages/Dashboard.tsx\<close> and \<open>src/pages/Inventory/InventoryReport.tsx\<close>:
  the statistics cards.
\<close>

subsection \<open>Sales by product\<close>

record product_sales_data =
  psd_id :: string
  psd_code :: string
  psd_name :: string
  quantitySold :: int
  totalRevenue :: money

text \<open>One line of a completed sale: \<open>productMap.get(item.id)\<close>, then an in-place
  update of the existing row or \<open>productMap.set\<close> of a new one at the end.\<close>

fun psd_add :: "product_sales_data list \<Rightarrow> cart_item \<Rightarrow> product_sales_data list" where
  "psd_add [] item =
     [\<lparr>psd_id = product_id item, psd_code = code item, psd_name = name item,
       quantitySold = quantity item, totalRevenue = finalPrice item * of_int (quantity item)\<rparr>]"
| "psd_add (r # rs) item =
     (if psd_id r = product_id item
      then r\<lparr>quantitySold := quantitySold r + quantity item,
             totalRevenue := totalRevenue r + finalPrice item * of_int (quantity item)\<rparr> # rs
      else r # psd_add rs item)"

definition aggregatedData :: "sale list \<Rightarrow> product_sales_data list" where
  "aggregatedData sales =
     foldl (\<lambda>m sale. if sale_status sale = Completed then foldl psd_add m (items sale) else m) [] sales"

definition filteredData :: "string \<Rightarrow> product_sales_data list \<Rightarrow> product_sales_data list" where
  "filteredData term rows =
     filter (\<lambda>item. str_includes (toLowerCase (psd_name item)) (toLowerCase term) \<or>
                   str_includes (toLowerCase (psd_code item)) (toLowerCase term)) rows"

definition totalQuantity :: "product_sales_data list \<Rightarrow> int" where
  "totalQuantity rows = foldl (\<lambda>acc curr. acc + quantitySold curr) 0 rows"

definition report_totalRevenue :: "product_sales_data list \<Rightarrow> money" where
  "report_totalRevenue rows = foldl (\<lambda>acc curr. acc + totalRevenue curr) 0 rows"

definition percentOfTotal :: "money \<Rightarrow> product_sales_data \<Rightarrow> money" where
  "percentOfTotal totalRev item = (totalRevenue item / totalRev) * 100"

text \<open>The specification's rollup: group the lines of the completed sales by
  product id (in order of first appearance) and sum quantity and line value.\<close>

definition completed :: "sale list \<Rightarrow> sale list" where
  "completed sales = filter (\<lambda>s. sale_status s = Completed) sales"

definition lines_of :: "sale list \<Rightarrow> cart_item list" where
  "lines_of sales = concat (map items (completed sales))"

definition first_occ :: "'a list \<Rightarrow> 'a list" where
  "first_occ xs = rev (remdups (rev xs))"

definition rev_of :: "cart_item list \<Rightarrow> string \<Rightarrow> money" where
  "rev_of c k = sum_list (map line_amount (filter (\<lambda>item. product_id item = k) c))"

definition rollup :: "cart_item list \<Rightarrow> (string \<times> int \<times> money) list" where
  "rollup c = map (\<lambda>k. (k, qty_of c k, rev_of c k)) (first_occ (map product_id c))"

definition psd_abs :: "product_sales_data \<Rightarrow> string \<times> int \<times> money" where
  "psd_abs r = (psd_id r, quantitySold r, totalRevenue r)"

subsection \<open>Sales history\<close>

record history_state =
  hist_sales :: "sale list"
  selectedSale :: "sale option"
  hist_modal :: bool

definition history_init :: "sale list \<Rightarrow> history_state" where
  "history_init ledger0 = \<lparr>hist_sales = ledger0, selectedSale = None, hist_modal = False\<rparr>"

definition handleViewDetail :: "sale \<Rightarrow> history_state \<Rightarrow> history_state" where
  "handleViewDetail sale h = h\<lparr>selectedSale := Some sale, hist_modal := True\<rparr>"

text \<open>\<open>confirm(...)\<close> is the user's answer to the dialog.\<close>

definition handleDelete :: "bool \<Rightarrow> string \<Rightarrow> history_state \<Rightarrow> history_state" where
  "handleDelete confirmed sid h = (if confirmed then h\<lparr>hist_sales := filter (\<lambda>s. sale_id s \<noteq> sid) (hist_sales h)\<rparr> else h)"

definition getClientName :: "client list \<Rightarrow> string option \<Rightarrow> string" where
  "getClientName clients cid =
     (case find (\<lambda>c. Some (client_id c) = cid) clients of
        Some c \<Rightarrow> if client_name c = '''' then ''Consumidor Final'' else client_name c
      | None \<Rightarrow> ''Consumidor Final'')"

text \<open>\<open>sale.tax !== undefined\<close> always holds for a typed \<open>Sale\<close>, so the
  fallback \<open>total - subtotal\<close> is dead code.\<close>

definition saleTax :: "sale \<Rightarrow> money" where
  "saleTax sale = tax sale"

subsection \<open>Dashboard and inventory statistics\<close>

definition dashboard_totalSales :: "sale list \<Rightarrow> money" where
  "dashboard_totalSales sales = foldl (\<lambda>acc sale. acc + sale_total sale) 0 sales"

definition lowStockCount :: "product list \<Rightarrow> nat" where
  "lowStockCount products = length (filter (\<lambda>p. stock p \<le> minStock p) products)"

definition inv_filteredProducts :: "string \<Rightarrow> product list \<Rightarrow> product list" where
  "inv_filteredProducts term products =
     filter (\<lambda>p. str_includes (toLowerCase (name p)) (toLowerCase term) \<or>
                str_includes (toLowerCase (code p)) (toLowerCase term)) products"

definition totalStock :: "product list \<Rightarrow> int" where
  "totalStock products = foldl (\<lambda>acc curr. acc + stock curr) 0 products"

definition totalValue :: "product list \<Rightarrow> money" where
  "totalValue products = foldl (\<lambda>acc curr. acc + buyPrice curr * of_int (stock curr)) 0 products"

subsection \<open>The aggregation refines the rollup\<close>

lemma first_occ_snoc:
  "first_occ (xs @ [a]) = (if a \<in> set xs then first_occ xs else first_occ xs @ [a])"
  by (simp add: first_occ_def)

lemma first_occ_Nil [simp]: "first_occ [] = []"
  by (simp add: first_occ_def)

lemma set_first_occ [simp]: "set (first_occ xs) = set xs"
  by (simp add: first_occ_def)

lemma distinct_first_occ [simp]: "distinct (first_occ xs)"
  by (simp add: first_occ_def)

lemma qty_of_snoc: "qty_of (c @ [x]) k = qty_of c k + (if product_id x = k then quantity x else 0)"
  by (simp add: qty_of_def)

lemma rev_of_snoc: "rev_of (c @ [x]) k = rev_of c k + (if product_id x = k then line_amount x else 0)"
  by (simp add: rev_of_def)

lemma psd_add_abs:
  "distinct (map psd_id m) \<Longrightarrow> map psd_abs (psd_add m x) =
     (if product_id x \<in> set (map psd_id m)
      then map (\<lambda>(k, q, v). if k = product_id x then (k, q + quantity x, v + line_amount x) else (k, q, v)) (map psd_abs m)
      else map psd_abs m @ [(product_id x, quantity x, line_amount x)])"
  by (induction m) (auto simp: psd_abs_def line_amount_def image_iff intro!: map_idI)

lemma rollup_snoc:
  "rollup (c @ [x]) =
     (if product_id x \<in> set (map product_id c)
      then map (\<lambda>(k, q, v). if k = product_id x then (k, q + quantity x, v + line_amount x) else (k, q, v)) (rollup c)
      else rollup c @ [(product_id x, quantity x, line_amount x)])"
proof (cases "product_id x \<in> set (map product_id c)")
  case True
  then show ?thesis
    by (simp add: rollup_def first_occ_snoc qty_of_snoc rev_of_snoc)
next
  case False
  then have "filter (\<lambda>item. product_id item = product_id x) c = []"
    by (auto simp: filter_empty_conv image_iff)
  then have "qty_of c (product_id x) = 0" "rev_of c (product_id x) = 0"
    by (simp_all add: qty_of_def rev_of_def)
  with False show ?thesis
    by (auto simp: rollup_def first_occ_snoc qty_of_snoc rev_of_snoc)
qed

lemma map_psd_id_conv: "map psd_id m = map fst (map psd_abs m)"
  by (simp add: psd_abs_def comp_def)

lemma map_fst_rollup: "map fst (rollup c) = first_occ (map product_id c)"
  by (simp add: rollup_def comp_def)

lemma foldl_psd_add_rollup: "map psd_abs (foldl psd_add [] c) = rollup c"
proof (induction c rule: rev_induct)
  case Nil
  then show ?case by (simp add: rollup_def)
next
  case (snoc x c)
  have ids: "map psd_id (foldl psd_add [] c) = first_occ (map product_id c)"
    using arg_cong [OF snoc.IH, of "map fst"] by (simp add: map_psd_id_conv map_fst_rollup)
  then have "distinct (map psd_id (foldl psd_add [] c))" by simp
  with snoc.IH ids show ?case
    by (simp add: psd_add_abs rollup_snoc)
qed

lemma foldl_filter_if:
  "foldl (\<lambda>m x. if P x then f m x else m) a xs = foldl f a (filter P xs)"
  by (induction xs arbitrary: a) auto

lemma foldl_concat_map:
  "foldl (\<lambda>m x. foldl f m (g x)) a xs = foldl f a (concat (map g xs))"
  by (induction xs arbitrary: a) simp_all

lemma aggregatedData_conv: "aggregatedData sales = foldl psd_add [] (lines_of sales)"
  by (simp add: aggregatedData_def lines_of_def completed_def foldl_filter_if foldl_concat_map)


lemma report_totalRevenue_sum: "report_totalRevenue rows = sum_list (map totalRevenue rows)"
  by (simp add: report_totalRevenue_def)

lemma totalQuantity_sum: "totalQuantity rows = sum_list (map quantitySold rows)"
  by (simp add: totalQuantity_def)

lemma sum_rollup_rev: "sum_list (map (\<lambda>(k, q, v). v) (rollup c)) = sum_list (map line_amount c)"
  by (simp add: rollup_def comp_def rev_of_def sum_list_group)

lemma sum_rollup_qty: "sum_list (map (\<lambda>(k, q, v). q) (rollup c)) = sum_list (map quantity c)"
  by (simp add: rollup_def comp_def qty_of_def sum_list_group)

lemma subTotal_line_amount: "subTotal c = sum_list (map line_amount c)"
  by (simp add: subTotal_def line_amount_def [abs_def])

lemma sum_lines_of: "sum_list (map f (lines_of sales)) = sum_list (map (\<lambda>s. sum_list (map f (items s))) (completed sales))"
  by (simp add: lines_of_def sum_list_map_concat comp_def)

text \<open>C27. The per-product rollup of \<open>SalesByProduct\<close> implements the
  specification's grouping: its rows, read as (id, quantity, revenue), are the
  product ids of the completed sales' lines in order of first sale, each with
  the summed quantity and the summed \<open>finalPrice * quantity\<close>.\<close>

theorem aggregatedData_refines_rollup: "map psd_abs (aggregatedData sales) = rollup (lines_of sales)"
  by (simp add: aggregatedData_conv foldl_psd_add_rollup)

text \<open>Summing the per-product revenue of the report gives the sum of the
  line-level subtotals of the completed sales.\<close>

lemma aggregate_revenue_total:
  "report_totalRevenue (aggregatedData sales) = sum_list (map (\<lambda>s. subTotal (items s)) (completed sales))"
proof -
  have "report_totalRevenue (aggregatedData sales) = sum_list (map (\<lambda>(k, q, v). v) (map psd_abs (aggregatedData sales)))"
    by (simp add: report_totalRevenue_sum psd_abs_def comp_def)
  also have "\<dots> = sum_list (map line_amount (lines_of sales))"
    by (simp add: aggregatedData_conv foldl_psd_add_rollup sum_rollup_rev)
  finally show ?thesis by (simp add: sum_lines_of subTotal_line_amount)
qed

text \<open>The units column of the report sums to the units sold in completed sales.\<close>

theorem aggregate_quantity_total:
  "totalQuantity (aggregatedData sales) = sum_list (map quantity (lines_of sales))"
proof -
  have "totalQuantity (aggregatedData sales) = sum_list (map (\<lambda>(k, q, v). q) (map psd_abs (aggregatedData sales)))"
    by (simp add: totalQuantity_sum psd_abs_def comp_def)
  then show ?thesis
    by (simp add: aggregatedData_conv foldl_psd_add_rollup sum_rollup_qty)
qed

lemma lines_of_append: "lines_of (xs @ ys) = lines_of xs @ lines_of ys"
  by (simp add: lines_of_def completed_def)

lemma qty_of_append: "qty_of (c @ d) k = qty_of c k + qty_of d k"
  by (simp add: qty_of_def)

lemma qty_of_concat: "qty_of (concat cs) k = sum_list (map (\<lambda>c. qty_of c k) cs)"
  by (induction cs) (simp_all add: qty_of_append)

lemma sum_list_percent:
  "sum_list (map (\<lambda>x. f x * 100 / t) xs) = sum_list (map f xs) * 100 / (t::money)"
  by (induction xs) (simp_all add: add_divide_distrib distrib_right)

text \<open>The exact shares of the rows add up to 100 when the total is positive;
  the page prints each share rounded to one decimal (\<open>ReportViews\<close>).\<close>

lemma percentOfTotal_sum:
  assumes "0 < report_totalRevenue rows"
  shows "sum_list (map (percentOfTotal (report_totalRevenue rows)) rows) = 100"
proof -
  let ?T = "report_totalRevenue rows"
  have "percentOfTotal ?T = (\<lambda>x. totalRevenue x * 100 / ?T)"
    by (simp add: percentOfTotal_def fun_eq_iff)
  then have "sum_list (map (percentOfTotal ?T) rows) = sum_list (map totalRevenue rows) * 100 / ?T"
    by (simp add: sum_list_percent)
  with assms show ?thesis by (simp add: report_totalRevenue_sum)
qed

end
