(* ===== verification/Crud.thy ===== *)
theory Crud
  imports MockData
begin

text \<open>
  The master-data pages share one shape: a list of entities keyed by
  \<open>id\<close>, a modal form, the entity being edited (\<open>editingX\<close>), and the
  handlers \<open>handleOpenModal\<close>, \<open>handleSave\<close> and \<open>handleDelete\<close>. The shape
  is modelled once over the entity type \<open>'e\<close> and the form type \<open>'f\<close>: a page
  supplies its key, the loading of an entity into the form, the blank form,
  the guard of \<open>handleSave\<close> (\<open>!name.trim()\<close> on the pages that have it),
  the merge of the form into an edited entity (\<open>{ ...x, ...formData }\<close> or
  \<open>{ ...x, name, color }\<close>) and the creation of a new entity from the form
  with the id \<open>Date.now().toString()\<close>. The generic lemmas are proved once
  over these parameters; each page is an instance of them:
  \<open>src/pages/Inventory/Products.tsx\<close>, \<open>src/pages/Clients.tsx\<close>,
  \<open>src/pages/Users.tsx\<close>, \<open>src/pages/Inventory/Categories.tsx\<close>,
  \<open>src/pages/Inventory/Brands.tsx\<close> and \<open>src/pages/PaymentMethods.tsx\<close>.
  All of them but the last edit a page-local copy of the mock table; the
  payment-method page edits the list it receives from \<open>App\<close> and hands the
  result to \<open>onUpdate\<close>.
\<close>

subsection \<open>The generic page\<close>

record ('e, 'f) crud_state =
  crud_items :: "'e list"
  crud_modal :: bool
  crud_editing :: "'e option"
  crud_form :: 'f

definition crud_init :: "'e list \<Rightarrow> 'f \<Rightarrow> ('e, 'f) crud_state" where
  "crud_init xs blank = \<lparr>crud_items = xs, crud_modal = False, crud_editing = None, crud_form = blank\<rparr>"

definition crud_open :: "('e \<Rightarrow> 'f) \<Rightarrow> 'f \<Rightarrow> 'e option \<Rightarrow> ('e, 'f) crud_state \<Rightarrow> ('e, 'f) crud_state" where
  "crud_open load blank x st =
     (case x of
        Some e \<Rightarrow> st\<lparr>crud_editing := Some e, crud_form := load e, crud_modal := True\<rparr>
      | None \<Rightarrow> st\<lparr>crud_editing := None, crud_form := blank, crud_modal := True\<rparr>)"

definition crud_save ::
  "('e \<Rightarrow> string) \<Rightarrow> ('f \<Rightarrow> bool) \<Rightarrow> ('e \<Rightarrow> 'f \<Rightarrow> 'e) \<Rightarrow> ('f \<Rightarrow> string \<Rightarrow> 'e) \<Rightarrow> string \<Rightarrow>
   ('e, 'f) crud_state \<Rightarrow> ('e, 'f) crud_state" where
  "crud_save key valid merge create newId st =
     (if \<not> valid (crud_form st) then st
      else (case crud_editing st of
              Some e \<Rightarrow> st\<lparr>crud_items := map (\<lambda>x. if key x = key e then merge x (crud_form st) else x) (crud_items st)\<rparr>
            | None \<Rightarrow> st\<lparr>crud_items := crud_items st @ [create (crud_form st) newId]\<rparr>)\<lparr>crud_modal := False\<rparr>)"

text \<open>\<open>confirm(...)\<close> is the user's answer to the dialog.\<close>

definition crud_delete :: "('e \<Rightarrow> string) \<Rightarrow> bool \<Rightarrow> string \<Rightarrow> ('e, 'f) crud_state \<Rightarrow> ('e, 'f) crud_state" where
  "crud_delete key confirmed k st =
     (if confirmed then st\<lparr>crud_items := filter (\<lambda>x. key x \<noteq> k) (crud_items st)\<rparr> else st)"

definition crud_close :: "('e, 'f) crud_state \<Rightarrow> ('e, 'f) crud_state" where
  "crud_close st = st\<lparr>crud_modal := False\<rparr>"

definition crud_edit_form :: "('f \<Rightarrow> 'f) \<Rightarrow> ('e, 'f) crud_state \<Rightarrow> ('e, 'f) crud_state" where
  "crud_edit_form upd st = st\<lparr>crud_form := upd (crud_form st)\<rparr>"

definition not_blank :: "string \<Rightarrow> bool" where
  "not_blank s = (trim s \<noteq> '''')"


subsection \<open>Products\<close>

text \<open>\<open>Partial<Product>\<close>: the fields the blank form lacks (\<open>id\<close>, \<open>imageUrl\<close>)
  are empty strings; a new product gets both from the clock. The source reads
  \<open>Date.now()\<close> twice; the model uses one reading for both.\<close>

definition product_blank :: product where
  "product_blank = \<lparr>product_id = '''', code = '''', name = '''', categoryId = '''', brandId = '''',
     buyPrice = 0, priceRetail = 0, priceWholesale = 0, priceSpecial = 0, stock = 0, minStock = 5,
     imageUrl = '''', isActive = True\<rparr>"

definition products_handleOpenModal :: "product option \<Rightarrow> (product, product) crud_state \<Rightarrow> (product, product) crud_state" where
  "products_handleOpenModal x st = crud_open id product_blank x st"

definition products_handleSave :: "timestamp \<Rightarrow> (product, product) crud_state \<Rightarrow> (product, product) crud_state" where
  "products_handleSave now st =
     crud_save product_id (\<lambda>_. True) (\<lambda>p f. f)
       (\<lambda>f fid. f\<lparr>product_id := fid, imageUrl := ''https://picsum.photos/200/200?random='' @ fid\<rparr>)
       (string_of_nat now) st"

definition products_handleDelete :: "bool \<Rightarrow> string \<Rightarrow> (product, product) crud_state \<Rightarrow> (product, product) crud_state" where
  "products_handleDelete confirmed k st = crud_delete product_id confirmed k st"

text \<open>\<open>Math.floor(1000000000000 + Math.random() * 9000000000000).toString()\<close>,
  with the random number \<open>r\<close> drawn from \<open>[0, 1)\<close>.\<close>

definition generateBarcode :: "rat \<Rightarrow> (product, product) crud_state \<Rightarrow> (product, product) crud_state" where
  "generateBarcode r st =
     st\<lparr>crud_form := (crud_form st)\<lparr>code := string_of_nat (nat (floor (1000000000000 + r * 9000000000000)))\<rparr>\<rparr>"

subsection \<open>Clients\<close>

definition client_blank :: client where
  "client_blank = \<lparr>client_id = '''', client_name = '''', client_email = '''', client_phone = '''', taxId = '''',
     client_address = '''', client_active = True\<rparr>"

definition filteredClients :: "string \<Rightarrow> client list \<Rightarrow> client list" where
  "filteredClients term cs =
     filter (\<lambda>c. str_includes (toLowerCase (client_name c)) (toLowerCase term) \<or> str_includes (taxId c) term) cs"

definition clients_handleOpenModal :: "client option \<Rightarrow> (client, client) crud_state \<Rightarrow> (client, client) crud_state" where
  "clients_handleOpenModal x st = crud_open id client_blank x st"

definition clients_handleSave :: "timestamp \<Rightarrow> (client, client) crud_state \<Rightarrow> (client, client) crud_state" where
  "clients_handleSave now st =
     crud_save client_id (\<lambda>_. True) (\<lambda>c f. f) (\<lambda>f fid. f\<lparr>client_id := fid\<rparr>) (string_of_nat now) st"

definition clients_handleDelete :: "bool \<Rightarrow> string \<Rightarrow> (client, client) crud_state \<Rightarrow> (client, client) crud_state" where
  "clients_handleDelete confirmed k st = crud_delete client_id confirmed k st"

subsection \<open>Users\<close>

definition user_blank :: user where
  "user_blank = \<lparr>user_id = '''', user_name = '''', user_email = '''', role = SELLER, user_active = True, avatarUrl = None\<rparr>"

definition filteredUsers :: "string \<Rightarrow> user list \<Rightarrow> user list" where
  "filteredUsers term us =
     filter (\<lambda>u. str_includes (toLowerCase (user_name u)) (toLowerCase term) \<or>
                str_includes (toLowerCase (user_email u)) (toLowerCase term)) us"

definition users_handleOpenModal :: "user option \<Rightarrow> (user, user) crud_state \<Rightarrow> (user, user) crud_state" where
  "users_handleOpenModal x st = crud_open id user_blank x st"

definition users_handleSave :: "timestamp \<Rightarrow> (user, user) crud_state \<Rightarrow> (user, user) crud_state" where
  "users_handleSave now st =
     crud_save user_id (\<lambda>_. True) (\<lambda>u f. f)
       (\<lambda>f fid. f\<lparr>user_id := fid, avatarUrl := Some (''https://ui-avatars.com/api/?name='' @ user_name f)\<rparr>)
       (string_of_nat now) st"

definition users_handleDelete :: "bool \<Rightarrow> string \<Rightarrow> (user, user) crud_state \<Rightarrow> (user, user) crud_state" where
  "users_handleDelete confirmed k st = crud_delete user_id confirmed k st"

subsection \<open>Categories and brands\<close>

text \<open>The form is the pair of the \<open>name\<close> and \<open>color\<close> inputs.\<close>

definition categories_handleOpenModal ::
  "category option \<Rightarrow> (category, string \<times> string) crud_state \<Rightarrow> (category, string \<times> string) crud_state" where
  "categories_handleOpenModal x st =
     crud_open (\<lambda>c. (category_name c, category_color c)) ('''', ''#000000'') x st"

definition categories_handleSave ::
  "timestamp \<Rightarrow> (category, string \<times> string) crud_state \<Rightarrow> (category, string \<times> string) crud_state" where
  "categories_handleSave now st =
     crud_save category_id (\<lambda>(n, col). not_blank n)
       (\<lambda>c (n, col). c\<lparr>category_name := n, category_color := col\<rparr>)
       (\<lambda>(n, col) fid. \<lparr>category_id = fid, category_name = n, category_color = col, category_active = True\<rparr>)
       (string_of_nat now) st"

definition categories_handleDelete ::
  "bool \<Rightarrow> string \<Rightarrow> (category, string \<times> string) crud_state \<Rightarrow> (category, string \<times> string) crud_state" where
  "categories_handleDelete confirmed k st = crud_delete category_id confirmed k st"

definition brands_handleOpenModal ::
  "brand option \<Rightarrow> (brand, string \<times> string) crud_state \<Rightarrow> (brand, string \<times> string) crud_state" where
  "brands_handleOpenModal x st = crud_open (\<lambda>b. (brand_name b, brand_color b)) ('''', ''#000000'') x st"

definition brands_handleSave ::
  "timestamp \<Rightarrow> (brand, string \<times> string) crud_state \<Rightarrow> (brand, string \<times> string) crud_state" where
  "brands_handleSave now st =
     crud_save brand_id (\<lambda>(n, col). not_blank n)
       (\<lambda>b (n, col). b\<lparr>brand_name := n, brand_color := col\<rparr>)
       (\<lambda>(n, col) fid. \<lparr>brand_id = fid, brand_name = n, brand_color = col, brand_active = True\<rparr>)
       (string_of_nat now) st"

definition brands_handleDelete ::
  "bool \<Rightarrow> string \<Rightarrow> (brand, string \<times> string) crud_state \<Rightarrow> (brand, string \<times> string) crud_state" where
  "brands_handleDelete confirmed k st = crud_delete brand_id confirmed k st"

subsection \<open>Payment methods\<close>

text \<open>The form is the pair of the \<open>name\<close> input and the \<open>isActive\<close> checkbox;
  \<open>crud_items\<close> is the list the page received from \<open>App\<close>. A handler that
  calls \<open>onUpdate\<close> returns the list it passes (\<open>Some\<close>); \<open>None\<close> means
  \<open>onUpdate\<close> is not called.\<close>

definition pm_handleOpenModal ::
  "payment_method option \<Rightarrow> (payment_method, string \<times> bool) crud_state \<Rightarrow> (payment_method, string \<times> bool) crud_state" where
  "pm_handleOpenModal x st = crud_open (\<lambda>m. (payment_name m, payment_active m)) ('''', True) x st"

definition pm_handleSave ::
  "timestamp \<Rightarrow> (payment_method, string \<times> bool) crud_state \<Rightarrow>
   (payment_method, string \<times> bool) crud_state \<times> payment_method list option" where
  "pm_handleSave now st =
     (let st' = crud_save payment_id (\<lambda>(n, a). not_blank n)
                  (\<lambda>m (n, a). m\<lparr>payment_name := n, payment_active := a\<rparr>)
                  (\<lambda>(n, a) fid. \<lparr>payment_id = fid, payment_name = n, payment_active = a\<rparr>)
                  (string_of_nat now) st
      in (st', if not_blank (fst (crud_form st)) then Some (crud_items st') else None))"

definition pm_handleDelete :: "bool \<Rightarrow> string \<Rightarrow> payment_method list \<Rightarrow> payment_method list option" where
  "pm_handleDelete confirmed k pms = (if confirmed then Some (filter (\<lambda>m. payment_id m \<noteq> k) pms) else None)"

definition toggleStatus :: "string \<Rightarrow> payment_method list \<Rightarrow> payment_method list" where
  "toggleStatus k pms = map (\<lambda>m. if payment_id m = k then m\<lparr>payment_active := \<not> payment_active m\<rparr> else m) pms"


subsection \<open>Generic lemmas\<close>

lemma crud_save_invalid: "\<not> valid (crud_form st) \<Longrightarrow> crud_save key valid merge create nid st = st"
  by (simp add: crud_save_def)

lemma crud_save_new:
  "valid (crud_form st) \<Longrightarrow> crud_editing st = None \<Longrightarrow>
   crud_save key valid merge create nid st =
     st\<lparr>crud_items := crud_items st @ [create (crud_form st) nid], crud_modal := False\<rparr>"
  by (simp add: crud_save_def)

lemma crud_save_edit:
  "valid (crud_form st) \<Longrightarrow> crud_editing st = Some e \<Longrightarrow>
   crud_save key valid merge create nid st =
     st\<lparr>crud_items := map (\<lambda>x. if key x = key e then merge x (crud_form st) else x) (crud_items st),
        crud_modal := False\<rparr>"
  by (simp add: crud_save_def)

lemma crud_open_Some [simp]:
  "crud_open load blank (Some e) st = st\<lparr>crud_editing := Some e, crud_form := load e, crud_modal := True\<rparr>"
  by (simp add: crud_open_def)

lemma crud_open_None [simp]:
  "crud_open load blank None st = st\<lparr>crud_editing := None, crud_form := blank, crud_modal := True\<rparr>"
  by (simp add: crud_open_def)

text \<open>Saving keeps the ids distinct when an edit does not change the edited
  entity's id and a new entity gets an id no entity has.\<close>

lemma crud_save_distinct:
  assumes "distinct (map key (crud_items st))"
    and "\<And>e x. crud_editing st = Some e \<Longrightarrow> key x = key e \<Longrightarrow> key (merge x (crud_form st)) = key e"
    and "crud_editing st = None \<Longrightarrow> key (create (crud_form st) nid) = nid \<and> nid \<notin> set (map key (crud_items st))"
  shows "distinct (map key (crud_items (crud_save key valid merge create nid st)))"
proof (cases "valid (crud_form st)")
  case False
  with assms(1) show ?thesis by (simp add: crud_save_invalid)
next
  case True
  show ?thesis
  proof (cases "crud_editing st")
    case None
    with True assms(1,3) show ?thesis by (simp add: crud_save_new)
  next
    case (Some e)
    have c: "crud_items (crud_save key valid merge create nid st) =
          map (\<lambda>x. if key x = key e then merge x (crud_form st) else x) (crud_items st)"
      using True Some by (simp add: crud_save_edit)
    have m: "map key (map (\<lambda>x. if key x = key e then merge x (crud_form st) else x) (crud_items st)) =
          map key (crud_items st)"
      using assms(2) [OF Some] by auto
    show ?thesis unfolding c by (subst m) (rule assms(1))
  qed
qed

lemma distinct_key_eq: "distinct (map key xs) \<Longrightarrow> x \<in> set xs \<Longrightarrow> y \<in> set xs \<Longrightarrow> key x = key y \<Longrightarrow> x = y"
  by (metis distinct_map inj_onD)

text \<open>Opening an entity for editing and saving the form untouched leaves the
  list as it was, when merging an entity's own form back is the identity.\<close>

lemma crud_edit_roundtrip:
  assumes "distinct (map key (crud_items st))" "e \<in> set (crud_items st)" "\<And>x. merge x (load x) = x"
  shows "crud_items (crud_save key valid merge create nid (crud_open load blank (Some e) st)) = crud_items st"
proof (cases "valid (load e)")
  case False
  then show ?thesis by (simp add: crud_save_invalid)
next
  case True
  have "map (\<lambda>x. if key x = key e then merge x (load e) else x) (crud_items st) = crud_items st"
  proof (rule map_idI)
    fix x assume x: "x \<in> set (crud_items st)"
    show "(if key x = key e then merge x (load e) else x) = x"
      using distinct_key_eq [OF assms(1) x assms(2)] assms(3) by auto
  qed
  with True show ?thesis by (simp add: crud_save_edit cong: if_cong)
qed

lemma crud_delete_keys:
  "set (map key (crud_items (crud_delete key True k st))) = set (map key (crud_items st)) - {k}"
  by (auto simp: crud_delete_def)

subsection \<open>Properties of the pages\<close>

text \<open>C32. Saving a new product appends it, with the clock's reading as id and
  image seed, at the end of the page's list and closes the modal; the ids stay
  distinct when no product has that id yet.\<close>

theorem products_handleSave_new:
  assumes "crud_editing st = None" and "distinct (map product_id (crud_items st))"
    and "string_of_nat now \<notin> set (map product_id (crud_items st))"
  shows "crud_items (products_handleSave now st) =
           crud_items st @ [(crud_form st)\<lparr>product_id := string_of_nat now,
             imageUrl := ''https://picsum.photos/200/200?random='' @ string_of_nat now\<rparr>] \<and>
         \<not> crud_modal (products_handleSave now st) \<and>
         distinct (map product_id (crud_items (products_handleSave now st)))"
proof -
  have "distinct (map product_id (crud_items (products_handleSave now st)))"
    unfolding products_handleSave_def using assms by (intro crud_save_distinct) simp_all
  with assms(1) show ?thesis by (simp add: products_handleSave_def crud_save_new)
qed

text \<open>A category whose name is empty or only white space is not saved:
  \<open>handleSave\<close> returns before touching the list, and the modal stays open.\<close>

theorem categories_handleSave_blank:
  assumes "trim (fst (crud_form st)) = ''''"
  shows "categories_handleSave now st = st"
  using assms unfolding categories_handleSave_def
  by (intro crud_save_invalid) (auto simp: not_blank_def split: prod.split)

text \<open>Opening a client for editing and saving the form unchanged leaves the
  client list as it was.\<close>

theorem clients_edit_roundtrip:
  assumes "distinct (map client_id (crud_items st))" and "c \<in> set (crud_items st)"
  shows "crud_items (clients_handleSave now (clients_handleOpenModal (Some c) st)) = crud_items st"
  unfolding clients_handleSave_def clients_handleOpenModal_def
  using assms by (rule crud_edit_roundtrip) simp

text \<open>Opening a category for editing and saving its name and color
  unchanged leaves the category list as it was (also when the stored name is
  blank, which the guard then refuses).\<close>

theorem categories_edit_roundtrip:
  assumes "distinct (map category_id (crud_items st))" and "c \<in> set (crud_items st)"
  shows "crud_items (categories_handleSave now (categories_handleOpenModal (Some c) st)) = crud_items st"
  unfolding categories_handleSave_def categories_handleOpenModal_def
  using assms by (rule crud_edit_roundtrip) simp

text \<open>Editing a user keeps the user ids distinct as long as the form still
  carries the edited user's id (the form has no id input).\<close>

theorem users_handleSave_edit_distinct:
  assumes "crud_editing st = Some u" and "user_id (crud_form st) = user_id u"
    and "distinct (map user_id (crud_items st))"
  shows "distinct (map user_id (crud_items (users_handleSave now st)))"
  unfolding users_handleSave_def using assms by (intro crud_save_distinct) simp_all

text \<open>A generated barcode has 13 digits, for every random number in \<open>[0, 1)\<close>.\<close>

theorem generateBarcode_length:
  assumes "0 \<le> r" and "r < 1"
  shows "length (code (crud_form (generateBarcode r st))) = 13"
proof -
  define z where "z = floor (1000000000000 + r * 9000000000000)"
  have "1000000000000 \<le> 1000000000000 + r * 9000000000000" using assms(1) by simp
  then have lo: "1000000000000 \<le> z" unfolding z_def by (simp only: le_floor_iff of_int_numeral)
  have "1000000000000 + r * 9000000000000 < 10000000000000" using assms(2) by simp
  then have hi: "z < 10000000000000" unfolding z_def by (simp only: floor_less_iff of_int_numeral)
  have "10 ^ 12 \<le> nat z" using lo by (simp add: le_nat_iff)
  moreover have "nat z < 10 ^ Suc 12" using hi lo by (simp add: nat_less_iff)
  ultimately have "length (string_of_nat (nat z)) = 13" by (simp add: length_string_of_nat [of 12] del: power_Suc)
  then show ?thesis by (simp add: generateBarcode_def z_def)
qed


theorem products_handleSave_new_witness:
  "crud_editing (products_handleOpenModal None (crud_init MOCK_PRODUCTS product_blank)) = None \<and>
   distinct (map product_id (crud_items (products_handleOpenModal None (crud_init MOCK_PRODUCTS product_blank)))) \<and>
   string_of_nat 1700000000000 \<notin>
     set (map product_id (crud_items (products_handleOpenModal None (crud_init MOCK_PRODUCTS product_blank)))) \<and>
   length (crud_items (products_handleSave 1700000000000
     (products_handleOpenModal None (crud_init MOCK_PRODUCTS product_blank)))) = 5"
proof -
  let ?st = "products_handleOpenModal None (crud_init MOCK_PRODUCTS product_blank)"
  have h1: "crud_editing ?st = None" by (simp add: products_handleOpenModal_def)
  have h2: "distinct (map product_id (crud_items ?st))"
    by (simp add: products_handleOpenModal_def crud_init_def MOCK_PRODUCTS_def)
  have h3: "string_of_nat 1700000000000 \<notin> set (map product_id (crud_items ?st))"
    by (simp add: products_handleOpenModal_def crud_init_def MOCK_PRODUCTS_def string_of_nat_eval)
  have "length (crud_items (products_handleSave 1700000000000 ?st)) = 5"
    using products_handleSave_new [OF h1 h2 h3]
    by (simp add: products_handleOpenModal_def crud_init_def MOCK_PRODUCTS_def)
  with h1 h2 h3 show ?thesis by blast
qed

theorem categories_handleSave_blank_witness:
  "trim (fst (crud_form (crud_edit_form (\<lambda>_. ('' '', ''#ff0000''))
      (categories_handleOpenModal None (crud_init MOCK_CATEGORIES ('''', ''#000000'')))))) = '''' \<and>
   categories_handleSave 1700000000000 (crud_edit_form (\<lambda>_. ('' '', ''#ff0000''))
      (categories_handleOpenModal None (crud_init MOCK_CATEGORIES ('''', ''#000000'')))) =
   crud_edit_form (\<lambda>_. ('' '', ''#ff0000'')) (categories_handleOpenModal None (crud_init MOCK_CATEGORIES ('''', ''#000000'')))"
proof -
  let ?st = "crud_edit_form (\<lambda>_. ('' '', ''#ff0000'')) (categories_handleOpenModal None (crud_init MOCK_CATEGORIES ('''', ''#000000'')))"
  have h: "trim (fst (crud_form ?st)) = ''''"
    by (simp add: crud_edit_form_def trim_def is_space_def)
  from h categories_handleSave_blank [OF h] show ?thesis by blast
qed

theorem clients_edit_roundtrip_witness:
  "distinct (map client_id (crud_items (crud_init MOCK_CLIENTS client_blank))) \<and>
   MOCK_CLIENTS ! 1 \<in> set (crud_items (crud_init MOCK_CLIENTS client_blank)) \<and>
   crud_items (clients_handleSave 1700000000000
     (clients_handleOpenModal (Some (MOCK_CLIENTS ! 1)) (crud_init MOCK_CLIENTS client_blank))) = MOCK_CLIENTS"
proof -
  have h1: "distinct (map client_id (crud_items (crud_init MOCK_CLIENTS client_blank)))"
    by (simp add: crud_init_def MOCK_CLIENTS_def)
  have h2: "MOCK_CLIENTS ! 1 \<in> set (crud_items (crud_init MOCK_CLIENTS client_blank))"
    by (simp add: crud_init_def MOCK_CLIENTS_def)
  from h1 h2 clients_edit_roundtrip [OF h1 h2] show ?thesis by (simp add: crud_init_def)
qed

theorem categories_edit_roundtrip_witness:
  "distinct (map category_id (crud_items (crud_init MOCK_CATEGORIES ('''', ''#000000'')))) \<and>
   MOCK_CATEGORIES ! 2 \<in> set (crud_items (crud_init MOCK_CATEGORIES ('''', ''#000000''))) \<and>
   crud_items (categories_handleSave 1700000000000
     (categories_handleOpenModal (Some (MOCK_CATEGORIES ! 2)) (crud_init MOCK_CATEGORIES ('''', ''#000000'')))) =
   MOCK_CATEGORIES"
proof -
  have h1: "distinct (map category_id (crud_items (crud_init MOCK_CATEGORIES ('''', ''#000000''))))"
    by (simp add: crud_init_def MOCK_CATEGORIES_def)
  have h2: "MOCK_CATEGORIES ! 2 \<in> set (crud_items (crud_init MOCK_CATEGORIES ('''', ''#000000'')))"
    by (simp add: crud_init_def MOCK_CATEGORIES_def)
  from h1 h2 categories_edit_roundtrip [OF h1 h2] show ?thesis by (simp add: crud_init_def)
qed

theorem users_handleSave_edit_distinct_witness:
  "crud_editing (crud_edit_form (\<lambda>u. u\<lparr>user_name := ''Juan Perez''\<rparr>)
     (users_handleOpenModal (Some (MOCK_USERS ! 1)) (crud_init MOCK_USERS user_blank))) = Some (MOCK_USERS ! 1) \<and>
   user_id (crud_form (crud_edit_form (\<lambda>u. u\<lparr>user_name := ''Juan Perez''\<rparr>)
     (users_handleOpenModal (Some (MOCK_USERS ! 1)) (crud_init MOCK_USERS user_blank)))) = user_id (MOCK_USERS ! 1) \<and>
   distinct (map user_id (crud_items (crud_edit_form (\<lambda>u. u\<lparr>user_name := ''Juan Perez''\<rparr>)
     (users_handleOpenModal (Some (MOCK_USERS ! 1)) (crud_init MOCK_USERS user_blank))))) \<and>
   distinct (map user_id (crud_items (users_handleSave 1700000000000 (crud_edit_form (\<lambda>u. u\<lparr>user_name := ''Juan Perez''\<rparr>)
     (users_handleOpenModal (Some (MOCK_USERS ! 1)) (crud_init MOCK_USERS user_blank))))))"
proof -
  let ?st = "crud_edit_form (\<lambda>u. u\<lparr>user_name := ''Juan Perez''\<rparr>)
     (users_handleOpenModal (Some (MOCK_USERS ! 1)) (crud_init MOCK_USERS user_blank))"
  have h1: "crud_editing ?st = Some (MOCK_USERS ! 1)"
    by (simp add: crud_edit_form_def users_handleOpenModal_def)
  have h2: "user_id (crud_form ?st) = user_id (MOCK_USERS ! 1)"
    by (simp add: crud_edit_form_def users_handleOpenModal_def)
  have h3: "distinct (map user_id (crud_items ?st))"
    by (simp add: crud_edit_form_def users_handleOpenModal_def crud_init_def MOCK_USERS_def)
  from h1 h2 h3 users_handleSave_edit_distinct [OF h1 h2 h3] show ?thesis by blast
qed

theorem generateBarcode_length_witness:
  "0 \<le> (1 / 2 :: rat) \<and> (1 / 2 :: rat) < 1 \<and>
   length (code (crud_form (generateBarcode (1 / 2) (crud_init MOCK_PRODUCTS product_blank)))) = 13"
proof -
  have h1: "0 \<le> (1 / 2 :: rat)" and h2: "(1 / 2 :: rat) < 1" by simp_all
  from h1 h2 generateBarcode_length [OF h1 h2] show ?thesis by blast
qed

end
