(* ===== verification/Admin.thy ===== *)
theory Admin
  imports Session
begin

text \<open>
  The two remaining pages that talk to \<open>App\<close>.
  \<open>src/pages/Settings.tsx\<close>: a form over \<open>CompanySettings\<close> whose
  \<open>handleChange\<close> stores each input's text, except \<open>taxRate\<close>, which goes
  through \<open>parseFloat\<close>; \<open>handleSubmit\<close> hands the form to \<open>onSave\<close>
  (\<open>App.handleSaveSettings\<close>). A \<open>type="number"\<close> input reports an empty
  value when it is cleared or holds no number, and \<open>parseFloat('')\<close> is
  \<open>NaN\<close>; the model's rationals have no \<open>NaN\<close>, so the form records it in
  \<open>sp_taxNaN\<close> (the stored \<open>taxRate\<close> field is then meaningless).
  \<open>parseFloat\<close> reads an optional sign, digits and an optional fraction
  after leading white space; exponents are not modelled. Both pages are HTML
  forms, so \<open>onSubmit\<close> fires only when the browser's constraint validation
  passes (\<open>settings_submit\<close>, \<open>login_submit\<close>).
  \<open>src/pages/Login.tsx\<close>: the form's email and password, the spinner, and the
  800 ms timer whose expiry calls \<open>onLogin(email)\<close>.
\<close>

subsection \<open>parseFloat\<close>

definition parseFloat :: "string \<Rightarrow> money option" where
  "parseFloat s =
     (let s1 = dropWhile is_space s;
          neg = (take 1 s1 = ''-'');
          s2 = (if take 1 s1 = ''-'' \<or> take 1 s1 = ''+'' then drop 1 s1 else s1);
          ip = takeWhile is_digit s2;
          rest = dropWhile is_digit s2;
          fp = (if take 1 rest = ''.'' then takeWhile is_digit (drop 1 rest) else '''')
      in if ip = '''' \<and> fp = '''' then None
         else Some ((if neg then -1 else 1) *
                    (of_nat (nat_of_string ip) + of_nat (nat_of_string fp) / 10 ^ length fp)))"

subsection \<open>Settings page\<close>

record settings_page =
  sp_form :: company_settings
  sp_taxNaN :: bool
  showSuccess :: bool

datatype settings_field = FName | FAddress | FPhone | FLogoUrl | FCurrencySymbol | FTaxName | FTaxRate

definition settings_init :: "company_settings \<Rightarrow> settings_page" where
  "settings_init initialSettings = \<lparr>sp_form = initialSettings, sp_taxNaN = False, showSuccess = False\<rparr>"

definition handleChange :: "settings_field \<Rightarrow> string \<Rightarrow> settings_page \<Rightarrow> settings_page" where
  "handleChange f v sp =
     (let form = sp_form sp in
      case f of
        FName \<Rightarrow> sp\<lparr>sp_form := form\<lparr>company_name := v\<rparr>\<rparr>
      | FAddress \<Rightarrow> sp\<lparr>sp_form := form\<lparr>address := v\<rparr>\<rparr>
      | FPhone \<Rightarrow> sp\<lparr>sp_form := form\<lparr>phone := v\<rparr>\<rparr>
      | FLogoUrl \<Rightarrow> sp\<lparr>sp_form := form\<lparr>logoUrl := v\<rparr>\<rparr>
      | FCurrencySymbol \<Rightarrow> sp\<lparr>sp_form := form\<lparr>currencySymbol := v\<rparr>\<rparr>
      | FTaxName \<Rightarrow> sp\<lparr>sp_form := form\<lparr>taxName := v\<rparr>\<rparr>
      | FTaxRate \<Rightarrow> (case parseFloat v of
                      Some r \<Rightarrow> sp\<lparr>sp_form := form\<lparr>taxRate := r\<rparr>, sp_taxNaN := False\<rparr>
                    | None \<Rightarrow> sp\<lparr>sp_taxNaN := True\<rparr>))"

text \<open>The \<open>FileReader\<close> result, when a file was chosen.\<close>

definition handleLogoUpload :: "string option \<Rightarrow> settings_page \<Rightarrow> settings_page" where
  "handleLogoUpload file sp =
     (case file of Some dataUrl \<Rightarrow> sp\<lparr>sp_form := (sp_form sp)\<lparr>logoUrl := dataUrl\<rparr>\<rparr> | None \<Rightarrow> sp)"

text \<open>\<open>handleSubmit\<close>: the new page state, the settings passed to \<open>onSave\<close>,
  and whether their tax rate is \<open>NaN\<close>; \<open>settings_success_timeout\<close> is the
  3 s timer.\<close>

definition settings_handleSubmit :: "settings_page \<Rightarrow> settings_page \<times> company_settings \<times> bool" where
  "settings_handleSubmit sp = (sp\<lparr>showSuccess := True\<rparr>, sp_form sp, sp_taxNaN sp)"

definition settings_success_timeout :: "settings_page \<Rightarrow> settings_page" where
  "settings_success_timeout sp = sp\<lparr>showSuccess := False\<rparr>"

text \<open>The browser's constraint validation of the form, run when the submit
  button is pressed; only a valid form fires \<open>onSubmit\<close>. The \<open>required\<close>
  inputs (name, currency symbol, tax name, tax rate) must not be empty, and the
  tax rate must hold a number (an input whose value is \<open>NaN\<close> shows as empty)
  within \<open>min="0"\<close> and \<open>max="100"\<close> and on the \<open>step="0.01"\<close> grid.\<close>

definition settings_form_valid :: "settings_page \<Rightarrow> bool" where
  "settings_form_valid sp =
     (let f = sp_form sp in
      company_name f \<noteq> '''' \<and> currencySymbol f \<noteq> '''' \<and> taxName f \<noteq> '''' \<and> \<not> sp_taxNaN sp \<and>
      0 \<le> taxRate f \<and> taxRate f \<le> 100 \<and> of_int (floor (taxRate f * 100)) = taxRate f * 100)"

definition settings_submit :: "settings_page \<Rightarrow> (settings_page \<times> company_settings) option" where
  "settings_submit sp =
     (if settings_form_valid sp then Some (fst (settings_handleSubmit sp), fst (snd (settings_handleSubmit sp)))
      else None)"

subsection \<open>Login page\<close>

record login_state =
  login_email :: string
  login_password :: string
  isLoading :: bool

definition login_init :: login_state where
  "login_init = \<lparr>login_email = ''admin@perfisoft.com'', login_password = ''password'', isLoading = False\<rparr>"

definition login_handleSubmit :: "login_state \<Rightarrow> login_state" where
  "login_handleSubmit ls = ls\<lparr>isLoading := True\<rparr>"

text \<open>The timer's expiry: the email handed to \<open>onLogin\<close>, and the new state.\<close>

definition login_timer :: "login_state \<Rightarrow> string \<times> login_state" where
  "login_timer ls = (login_email ls, ls\<lparr>isLoading := False\<rparr>)"

text \<open>The two inputs. The email input's value is sanitized by the browser
  (newlines removed, leading and trailing ASCII white space stripped) before
  \<open>onChange\<close> reads it.\<close>

definition is_ascii_ws :: "char \<Rightarrow> bool" where
  "is_ascii_ws c = (c \<in> set [CHR '' '', CHR 0x09, CHR 0x0A, CHR 0x0C, CHR 0x0D])"

definition login_setEmail :: "string \<Rightarrow> login_state \<Rightarrow> login_state" where
  "login_setEmail v ls =
     ls\<lparr>login_email := rev (dropWhile is_ascii_ws (rev (dropWhile is_ascii_ws
                         (filter (\<lambda>c. c \<noteq> CHR 0x0A \<and> c \<noteq> CHR 0x0D) v))))\<rparr>"

definition login_setPassword :: "string \<Rightarrow> login_state \<Rightarrow> login_state" where
  "login_setPassword v ls = ls\<lparr>login_password := v\<rparr>"

text \<open>A valid e-mail address in the sense of the HTML standard (the check of an
  \<open>input type="email"\<close>): a nonempty local part of letters, digits and the
  characters \<open>.!#$%&'*+/=?^_`{|}~-\<close>, an \<open>@\<close>, and dot-separated labels of
  1 to 63 letters, digits and hyphens that neither start nor end with a hyphen.\<close>

definition is_alnum :: "char \<Rightarrow> bool" where
  "is_alnum c = (let n = (of_char c :: nat) in 48 \<le> n \<and> n \<le> 57 \<or> 65 \<le> n \<and> n \<le> 90 \<or> 97 \<le> n \<and> n \<le> 122)"

definition email_local_char :: "char \<Rightarrow> bool" where
  "email_local_char c =
     (is_alnum c \<or> (of_char c :: nat) \<in> set [46, 33, 35, 36, 37, 38, 39, 42, 43, 47, 61, 63, 94, 95, 96, 123, 124, 125, 126, 45])"

definition email_label_ok :: "string \<Rightarrow> bool" where
  "email_label_ok l =
     (l \<noteq> [] \<and> length l \<le> 63 \<and> list_all (\<lambda>c. is_alnum c \<or> c = CHR ''-'') l \<and>
      hd l \<noteq> CHR ''-'' \<and> last l \<noteq> CHR ''-'')"

fun split_on :: "char \<Rightarrow> string \<Rightarrow> string list" where
  "split_on d [] = [[]]"
| "split_on d (c # cs) = (let r = split_on d cs in if c = d then [] # r else (c # hd r) # tl r)"

definition valid_email :: "string \<Rightarrow> bool" where
  "valid_email s =
     (let l = takeWhile (\<lambda>c. c \<noteq> CHR ''@'') s; r = dropWhile (\<lambda>c. c \<noteq> CHR ''@'') s
      in l \<noteq> [] \<and> list_all email_local_char l \<and> r \<noteq> [] \<and> list_all email_label_ok (split_on (CHR ''.'') (tl r)))"

text \<open>Pressing the button (or Enter): nothing while the button is disabled
  (\<open>isLoading\<close>) or while the \<open>required\<close> email and password inputs fail
  validation; otherwise \<open>handleSubmit\<close> runs.\<close>

definition login_submit :: "login_state \<Rightarrow> login_state option" where
  "login_submit ls =
     (if \<not> isLoading ls \<and> valid_email (login_email ls) \<and> login_password ls \<noteq> '''' then Some (login_handleSubmit ls)
      else None)"

subsection \<open>Properties\<close>

lemma takeWhile_digits_string_of_nat: "takeWhile is_digit (string_of_nat n) = string_of_nat n"
  using string_of_nat_digits [of n] by (simp add: takeWhile_eq_all_conv)

lemma dropWhile_digits_string_of_nat: "dropWhile is_digit (string_of_nat n) = []"
  using string_of_nat_digits [of n] by (simp add: dropWhile_eq_Nil_conv)

lemma string_of_nat_head:
  "take 1 (string_of_nat n) \<noteq> ''-'' \<and> take 1 (string_of_nat n) \<noteq> ''+'' \<and> dropWhile is_space (string_of_nat n) = string_of_nat n"
proof -
  obtain c cs where sc: "string_of_nat n = c # cs" using string_of_nat_not_Nil by (cases "string_of_nat n") auto
  then have "is_digit c" using string_of_nat_digits [of n] by simp
  then have "c \<noteq> CHR ''-''" "c \<noteq> CHR ''+''" "\<not> is_space c"
    by (auto simp: is_digit_def is_space_def)
  with sc show ?thesis by simp
qed

text \<open>\<open>parseFloat\<close> reads back what \<open>toString\<close> prints for a whole number.\<close>

theorem parseFloat_string_of_nat: "parseFloat (string_of_nat n) = Some (of_nat n)"
  using string_of_nat_head [of n] string_of_nat_not_Nil [of n]
  by (simp add: parseFloat_def Let_def takeWhile_digits_string_of_nat dropWhile_digits_string_of_nat)

text \<open>Typing a number into the tax-rate field stores it and clears the
  \<open>NaN\<close> mark; nothing else of the form changes.\<close>

theorem handleChange_taxRate:
  assumes "parseFloat v = Some r"
  shows "handleChange FTaxRate v sp = sp\<lparr>sp_form := (sp_form sp)\<lparr>taxRate := r\<rparr>, sp_taxNaN := False\<rparr>"
  using assms by (simp add: handleChange_def)

text \<open>\<open>handleSubmit\<close> itself does not validate: called on a form whose tax
  rate is \<open>NaN\<close>, it hands the \<open>NaN\<close> on to \<open>onSave\<close>.\<close>

lemma settings_handleSubmit_NaN:
  "snd (snd (settings_handleSubmit (handleChange FTaxRate '''' sp))) = True"
  by (simp add: settings_handleSubmit_def handleChange_def parseFloat_def)

text \<open>C35. Clearing the tax-rate field marks the form's tax rate \<open>NaN\<close>, and then
  pressing the submit button does not call \<open>onSave\<close>: the \<open>required\<close> number
  input fails the browser's validation, which is the only check the page has.\<close>

theorem settings_cleared_taxRate_blocked:
  "sp_taxNaN (handleChange FTaxRate '''' sp) \<and> settings_submit (handleChange FTaxRate '''' sp) = None"
  by (simp add: settings_submit_def settings_form_valid_def handleChange_def parseFloat_def Let_def)

text \<open>C36. The password is never read: submitting the login form with any
  well-formed email no mock user has and any nonempty password is accepted, and
  when its timer fires the user logged in is the first mock user, an
  administrator.\<close>

theorem login_unknown_email_admin:
  assumes "find (\<lambda>u. user_email u = login_email ls) MOCK_USERS = None"
    and "valid_email (login_email ls)" and "login_password ls \<noteq> ''''" and "\<not> isLoading ls"
  shows "\<exists>ls'. login_submit ls = Some ls' \<and>
           app_user (handleLogin (fst (login_timer ls')) a) = Some (MOCK_USERS ! 0) \<and> role (MOCK_USERS ! 0) = ADMIN"
proof -
  have s: "login_submit ls = Some (login_handleSubmit ls)" using assms(2-4) by (simp add: login_submit_def)
  have "app_user (handleLogin (fst (login_timer (login_handleSubmit ls))) a) = Some (MOCK_USERS ! 0)"
    using assms(1) by (simp add: login_timer_def login_handleSubmit_def handleLogin_def Let_def)
  moreover have "role (MOCK_USERS ! 0) = ADMIN" by (simp add: MOCK_USERS_def)
  ultimately show ?thesis using s by blast
qed

theorem handleChange_taxRate_witness:
  "parseFloat ''18.5'' = Some (37 / 2) \<and>
   handleChange FTaxRate ''18.5'' (settings_init DEFAULT_SETTINGS) =
     (settings_init DEFAULT_SETTINGS)\<lparr>sp_form := DEFAULT_SETTINGS\<lparr>taxRate := 37 / 2\<rparr>, sp_taxNaN := False\<rparr>"
proof -
  have h: "parseFloat ''18.5'' = Some (37 / 2)"
    by (simp add: parseFloat_def is_space_def is_digit_def nat_of_string_def)
  from h handleChange_taxRate [OF h, of "settings_init DEFAULT_SETTINGS"] show ?thesis
    by (simp add: settings_init_def)
qed

theorem login_unknown_email_admin_witness:
  "find (\<lambda>u. user_email u = ''intruder@example.com'') MOCK_USERS = None \<and>
   valid_email ''intruder@example.com'' \<and>
   (\<exists>ls'. login_submit (login_setPassword ''x'' (login_setEmail ''intruder@example.com'' login_init)) = Some ls' \<and>
      app_user (handleLogin (fst (login_timer ls')) (app_init Map.empty)) = Some (MOCK_USERS ! 0))"
proof -
  let ?ls = "login_setPassword ''x'' (login_setEmail ''intruder@example.com'' login_init)"
  have e: "login_email ?ls = ''intruder@example.com''"
    by (simp add: login_setPassword_def login_setEmail_def is_ascii_ws_def)
  have f: "find (\<lambda>u. user_email u = login_email ?ls) MOCK_USERS = None"
    unfolding e by (simp add: MOCK_USERS_def)
  have v: "valid_email (login_email ?ls)"
    unfolding e by (simp add: valid_email_def email_local_char_def email_label_ok_def is_alnum_def)
  have p: "login_password ?ls \<noteq> ''''" by (simp add: login_setPassword_def)
  have l: "\<not> isLoading ?ls" by (simp add: login_setPassword_def login_setEmail_def login_init_def)
  from login_unknown_email_admin [OF f v p l, of "app_init Map.empty"] f v e
  show ?thesis by auto
qed

end
