(* ===== verification/Ticket.thy ===== *)
theory Ticket
  imports Reports Admin
begin

text \<open>
  The text of the two printed tickets: \<open>generateTicket\<close> of
  \<open>src/pages/Sales/POS.tsx\<close> (for \<open>lastSale\<close>, from the sale-complete modal)
  and \<open>generateTicketPDF\<close> of \<open>src/pages/Sales/SalesHistory.tsx\<close> (for the
  sale shown in the detail modal). A ticket is the list of strings the
  function hands to \<open>doc.text\<close>, in call order; fonts, positions, the logo
  image and the wrapping of the address by \<open>splitTextToSize\<close> are layout and
  not modelled. \<open>toLocaleDateString\<close>/\<open>toLocaleTimeString\<close> depend on the
  browser's locale, so the date text is a parameter \<open>fmtDate\<close>. The number
  formatting is modelled: \<open>toFixed(2)\<close> rounds the exact amount to cents,
  halves away from zero (JavaScript rounds the binary double, which can differ
  on amounts that are not exact doubles), and \<open>${n}\<close> of an integer is its
  decimal rendering. String lengths count bytes, so the 20- and 22-character
  cuts of item names differ from the source on names with accented letters.
\<close>

subsection \<open>Number and string formatting\<close>

text \<open>The last \<open>k\<close> decimal digits of \<open>m\<close>, zero-padded.\<close>

primrec pad :: "nat \<Rightarrow> nat \<Rightarrow> string" where
  "pad 0 m = []"
| "pad (Suc k) m = pad k (m div 10) @ [char_of (48 + m mod 10)]"

definition cents :: "money \<Rightarrow> nat" where
  "cents x = nat (floor (\<bar>x\<bar> * 100 + 1 / 2))"

definition toFixed2 :: "money \<Rightarrow> string" where
  "toFixed2 x =
     (let c = cents x in (if x < 0 then ''-'' else '''') @ string_of_nat (c div 100) @ ''.'' @ pad 2 (c mod 100))"

definition int_to_string :: "int \<Rightarrow> string" where
  "int_to_string i = (if i < 0 then ''-'' @ string_of_nat (nat (- i)) else string_of_nat (nat i))"

text \<open>\<open>s.slice(-k)\<close>: the last \<open>k\<close> characters, or all of a shorter string.\<close>

definition slice_last :: "nat \<Rightarrow> string \<Rightarrow> string" where
  "slice_last k s = drop (length s - k) s"

definition truncate_name :: "nat \<Rightarrow> string \<Rightarrow> string" where
  "truncate_name k s = (if length s > k then take k s @ ''...'' else s)"

definition dashes :: string where
  "dashes = ''-------------------------------------------''"

definition inverted_excl :: string where "inverted_excl = [CHR 0xC2, CHR 0xA1]"
definition O_acute :: string where "O_acute = [CHR 0xC3, CHR 0x93]"

text \<open>One item row: quantity, the cut name, and \<open>(item.quantity * item.finalPrice).toFixed(2)\<close>.\<close>

definition ticket_item :: "nat \<Rightarrow> cart_item \<Rightarrow> string list" where
  "ticket_item k item =
     [int_to_string (quantity item), truncate_name k (name item), toFixed2 (of_int (quantity item) * finalPrice item)]"

subsection \<open>The POS ticket\<close>

definition pos_ticket ::
  "company_settings \<Rightarrow> client option \<Rightarrow> (timestamp \<Rightarrow> string) \<Rightarrow> sale option \<Rightarrow> string list option" where
  "pos_ticket settings client fmtDate sale0 =
     (case sale0 of
        None \<Rightarrow> None
      | Some sale \<Rightarrow>
          let clientName = (case client of Some c \<Rightarrow> client_name c | None \<Rightarrow> ''Consumidor Final'');
              currency = currencySymbol settings
          in Some ([company_name settings] @
                   (if address settings \<noteq> '''' then [address settings] else []) @
                   (if phone settings \<noteq> '''' then [''Tel: '' @ phone settings] else []) @
                   [dashes, ''Ticket #: '' @ slice_last 6 (sale_id sale), ''Fecha: '' @ fmtDate (date sale),
                    ''Cliente: '' @ take 25 clientName, ''Pago: '' @ paymentMethod sale, dashes,
                    ''CANT'', ''DESC'', ''TOTAL''] @
                   concat (map (ticket_item 22) (items sale)) @
                   [dashes, ''Subtotal:'', currency @ '' '' @ toFixed2 (subtotal sale),
                    taxName settings @ '':'', currency @ '' '' @ toFixed2 (tax sale),
                    ''TOTAL:'', currency @ '' '' @ toFixed2 (sale_total sale),
                    inverted_excl @ ''Gracias por su preferencia!'']))"

subsection \<open>The sales-history ticket\<close>

text \<open>The page's \<open>settings\<close> prop is optional; \<open>settings?.name || 'Punto de Venta'\<close>
  and the page-level \<open>currency\<close> and \<open>taxName\<close> fall back the same way.\<close>

definition or_default :: "(company_settings \<Rightarrow> string) \<Rightarrow> string \<Rightarrow> company_settings option \<Rightarrow> string" where
  "or_default field dflt settings =
     (case settings of Some st \<Rightarrow> if field st = '''' then dflt else field st | None \<Rightarrow> dflt)"

definition history_ticket ::
  "company_settings option \<Rightarrow> client list \<Rightarrow> (timestamp \<Rightarrow> string) \<Rightarrow> sale option \<Rightarrow> string list option" where
  "history_ticket settings clients fmtDate sale0 =
     (case sale0 of
        None \<Rightarrow> None
      | Some sale \<Rightarrow>
          let currency = or_default currencySymbol ''S/'' settings;
              taxLabel = or_default taxName ''Impuesto'' settings
          in Some ([or_default company_name ''Punto de Venta'' settings] @
                   (if or_default address '''' settings \<noteq> '''' then [or_default address '''' settings] else []) @
                   (if or_default phone '''' settings \<noteq> '''' then [''Tel: '' @ or_default phone '''' settings] else []) @
                   [dashes, ''Ticket #: '' @ sale_id sale, ''Fecha: '' @ fmtDate (date sale),
                    ''Cliente: '' @ getClientName clients (clientId sale), ''Pago: '' @ paymentMethod sale, dashes,
                    ''CANT.'', ''DESCRIPCI'' @ O_acute @ ''N'', ''TOTAL''] @
                   concat (map (ticket_item 20) (items sale)) @
                   [dashes, ''Subtotal:'', currency @ '' '' @ toFixed2 (subtotal sale),
                    taxLabel @ '':'', currency @ '' '' @ toFixed2 (saleTax sale),
                    ''TOTAL:'', currency @ '' '' @ toFixed2 (sale_total sale),
                    inverted_excl @ ''Gracias por su compra!'']))"


text \<open>The row of the POS ticket that carries the ticket number: after the name,
  the optional address and phone lines, and the first rule.\<close>

definition ticket_number_row :: "company_settings \<Rightarrow> nat" where
  "ticket_number_row settings =
     2 + (if address settings \<noteq> '''' then 1 else 0) + (if phone settings \<noteq> '''' then 1 else 0)"

subsection \<open>Digit lemmas\<close>

lemma length_pad [simp]: "length (pad k m) = k"
  by (induction k arbitrary: m) simp_all

lemma digit_char: "d < (10::nat) \<Longrightarrow> is_digit (char_of (48 + d))"
  by (simp add: is_digit_def of_char_of)

lemma pad_digits: "\<forall>c \<in> set (pad k m). is_digit c"
  by (induction k arbitrary: m) (simp_all add: digit_char)

lemma nat_of_string_pad: "nat_of_string (pad k m) = m mod 10 ^ k"
proof (induction k arbitrary: m)
  case 0
  then show ?case by simp
next
  case (Suc k)
  have "m mod 10 ^ Suc k = 10 * (m div 10 mod 10 ^ k) + m mod 10"
    by (simp add: mod_mult2_eq mult.commute)
  with Suc show ?case by (simp add: nat_of_string_snoc of_char_digit)
qed

text \<open>The decimal rendering of a number with at least \<open>k + 1\<close> digits ends in
  its last \<open>k\<close> digits, zero-padded.\<close>

lemma string_of_nat_split:
  "10 ^ k \<le> n \<Longrightarrow> string_of_nat n = string_of_nat (n div 10 ^ k) @ pad k (n mod 10 ^ k)"
proof (induction k arbitrary: n)
  case 0
  then show ?case by simp
next
  case (Suc k)
  have "(10::nat) \<le> 10 ^ Suc k" using one_le_power [of "10::nat" k] by simp
  from this Suc.prems have "10 \<le> n" by (rule order_trans)
  then have n10: "\<not> n < 10" by simp
  have "10 ^ Suc k div 10 \<le> n div 10" using Suc.prems by (rule div_le_mono)
  then have "10 ^ k \<le> n div 10" by simp
  note IH = Suc.IH [OF this]
  have q: "n div 10 div 10 ^ k = n div 10 ^ Suc k" by (simp add: div_mult2_eq)
  have a: "n mod 10 ^ Suc k div 10 = n div 10 mod 10 ^ k"
    by (simp add: mod_mult2_eq)
  have b: "n mod 10 ^ Suc k mod 10 = n mod 10"
    by (simp add: mod_mod_cancel)
  have "pad (Suc k) (n mod 10 ^ Suc k) = pad k (n div 10 mod 10 ^ k) @ [char_of (48 + n mod 10)]"
    by (simp only: pad.simps a b)
  with n10 IH q show ?case by (simp add: string_of_nat.simps [of n])
qed

lemma slice_last_string_of_nat: "10 ^ k \<le> n \<Longrightarrow> slice_last k (string_of_nat n) = pad k (n mod 10 ^ k)"
  by (subst string_of_nat_split [of k n]) (simp_all add: slice_last_def)

lemma cents_bound: "\<bar>of_nat (cents x) / 100 - \<bar>x\<bar>\<bar> \<le> (1 / 200 :: money)"
proof -
  have "(of_nat (cents x) :: money) = of_int \<lfloor>\<bar>x\<bar> * 100 + 1 / 2\<rfloor>"
    by (simp add: cents_def)
  then show ?thesis using round_half_bound [of 100 x] by simp
qed

lemma takeWhile_digits_dot: "\<forall>c \<in> set xs. is_digit c \<Longrightarrow> takeWhile is_digit (xs @ CHR ''.'' # ys) = xs"
  by (induction xs) (auto simp: is_digit_def)

lemma dropWhile_digits_dot: "\<forall>c \<in> set xs. is_digit c \<Longrightarrow> dropWhile is_digit (xs @ CHR ''.'' # ys) = CHR ''.'' # ys"
  by (induction xs) (auto simp: is_digit_def)

text \<open>\<open>parseFloat\<close> of a decimal with integer part \<open>q\<close> and fraction digits \<open>ds\<close>.\<close>

lemma parseFloat_decimal:
  assumes "\<forall>c \<in> set ds. is_digit c"
  shows "parseFloat (string_of_nat q @ CHR ''.'' # ds) = Some (of_nat q + of_nat (nat_of_string ds) / 10 ^ length ds)"
proof -
  obtain d r where sd: "string_of_nat q = d # r"
    using string_of_nat_not_Nil by (cases "string_of_nat q") auto
  have dig: "\<forall>c \<in> set (string_of_nat q). is_digit c" by (rule string_of_nat_digits)
  then have "is_digit d" by (simp add: sd)
  then have hd: "\<not> is_space d" "d \<noteq> CHR ''-''" "d \<noteq> CHR ''+''" by (auto simp: is_digit_def is_space_def)
  have e1: "dropWhile is_space (string_of_nat q @ CHR ''.'' # ds) = string_of_nat q @ CHR ''.'' # ds"
    using hd by (simp add: sd)
  have e2: "take 1 (string_of_nat q @ CHR ''.'' # ds) = [d]" by (simp add: sd)
  have e2a: "(if take 1 (string_of_nat q @ CHR ''.'' # ds) = ''-'' \<or> take 1 (string_of_nat q @ CHR ''.'' # ds) = ''+''
              then drop 1 (string_of_nat q @ CHR ''.'' # ds) else string_of_nat q @ CHR ''.'' # ds) =
             string_of_nat q @ CHR ''.'' # ds"
    using hd e2 by simp
  have e2b: "(take 1 (string_of_nat q @ CHR ''.'' # ds) = ''-'') = False" using hd e2 by simp
  have e3: "takeWhile is_digit (string_of_nat q @ CHR ''.'' # ds) = string_of_nat q"
    using dig by (rule takeWhile_digits_dot)
  have e4: "dropWhile is_digit (string_of_nat q @ CHR ''.'' # ds) = CHR ''.'' # ds"
    using dig by (rule dropWhile_digits_dot)
  have e5: "takeWhile is_digit ds = ds" using assms by (simp add: takeWhile_eq_all_conv)
  show ?thesis
    unfolding parseFloat_def Let_def e1 unfolding e2a unfolding e2b e3 e4
    using string_of_nat_not_Nil [of q] by (simp add: e5)
qed

subsection \<open>Properties\<close>

lemma pos_ticket_number_line:
  "the (pos_ticket settings client fmtDate (Some sale)) ! ticket_number_row settings =
     ''Ticket #: '' @ slice_last 6 (sale_id sale)"
  by (simp add: pos_ticket_def Let_def ticket_number_row_def nth_append)

text \<open>C39. The ticket number the POS prints, the last six characters of the
  sale id \<open>Date.now().toString()\<close>, repeats: the tickets of two sales made
  1000000 ms (about 17 minutes) apart carry the same number line.\<close>

theorem ticket_number_collision:
  assumes "1000000 \<le> t" and "sale_id s1 = string_of_nat t" and "sale_id s2 = string_of_nat (t + 1000000)"
  shows "the (pos_ticket settings c1 f1 (Some s1)) ! ticket_number_row settings =
           ''Ticket #: '' @ pad 6 (t mod 1000000) \<and>
         the (pos_ticket settings c2 f2 (Some s2)) ! ticket_number_row settings =
           ''Ticket #: '' @ pad 6 (t mod 1000000)"
proof -
  have "slice_last 6 (string_of_nat t) = pad 6 (t mod 1000000)"
    using assms(1) by (simp add: slice_last_string_of_nat)
  moreover have "slice_last 6 (string_of_nat (t + 1000000)) = pad 6 (t mod 1000000)"
    using assms(1) by (simp add: slice_last_string_of_nat)
  ultimately show ?thesis using assms(2,3) by (simp add: pos_ticket_number_line)
qed

text \<open>\<open>toFixed(2)\<close> is read back by \<open>parseFloat\<close> as the amount rounded to
  cents, within half a cent of the amount.\<close>

lemma toFixed2_roundtrip:
  assumes "0 \<le> x"
  shows "parseFloat (toFixed2 x) = Some (of_nat (cents x) / 100) \<and> \<bar>of_nat (cents x) / 100 - x\<bar> \<le> 1 / 200"
proof
  let ?c = "cents x"
  have ts: "toFixed2 x = string_of_nat (?c div 100) @ CHR ''.'' # pad 2 (?c mod 100)"
    using assms by (simp add: toFixed2_def Let_def)
  have "parseFloat (toFixed2 x) = Some (of_nat (?c div 100) + of_nat (?c mod 100) / 100)"
    unfolding ts using pad_digits [of 2 "?c mod 100"] by (simp add: parseFloat_decimal nat_of_string_pad)
  also have "of_nat (?c div 100) + of_nat (?c mod 100) / 100 = (of_nat ?c / 100 :: money)"
  proof -
    have "?c = ?c div 100 * 100 + ?c mod 100" by simp
    then have "(of_nat ?c :: money) = of_nat (?c div 100) * 100 + of_nat (?c mod 100)"
      by (metis of_nat_add of_nat_mult of_nat_numeral)
    then show ?thesis by (simp add: field_simps)
  qed
  finally show "parseFloat (toFixed2 x) = Some (of_nat ?c / 100)" .
  show "\<bar>of_nat ?c / 100 - x\<bar> \<le> 1 / 200" using cents_bound [of x] assms by simp
qed

text \<open>C37. The ticket of a committed checkout lists each cart line and ends with
  the sale's subtotal, tax and total as \<open>toFixed(2)\<close> renders them: the total
  printed is the amount passed to \<open>onSaleComplete\<close>.\<close>

theorem pos_ticket_checkout:
  assumes "selectedPaymentMethod s \<noteq> ''''"
    and "handleCheckout settings sid t db s = (db', s', amt)"
  shows "amt = Some (pos_total settings (cart s)) \<and>
         (\<exists>hdr. pos_ticket settings (selectedClient s') fmtDate (lastSale s') =
            Some (hdr @ concat (map (ticket_item 22) (cart s)) @
                  [dashes, ''Subtotal:'', currencySymbol settings @ '' '' @ toFixed2 (subTotal (cart s)),
                   taxName settings @ '':'', currencySymbol settings @ '' '' @ toFixed2 (taxAmount settings (cart s)),
                   ''TOTAL:'', currencySymbol settings @ '' '' @ toFixed2 (pos_total settings (cart s)),
                   inverted_excl @ ''Gracias por su preferencia!'']))"
  using assms by (auto simp: handleCheckout_def pos_ticket_def Let_def)


theorem ticket_number_collision_witness:
  "1000000 \<le> (1700000000009 :: nat) \<and>
   sale_id ((MOCK_SALES 0 ! 0)\<lparr>sale_id := string_of_nat 1700000000009\<rparr>) = string_of_nat 1700000000009 \<and>
   sale_id ((MOCK_SALES 0 ! 0)\<lparr>sale_id := string_of_nat (1700000000009 + 1000000)\<rparr>) =
     string_of_nat (1700000000009 + 1000000) \<and>
   string_of_nat 1700000000009 \<noteq> string_of_nat (1700000000009 + 1000000) \<and>
   the (pos_ticket DEFAULT_SETTINGS None (\<lambda>_. ''14/11/2023'')
     (Some ((MOCK_SALES 0 ! 0)\<lparr>sale_id := string_of_nat 1700000000009\<rparr>))) ! ticket_number_row DEFAULT_SETTINGS =
     ''Ticket #: '' @ pad 6 (1700000000009 mod 1000000) \<and>
   the (pos_ticket DEFAULT_SETTINGS None (\<lambda>_. ''14/11/2023'')
     (Some ((MOCK_SALES 0 ! 0)\<lparr>sale_id := string_of_nat (1700000000009 + 1000000)\<rparr>))) ! ticket_number_row DEFAULT_SETTINGS =
     ''Ticket #: '' @ pad 6 (1700000000009 mod 1000000)"
proof -
  have h: "1000000 \<le> (1700000000009 :: nat)" by simp
  show ?thesis
    using ticket_number_collision [OF h, of "(MOCK_SALES 0 ! 0)\<lparr>sale_id := string_of_nat 1700000000009\<rparr>"
        "(MOCK_SALES 0 ! 0)\<lparr>sale_id := string_of_nat (1700000000009 + 1000000)\<rparr>" DEFAULT_SETTINGS None
        "\<lambda>_. ''14/11/2023''" None "\<lambda>_. ''14/11/2023''"] h
    by simp
qed

theorem pos_ticket_checkout_witness:
  "selectedPaymentMethod ((pos_init MOCK_PAYMENT_METHODS)\<lparr>cart := [item_of (MOCK_PRODUCTS ! 0) 1 150]\<rparr>) \<noteq> '''' \<and>
   (case handleCheckout DEFAULT_SETTINGS ''1700000000000'' 1700000000000 \<lparr>catalog = MOCK_PRODUCTS, ledger = []\<rparr>
          ((pos_init MOCK_PAYMENT_METHODS)\<lparr>cart := [item_of (MOCK_PRODUCTS ! 0) 1 150]\<rparr>) of
      (db', s', amt) \<Rightarrow> amt = Some 177 \<and> pos_ticket DEFAULT_SETTINGS (selectedClient s') (\<lambda>_. ''14/11/2023 22:13'') (lastSale s') \<noteq> None)"
proof -
  let ?s = "(pos_init MOCK_PAYMENT_METHODS)\<lparr>cart := [item_of (MOCK_PRODUCTS ! 0) 1 150]\<rparr>"
  let ?db = "\<lparr>catalog = MOCK_PRODUCTS, ledger = []\<rparr> :: store"
  have pm: "selectedPaymentMethod ?s \<noteq> ''''" by (simp add: pos_init_def MOCK_PAYMENT_METHODS_def)
  obtain db' s' amt where h: "handleCheckout DEFAULT_SETTINGS ''1700000000000'' 1700000000000 ?db ?s = (db', s', amt)"
    by (cases "handleCheckout DEFAULT_SETTINGS ''1700000000000'' 1700000000000 ?db ?s") auto
  from pos_ticket_checkout [OF pm h, of "\<lambda>_. ''14/11/2023 22:13''"]
  have a: "amt = Some (pos_total DEFAULT_SETTINGS (cart ?s))"
    and t: "pos_ticket DEFAULT_SETTINGS (selectedClient s') (\<lambda>_. ''14/11/2023 22:13'') (lastSale s') \<noteq> None" by auto
  have "pos_total DEFAULT_SETTINGS (cart ?s) = 177"
    by (simp add: pos_total_def subTotal_def taxAmount_def DEFAULT_SETTINGS_def)
  with pm a t h show ?thesis by simp
qed

end
