(* ===== verification/Export.thy ===== *)
theory Export
  imports Ticket
begin

text \<open>
  The table exports of the report pages, as the cell strings they produce.
  \<open>src/pages/Inventory/InventoryReport.tsx\<close>: \<open>getBrandName\<close> and
  \<open>getCategoryName\<close>, the rows and totals row of the PDF table
  (\<open>handlePrintPDF\<close>; the \<open>autoTable\<close> layout is not modelled, a number cell
  is its decimal text) and the CSV text of \<open>handleExport\<close> before
  \<open>encodeURI\<close> (\<open>InventoryDocs\<close> models the encoding and what the
  browser downloads from the link). \<open>src/pages/Sales/SalesByProduct.tsx\<close>: the rows and footer of
  \<open>generatePDF\<close>. Accented letters are their UTF-8 bytes.
\<close>

definition i_acute :: string where "i_acute = [CHR 0xC3, CHR 0xAD]"

definition getBrandName :: "brand list \<Rightarrow> string \<Rightarrow> string" where
  "getBrandName brands bid =
     (case find (\<lambda>b. brand_id b = bid) brands of
        Some b \<Rightarrow> if brand_name b = '''' then ''-'' else brand_name b | None \<Rightarrow> ''-'')"

definition getCategoryName :: "category list \<Rightarrow> string \<Rightarrow> string" where
  "getCategoryName cats cid =
     (case find (\<lambda>c. category_id c = cid) cats of
        Some c \<Rightarrow> if category_name c = '''' then ''-'' else category_name c | None \<Rightarrow> ''-'')"

subsection \<open>Inventory PDF table\<close>

text \<open>The body rows are the filtered products; the totals row uses
  \<open>totalStock\<close> and \<open>totalValue\<close>, which the page computes over all of
  \<open>MOCK_PRODUCTS\<close>.\<close>

definition inventory_pdf_rows ::
  "string \<Rightarrow> brand list \<Rightarrow> category list \<Rightarrow> product list \<Rightarrow> product list \<Rightarrow> string list list" where
  "inventory_pdf_rows currency brands cats allProducts shown =
     map (\<lambda>p. [code p, name p, getBrandName brands (brandId p), getCategoryName cats (categoryId p),
               int_to_string (stock p), int_to_string (minStock p),
               currency @ '' '' @ toFixed2 (buyPrice p),
               currency @ '' '' @ toFixed2 (of_int (stock p) * buyPrice p)]) shown @
     [['''', ''TOTALES'', '''', '''', int_to_string (totalStock allProducts), '''', ''-'',
       currency @ '' '' @ toFixed2 (totalValue allProducts)]]"

subsection \<open>Inventory CSV\<close>

text \<open>\<open>`"${p.name.replace(/"/g, '""')}"`\<close>: the name quoted, inner quotes doubled.\<close>

definition csv_escape :: "string \<Rightarrow> string" where
  "csv_escape s = CHR 0x22 # concat (map (\<lambda>c. if c = CHR 0x22 then [CHR 0x22, CHR 0x22] else [c]) s) @ [CHR 0x22]"

primrec join :: "string \<Rightarrow> string list \<Rightarrow> string" where
  "join sep [] = ''''"
| "join sep (x # xs) = (if xs = [] then x else x @ sep @ join sep xs)"

definition inventory_csv_headers :: "string list" where
  "inventory_csv_headers =
     [''C'' @ o_acute @ ''digo'', ''Producto'', ''Marca'', ''Categor'' @ i_acute @ ''a'', ''Stock'',
      ''Stock M'' @ i_acute @ ''nimo'', ''Costo Unit.'', ''Precio Venta'', ''Valor Total'']"

definition inventory_csv_row :: "brand list \<Rightarrow> category list \<Rightarrow> product \<Rightarrow> string list" where
  "inventory_csv_row brands cats p =
     [code p, csv_escape (name p), getBrandName brands (brandId p), getCategoryName cats (categoryId p),
      int_to_string (stock p), int_to_string (minStock p), toFixed2 (buyPrice p), toFixed2 (priceRetail p),
      toFixed2 (of_int (stock p) * buyPrice p)]"

definition inventory_csv :: "brand list \<Rightarrow> category list \<Rightarrow> product list \<Rightarrow> string" where
  "inventory_csv brands cats shown =
     ''data:text/csv;charset=utf-8,'' @ join '','' inventory_csv_headers @ [CHR 0x0A] @
     join [CHR 0x0A] (map (\<lambda>p. join '','' (inventory_csv_row brands cats p)) shown)"

text \<open>Reading one quoted CSV field back: a doubled quote is a quote, a single
  quote ends the field, which must then be over.\<close>

fun csv_unquote :: "string \<Rightarrow> string option" where
  "csv_unquote [] = None"
| "csv_unquote (c # cs) =
     (if c = CHR 0x22
      then (case cs of [] \<Rightarrow> Some [] | d # ds \<Rightarrow> if d = CHR 0x22 then map_option (Cons d) (csv_unquote ds) else None)
      else map_option (Cons c) (csv_unquote cs))"

definition csv_field :: "string \<Rightarrow> string option" where
  "csv_field s = (case s of c # cs \<Rightarrow> if c = CHR 0x22 then csv_unquote cs else None | [] \<Rightarrow> None)"

subsection \<open>Sales-by-product PDF table\<close>

definition salesByProduct_pdf_rows :: "string \<Rightarrow> product_sales_data list \<Rightarrow> string list list" where
  "salesByProduct_pdf_rows currency rows =
     map (\<lambda>item. [psd_code item, psd_name item, int_to_string (quantitySold item),
                  currency @ '' '' @ toFixed2 (totalRevenue item)]) rows"

definition salesByProduct_pdf_foot :: "string \<Rightarrow> product_sales_data list \<Rightarrow> string list" where
  "salesByProduct_pdf_foot currency rows =
     ['''', ''TOTALES'', int_to_string (totalQuantity rows), currency @ '' '' @ toFixed2 (report_totalRevenue rows)]"

subsection \<open>Properties\<close>

lemma csv_unquote_escape_body:
  "csv_unquote (concat (map (\<lambda>c. if c = CHR 0x22 then [CHR 0x22, CHR 0x22] else [c]) s) @ [CHR 0x22]) = Some s"
  by (induction s) auto

text \<open>C33. The quoting of product names in the inventory CSV is undone by a CSV
  reader: every name, quotes and commas included, is read back as it was.\<close>

theorem csv_escape_roundtrip: "csv_field (csv_escape s) = Some s"
  by (simp add: csv_field_def csv_escape_def csv_unquote_escape_body)

end
