(* ===== verification/Layout.thy ===== *)
theory Layout
  imports System Export
begin

text \<open>
  The application shell of \<open>src/components/Layout.tsx\<close>. Its only React state,
  \<open>isSidebarOpen\<close>, is the record \<open>layout_state\<close>. \<open>Layout\<close> renders, for a
  logged-in user, the sidebar (header, the Dashboard link and three titled
  sections of \<open>SidebarItem\<close> links, the logout button) and the top bar with the
  user's profile; the rendered view is the record \<open>layout_view\<close>, and without a
  user the shell renders only its children (\<open>None\<close>). \<open>layout_handle\<close> is the
  shell's event handlers: the overlay (rendered only while the sidebar is
  collapsed) reopens it, the menu button toggles it, a link navigates and the
  logout button calls \<open>onLogout\<close>. \<open>route_page\<close> reads a path the way the
  routes of \<open>src/App.tsx\<close> do, which connects a navigation to the composed
  system's \<open>Navigate\<close> action.
\<close>

record layout_state =
  isSidebarOpen :: bool

definition layout_init :: layout_state where
  "layout_init = \<lparr>isSidebarOpen = True\<rparr>"

record sidebar_link =
  link_to :: string
  link_label :: string
  link_active :: bool

definition SidebarItem :: "string \<Rightarrow> string \<Rightarrow> bool \<Rightarrow> sidebar_link" where
  "SidebarItem to label active = \<lparr>link_to = to, link_label = label, link_active = active\<rparr>"

text \<open>The sidebar's links in the order \<open>Layout\<close> lists them: the Dashboard link,
  then each section's heading (expanded, collapsed) with its links (path, label).\<close>

definition dashboard_route :: "string \<times> string" where
  "dashboard_route = (''/'', ''Dashboard'')"

definition nav_sections :: "((string \<times> string) \<times> (string \<times> string) list) list" where
  "nav_sections =
    [((''Ventas & Caja'', ''Ventas''),
      [(''/pos'', ''Punto de Venta''), (''/cash-register'', ''Caja / Arqueo''),
       (''/sales'', ''Historial Ventas''), (''/sales/products'', ''Ventas por Prod.'')]),
     ((''Inventario'', ''Inv''),
      [(''/inventory/products'', ''Productos''),
       (''/inventory/categories'', ''Categor'' @ i_acute @ ''as''),
       (''/inventory/brands'', ''Marcas''), (''/inventory/report'', ''Reporte Stock'')]),
     ((''Admin'', ''Adm''),
      [(''/users'', ''Usuarios''), (''/clients'', ''Clientes''),
       (''/payment-methods'', ''M'' @ e_acute @ ''todos de Pago''),
       (''/settings'', ''Configuraci'' @ o_acute @ ''n'')])]"

definition nav_routes :: "(string \<times> string) list" where
  "nav_routes = dashboard_route # concat (map snd nav_sections)"

definition nav_paths :: "string list" where
  "nav_paths = map fst nav_routes"

definition isActive :: "string \<Rightarrow> string \<Rightarrow> bool" where
  "isActive pathname path = (pathname = path)"

definition nav_link :: "string \<Rightarrow> layout_state \<Rightarrow> string \<times> string \<Rightarrow> sidebar_link" where
  "nav_link pathname s r =
     SidebarItem (fst r) (if isSidebarOpen s then snd r else '''') (isActive pathname (fst r))"

datatype sidebar_header = LogoHeader "string option" string | InitialHeader string

record sidebar_section =
  section_title :: string
  section_centered :: bool
  section_links :: "sidebar_link list"

record layout_view =
  sidebar_expanded :: bool
  overlay_shown :: bool
  sidebar_head :: sidebar_header
  dashboard_link :: sidebar_link
  sidebar_sections :: "sidebar_section list"
  logout_label :: "string option"
  profile_name :: string
  profile_role :: UserRole
  profile_avatar :: string

definition avatar_src :: "user \<Rightarrow> string" where
  "avatar_src u =
     (case avatarUrl u of Some a \<Rightarrow> if a = '''' then ''https://ui-avatars.com/api/?name='' @ user_name u else a
      | None \<Rightarrow> ''https://ui-avatars.com/api/?name='' @ user_name u)"

definition Layout :: "user option \<Rightarrow> company_settings \<Rightarrow> string \<Rightarrow> layout_state \<Rightarrow> layout_view option" where
  "Layout user settings pathname s =
     (case user of None \<Rightarrow> None
      | Some u \<Rightarrow> Some
         \<lparr>sidebar_expanded = isSidebarOpen s,
          overlay_shown = (\<not> isSidebarOpen s),
          sidebar_head = (if isSidebarOpen s
                          then LogoHeader (if logoUrl settings = '''' then None else Some (logoUrl settings))
                                          (company_name settings)
                          else InitialHeader (take 1 (company_name settings))),
          dashboard_link = nav_link pathname s dashboard_route,
          sidebar_sections =
            map (\<lambda>(hd, links). \<lparr>section_title = (if isSidebarOpen s then fst hd else snd hd),
                                section_centered = (\<not> isSidebarOpen s),
                                section_links = map (nav_link pathname s) links\<rparr>) nav_sections,
          logout_label = (if isSidebarOpen s then Some (''Cerrar Sesi'' @ o_acute @ ''n'') else None),
          profile_name = user_name u,
          profile_role = role u,
          profile_avatar = avatar_src u\<rparr>)"

definition view_links :: "layout_view \<Rightarrow> sidebar_link list" where
  "view_links v = dashboard_link v # concat (map section_links (sidebar_sections v))"

datatype layout_event = OverlayClick | MenuClick | LogoutClick | LinkClick string

datatype layout_effect = NoEffect | NavigateTo string | CallLogout

text \<open>An event the rendered view does not offer (the overlay while the sidebar is
  open, a link that is not in the sidebar) is \<open>None\<close>.\<close>

definition layout_handle :: "layout_event \<Rightarrow> layout_state \<Rightarrow> (layout_state \<times> layout_effect) option" where
  "layout_handle e s =
     (case e of
        OverlayClick \<Rightarrow> if isSidebarOpen s then None else Some (s\<lparr>isSidebarOpen := True\<rparr>, NoEffect)
      | MenuClick \<Rightarrow> Some (s\<lparr>isSidebarOpen := \<not> isSidebarOpen s\<rparr>, NoEffect)
      | LogoutClick \<Rightarrow> Some (s, CallLogout)
      | LinkClick p \<Rightarrow> if p \<in> set nav_paths then Some (s, NavigateTo p) else None)"

text \<open>The routes of \<open>App.tsx\<close> as the composed system distinguishes them: the POS,
  the cash register, and every other page.\<close>

definition route_page :: "string \<Rightarrow> page" where
  "route_page p = (if p = ''/pos'' then PosPage else if p = ''/cash-register'' then CashRegisterPage else OtherPage)"

definition layout_action :: "layout_effect \<Rightarrow> action option" where
  "layout_action eff =
     (case eff of NoEffect \<Rightarrow> None | NavigateTo p \<Rightarrow> Some (Navigate (route_page p)) | CallLogout \<Rightarrow> Some Logout)"

subsection \<open>Properties\<close>

lemma distinct_nav_paths: "distinct nav_paths"
  by (simp add: nav_paths_def nav_routes_def nav_sections_def dashboard_route_def i_acute_def e_acute_def o_acute_def)

lemma filter_eq_distinct: "distinct xs \<Longrightarrow> filter (\<lambda>q. q = p) xs = (if p \<in> set xs then [p] else [])"
  by (induction xs) auto

lemma view_links_Layout:
  assumes "Layout (Some u) st p s = Some v"
  shows "view_links v = map (nav_link p s) nav_routes"
proof -
  have "map section_links (sidebar_sections v) = map (map (nav_link p s) \<circ> snd) nav_sections"
    using assms by (auto simp: Layout_def split_def)
  then show ?thesis
    using assms by (auto simp: view_links_def nav_routes_def Layout_def map_concat)
qed

lemma filter_active_nav_link:
  "map link_to (filter link_active (map (nav_link p s) rs)) = filter (\<lambda>q. q = p) (map fst rs)"
  by (induction rs) (auto simp: nav_link_def SidebarItem_def isActive_def)

lemma nav_link_toggle:
  "link_to (nav_link p s' r) = link_to (nav_link p s r)"
  "link_active (nav_link p s' r) = link_active (nav_link p s r)"
  "\<not> isSidebarOpen s \<Longrightarrow> link_label (nav_link p s r) = ''''"
  by (simp_all add: nav_link_def SidebarItem_def)

lemma Layout_Some_ex: "\<exists>v. Layout (Some u) st p s = Some v"
  by (simp add: Layout_def)

lemma pos_in_nav_paths: "''/pos'' \<in> set nav_paths"
  by (simp add: nav_paths_def nav_routes_def nav_sections_def)

text \<open>C29. For a logged-in user at most one sidebar link is highlighted as active: the
  one whose path is the current location, if the location is a sidebar path.\<close>

theorem sidebar_single_active:
  assumes "Layout (Some u) st p s = Some v"
  shows "map link_to (filter link_active (view_links v)) = (if p \<in> set nav_paths then [p] else [])"
  using assms distinct_nav_paths
  by (simp add: view_links_Layout filter_active_nav_link filter_eq_distinct flip: nav_paths_def)

text \<open>The menu button only collapses or expands the sidebar: the links keep their
  targets and active flags, and a collapsed sidebar shows no link labels and no
  logout label.\<close>

theorem menu_toggle_labels_only:
  assumes "Layout (Some u) st p s = Some v"
    and "layout_handle MenuClick s = Some (s', eff)"
    and "Layout (Some u) st p s' = Some v'"
  shows "map link_to (view_links v') = map link_to (view_links v) \<and>
         map link_active (view_links v') = map link_active (view_links v) \<and>
         sidebar_expanded v' = (\<not> sidebar_expanded v) \<and> eff = NoEffect \<and>
         (\<not> sidebar_expanded v' \<longrightarrow> (\<forall>l\<in>set (view_links v'). link_label l = '''') \<and> logout_label v' = None)"
proof -
  have s': "s' = s\<lparr>isSidebarOpen := \<not> isSidebarOpen s\<rparr>" "eff = NoEffect"
    using assms(2) by (simp_all add: layout_handle_def)
  have "map link_to (view_links v') = map link_to (view_links v)"
       "map link_active (view_links v') = map link_active (view_links v)"
    using assms(1,3) by (simp_all add: view_links_Layout comp_def nav_link_toggle(1,2) [where s' = s'])
  moreover have "sidebar_expanded v' = (\<not> sidebar_expanded v)"
    using assms(1,3) s' by (auto simp: Layout_def)
  moreover have "\<not> sidebar_expanded v' \<longrightarrow> (\<forall>l\<in>set (view_links v'). link_label l = '''') \<and> logout_label v' = None"
  proof
    assume "\<not> sidebar_expanded v'"
    then have "\<not> isSidebarOpen s'" using assms(3) by (auto simp: Layout_def)
    moreover have "view_links v' = map (nav_link p s') nav_routes" using assms(3) by (rule view_links_Layout)
    moreover have "logout_label v' = None" using assms(3) \<open>\<not> isSidebarOpen s'\<close> by (auto simp: Layout_def)
    ultimately show "(\<forall>l\<in>set (view_links v'). link_label l = '''') \<and> logout_label v' = None"
      by (auto simp: nav_link_toggle(3))
  qed
  ultimately show ?thesis using s' by blast
qed



theorem sidebar_single_active_witness:
  "\<exists>v. Layout (Some (MOCK_USERS ! 0)) DEFAULT_SETTINGS ''/pos'' layout_init = Some v \<and>
       map link_to (filter link_active (view_links v)) = [''/pos'']"
proof -
  obtain v where v: "Layout (Some (MOCK_USERS ! 0)) DEFAULT_SETTINGS ''/pos'' layout_init = Some v"
    using Layout_Some_ex by blast
  show ?thesis using sidebar_single_active [OF v] pos_in_nav_paths v by auto
qed

theorem menu_toggle_labels_only_witness:
  "\<exists>v v'. Layout (Some (MOCK_USERS ! 0)) DEFAULT_SETTINGS ''/pos'' layout_init = Some v \<and>
     layout_handle MenuClick layout_init = Some (\<lparr>isSidebarOpen = False\<rparr>, NoEffect) \<and>
     Layout (Some (MOCK_USERS ! 0)) DEFAULT_SETTINGS ''/pos'' \<lparr>isSidebarOpen = False\<rparr> = Some v' \<and>
     \<not> sidebar_expanded v' \<and> (\<forall>l\<in>set (view_links v'). link_label l = '''')"
proof -
  obtain v where v: "Layout (Some (MOCK_USERS ! 0)) DEFAULT_SETTINGS ''/pos'' layout_init = Some v"
    using Layout_Some_ex by blast
  obtain v' where v': "Layout (Some (MOCK_USERS ! 0)) DEFAULT_SETTINGS ''/pos'' \<lparr>isSidebarOpen = False\<rparr> = Some v'"
    using Layout_Some_ex by blast
  have h: "layout_handle MenuClick layout_init = Some (\<lparr>isSidebarOpen = False\<rparr>, NoEffect)"
    by (simp add: layout_handle_def layout_init_def)
  have e: "sidebar_expanded v = True" using v by (auto simp: Layout_def layout_init_def)
  show ?thesis using menu_toggle_labels_only [OF v h v'] v v' h e by auto
qed

end
