(* ===== verification/Timers.thy ===== *)
theory Timers
  imports Cart "HOL-Library.While_Combinator"
begin

text \<open>
  The toast effect of \<open>src/pages/Sales/POS.tsx\<close> (the \<open>useEffect\<close> on
  \<open>[errorToast, successToast]\<close>): while an error toast is shown a 3000 ms timer
  clears it; otherwise, while a success toast is shown, a 2000 ms timer clears
  that. \<open>toast_timer\<close> is the timer the effect arms, as its delay and the state
  its callback produces; the effect runs again after each callback, so with no
  user input in between the toasts settle by iterating it, the loop
  \<open>toasts_settle\<close>, a \<open>while_option\<close> over the clock and the POS state.
  Its termination is proved with the number of toasts shown as measure.
\<close>

definition toast_timer :: "pos_state \<Rightarrow> (nat \<times> pos_state) option" where
  "toast_timer s =
     (if errorToast s \<noteq> None then Some (3000, s\<lparr>errorToast := None\<rparr>)
      else if successToast s \<noteq> None then Some (2000, s\<lparr>successToast := None\<rparr>)
      else None)"

definition toasts_pending :: "pos_state \<Rightarrow> bool" where
  "toasts_pending s = (errorToast s \<noteq> None \<or> successToast s \<noteq> None)"

definition toast_fire :: "timestamp \<times> pos_state \<Rightarrow> timestamp \<times> pos_state" where
  "toast_fire ts = (case toast_timer (snd ts) of None \<Rightarrow> ts | Some (d, s') \<Rightarrow> (fst ts + d, s'))"

definition toasts_settle :: "timestamp \<Rightarrow> pos_state \<Rightarrow> (timestamp \<times> pos_state) option" where
  "toasts_settle t s = while_option (\<lambda>ts. toasts_pending (snd ts)) toast_fire (t, s)"

text \<open>The delay still to run before no toast is shown, and the measure.\<close>

definition toast_delay :: "pos_state \<Rightarrow> nat" where
  "toast_delay s = (if errorToast s \<noteq> None then 3000 else 0) + (if successToast s \<noteq> None then 2000 else 0)"

definition toasts_shown :: "pos_state \<Rightarrow> nat" where
  "toasts_shown s = (if errorToast s \<noteq> None then 1 else 0) + (if successToast s \<noteq> None then 1 else 0)"

definition toasts_cleared :: "pos_state \<Rightarrow> pos_state" where
  "toasts_cleared s = s\<lparr>errorToast := None, successToast := None\<rparr>"

lemma toast_fire_pending:
  assumes "toasts_pending (snd ts)"
  shows "toasts_cleared (snd (toast_fire ts)) = toasts_cleared (snd ts)"
    "fst (toast_fire ts) + toast_delay (snd (toast_fire ts)) = fst ts + toast_delay (snd ts)"
    "toasts_shown (snd (toast_fire ts)) < toasts_shown (snd ts)"
  using assms
  by (auto simp: toast_fire_def toast_timer_def toasts_pending_def toasts_cleared_def toast_delay_def
      toasts_shown_def split: prod.splits)

lemma not_pending_cleared: "\<not> toasts_pending s \<Longrightarrow> toasts_cleared s = s \<and> toast_delay s = 0"
  by (simp add: toasts_pending_def toasts_cleared_def toast_delay_def)

text \<open>C25. With no input in between, the POS toast timers always come to rest: the loop
  returns, after 3000 ms for an error toast plus 2000 ms for a success toast, a state
  that shows neither toast and is otherwise unchanged.\<close>

theorem toasts_settle_terminates:
  "toasts_settle t s = Some (t + toast_delay s, toasts_cleared s)"
proof -
  let ?P = "\<lambda>ts. toasts_cleared (snd ts) = toasts_cleared s \<and> fst ts + toast_delay (snd ts) = t + toast_delay s"
  have "\<exists>y. while_option (\<lambda>ts. toasts_pending (snd ts)) toast_fire (t, s) = Some y"
    by (rule measure_while_option_Some [where P = ?P and f = "\<lambda>ts. toasts_shown (snd ts)"])
       (auto simp: toast_fire_pending)
  then obtain y where y: "while_option (\<lambda>ts. toasts_pending (snd ts)) toast_fire (t, s) = Some y"
    by blast
  have P: "?P y"
    by (rule while_option_rule [OF _ y]) (auto simp: toast_fire_pending)
  have nb: "\<not> toasts_pending (snd y)"
    using while_option_stop [OF y] by simp
  have "y = (t + toast_delay s, toasts_cleared s)"
    using P not_pending_cleared [OF nb] by (cases y) simp
  with y show ?thesis by (simp add: toasts_settle_def)
qed

end
