(* ===== verification/Pages.thy ===== *)
theory Pages
  imports Export
begin

text \<open>
  What the catalog pages render from the product table. The product cards of
  \<open>src/pages/Inventory/Products.tsx\<close> (the low-stock flag, the badge, the
  stock bar, the prices), the stat cards of \<open>src/pages/Dashboard.tsx\<close> (and its
  two fixed demo chart series), and the stat cards and table of
  \<open>src/pages/Inventory/InventoryReport.tsx\<close>. The stock bar's width is a
  JavaScript division that can give \<open>Infinity\<close> or \<open>NaN\<close>, so it is computed in
  \<open>js_number\<close>, the finite values with the three special ones, with the
  source's \<open>/\<close>, \<open>*\<close> and \<open>Math.min\<close> written out on it.
\<close>

subsection \<open>JavaScript numbers for the stock bar\<close>

datatype js_number = JNum rat | JPosInf | JNegInf | JNaN

fun js_div :: "js_number \<Rightarrow> js_number \<Rightarrow> js_number" where
  "js_div (JNum x) (JNum y) =
     (if y \<noteq> 0 then JNum (x / y) else if 0 < x then JPosInf else if x < 0 then JNegInf else JNaN)"
| "js_div _ _ = JNaN"

fun js_mul :: "js_number \<Rightarrow> rat \<Rightarrow> js_number" where
  "js_mul (JNum x) c = JNum (x * c)"
| "js_mul JPosInf c = (if 0 < c then JPosInf else if c < 0 then JNegInf else JNaN)"
| "js_mul JNegInf c = (if 0 < c then JNegInf else if c < 0 then JPosInf else JNaN)"
| "js_mul JNaN c = JNaN"

fun js_min :: "js_number \<Rightarrow> rat \<Rightarrow> js_number" where
  "js_min (JNum x) c = JNum (min x c)"
| "js_min JPosInf c = JNum c"
| "js_min JNegInf c = JNegInf"
| "js_min JNaN c = JNaN"

subsection \<open>Products page cards\<close>

definition products_isLowStock :: "product \<Rightarrow> bool" where
  "products_isLowStock p = (stock p \<le> minStock p)"

text \<open>\<open>Math.min((product.stock / (product.minStock * 3)) * 100, 100)\<close>.\<close>

definition stockBarWidth :: "product \<Rightarrow> js_number" where
  "stockBarWidth p = js_min (js_mul (js_div (JNum (of_int (stock p))) (JNum (of_int (minStock p * 3)))) 100) 100"

record product_card =
  card_low :: bool
  card_badge :: string
  card_name :: string
  card_code :: string
  card_brand_category :: string
  card_min :: string
  card_bar :: js_number
  card_restock :: bool
  card_retail :: string
  card_cost :: string

definition bullet :: string where "bullet = [CHR 0xE2, CHR 0x80, CHR 0xA2]"

definition product_card :: "company_settings \<Rightarrow> product \<Rightarrow> product_card" where
  "product_card settings p =
     \<lparr>card_low = products_isLowStock p,
      card_badge = ''Stock: '' @ int_to_string (stock p),
      card_name = name p, card_code = code p,
      card_brand_category = getBrandName MOCK_BRANDS (brandId p) @ '' '' @ bullet @ '' '' @
                            getCategoryName MOCK_CATEGORIES (categoryId p),
      card_min = ''Min: '' @ int_to_string (minStock p),
      card_bar = stockBarWidth p,
      card_restock = products_isLowStock p,
      card_retail = currencySymbol settings @ '' '' @ toFixed2 (priceRetail p),
      card_cost = currencySymbol settings @ '' '' @ toFixed2 (buyPrice p)\<rparr>"

definition products_cards :: "company_settings \<Rightarrow> product list \<Rightarrow> product_card list" where
  "products_cards settings products = map (product_card settings) products"

subsection \<open>Dashboard\<close>

text \<open>The chart series are constants of the module (the page labels them demo
  data); the four stat cards read \<open>MOCK_SALES\<close>, \<open>MOCK_CLIENTS\<close> and
  \<open>MOCK_PRODUCTS\<close>.\<close>

definition dashboard_data :: "(string \<times> nat) list" where
  "dashboard_data = [(''Ene'', 4000), (''Feb'', 3000), (''Mar'', 2000), (''Abr'', 2780),
                     (''May'', 1890), (''Jun'', 2390), (''Jul'', 3490)]"

definition categoryData :: "(string \<times> nat \<times> string) list" where
  "categoryData = [(''Zapatillas'', 400, ''#ff6b6b''), (''Electr'' @ o_acute @ ''nica'', 300, ''#4ecdc4''),
                   (''Accesorios'', 300, ''#ffe66d'')]"

datatype stat_value = MoneyValue money | CountValue nat

record stat_card =
  stat_title :: string
  stat_value :: stat_value
  stat_trend :: string
  stat_color :: string

definition StatCard :: "string \<Rightarrow> stat_value \<Rightarrow> string \<Rightarrow> string \<Rightarrow> stat_card" where
  "StatCard title value trend color = \<lparr>stat_title = title, stat_value = value, stat_trend = trend, stat_color = color\<rparr>"

definition dashboard_lowStockProducts :: "product list \<Rightarrow> nat" where
  "dashboard_lowStockProducts products = length (filter (\<lambda>p. stock p \<le> minStock p) products)"

definition Dashboard :: "sale list \<Rightarrow> client list \<Rightarrow> product list \<Rightarrow> stat_card list" where
  "Dashboard sales clients products =
     (let totalSales = dashboard_totalSales sales;
          totalOrders = length sales;
          totalClients = length clients;
          totalProducts = length products;
          lowStockProducts = dashboard_lowStockProducts products
      in [StatCard ''Ventas Totales'' (MoneyValue totalSales) ''Calculado'' ''bg-blue-500'',
          StatCard ''Ordenes'' (CountValue totalOrders) ''Acumulado'' ''bg-indigo-500'',
          StatCard ''Clientes'' (CountValue totalClients) ''Registrados'' ''bg-purple-500'',
          StatCard ''Productos'' (CountValue totalProducts) (int_to_string (int lowStockProducts) @ '' stock bajo'')
                   (if lowStockProducts > 0 then ''bg-red-500'' else ''bg-pink-500'')])"

subsection \<open>Inventory report page\<close>

record inventory_stats =
  inv_totalProducts :: nat
  inv_totalStock :: int
  inv_totalValue :: money
  inv_lowStock :: nat
  inv_lowStock_alert :: bool

definition inventory_stats :: "product list \<Rightarrow> inventory_stats" where
  "inventory_stats products =
     \<lparr>inv_totalProducts = length products, inv_totalStock = totalStock products,
      inv_totalValue = totalValue products, inv_lowStock = lowStockCount products,
      inv_lowStock_alert = (lowStockCount products > 0)\<rparr>"

record inventory_row =
  row_code :: string
  row_name :: string
  row_low :: bool
  row_brand :: string
  row_category :: string
  row_stock :: int
  row_min :: int
  row_cost :: string
  row_value :: string

definition inventory_row :: "string \<Rightarrow> product \<Rightarrow> inventory_row" where
  "inventory_row currency p =
     \<lparr>row_code = code p, row_name = name p, row_low = (stock p \<le> minStock p),
      row_brand = getBrandName MOCK_BRANDS (brandId p), row_category = getCategoryName MOCK_CATEGORIES (categoryId p),
      row_stock = stock p, row_min = minStock p,
      row_cost = currency @ '' '' @ toFixed2 (buyPrice p),
      row_value = currency @ '' '' @ toFixed2 (of_int (stock p) * buyPrice p)\<rparr>"

text \<open>The rendered table: one row per filtered product, and the footer with the
  totals computed over the whole table \<open>MOCK_PRODUCTS\<close>.\<close>

definition inventory_table :: "string \<Rightarrow> string \<Rightarrow> product list \<Rightarrow> inventory_row list \<times> int \<times> string" where
  "inventory_table currency term products =
     (map (inventory_row currency) (inv_filteredProducts term products),
      totalStock products, currency @ '' '' @ toFixed2 (totalValue products))"

definition inventory_currency :: "company_settings option \<Rightarrow> string" where
  "inventory_currency settings =
     (case settings of Some st \<Rightarrow> if currencySymbol st = '''' then ''S/'' else currencySymbol st | None \<Rightarrow> ''S/'')"

subsection \<open>Properties\<close>

lemma stockBarWidth_bounds:
  assumes "0 \<le> stock p" and "0 < minStock p"
  shows "\<exists>w. stockBarWidth p = JNum w \<and> 0 \<le> w \<and> w \<le> 100"
proof -
  have d: "0 < (of_int (minStock p * 3) :: rat)" using assms(2) by simp
  have "0 \<le> (of_int (stock p) :: rat) / of_int (minStock p * 3) * 100"
    using assms(1) d by simp
  then show ?thesis using d by (simp add: stockBarWidth_def)
qed

text \<open>A minimum stock of 0, which the product form accepts, makes the bar's
  division by zero visible: \<open>NaN\<close> for an empty product, \<open>-Infinity\<close> for a
  negative stock, and a full bar otherwise.\<close>

lemma stockBarWidth_zero_min:
  "minStock p = 0 \<Longrightarrow>
   stockBarWidth p = (if stock p = 0 then JNaN else if 0 < stock p then JNum 100 else JNegInf)"
  by (simp add: stockBarWidth_def)

text \<open>C30. The three catalog pages agree on low stock: the dashboard's count of
  low-stock products, the inventory report's Stock Bajo card and the number of
  red product cards on the products page are the same number, and the dashboard
  card turns red exactly when the report's card raises its alert.\<close>

theorem low_stock_pages_agree:
  "dashboard_lowStockProducts ps = inv_lowStock (inventory_stats ps) \<and>
   dashboard_lowStockProducts ps = length (filter card_low (products_cards st ps)) \<and>
   (stat_color (Dashboard sales cl ps ! 3) = ''bg-red-500'') = inv_lowStock_alert (inventory_stats ps)"
  by (simp add: dashboard_lowStockProducts_def inventory_stats_def lowStockCount_def products_cards_def
      product_card_def products_isLowStock_def filter_map comp_def Dashboard_def Let_def StatCard_def)

end
