(* ===== verification/ReportViews.thy ===== *)
theory ReportViews
  imports Export
begin

text \<open>
  What the two ledger report pages render. The sales-by-product page
  (\<open>src/pages/Sales/SalesByProduct.tsx\<close>): its two stat cards and the table of
  the filtered rows with the percent-of-total column (\<open>toFixed(1)\<close>, or the
  number 0 when the revenue is not positive), the empty-table message and the
  footer. The sales-history page (\<open>src/pages/Sales/SalesHistory.tsx\<close>) renders
  from its state \<open>history_state\<close> (in \<open>Reports\<close>): the table with one row
  per sale of its local copy of the ledger, the empty-table message, and the
  detail modal of the selected sale, with its header, item lines and totals.
  Dates are kept as the timestamp the row formats (\<open>toLocaleDateString\<close> and
  \<open>toLocaleTimeString\<close> depend on the browser's locale); amounts are the
  strings \<open>toFixed(2)\<close> prints.
\<close>

subsection \<open>Sales by product\<close>

text \<open>\<open>x.toFixed(1)\<close>: the magnitude in tenths, rounded half away from zero.\<close>

definition tenths :: "money \<Rightarrow> nat" where
  "tenths x = nat \<lfloor>\<bar>x\<bar> * 10 + 1 / 2\<rfloor>"

definition toFixed1 :: "money \<Rightarrow> string" where
  "toFixed1 x =
     (let d = tenths x in (if x < 0 then ''-'' else '''') @ string_of_nat (d div 10) @ ''.'' @ pad 1 (d mod 10))"

record sbp_row =
  sbp_code :: string
  sbp_name :: string
  sbp_quantity :: int
  sbp_revenue :: string
  sbp_percent :: string

definition sbp_row :: "string \<Rightarrow> money \<Rightarrow> product_sales_data \<Rightarrow> sbp_row" where
  "sbp_row currency totalRev item =
     \<lparr>sbp_code = psd_code item, sbp_name = psd_name item, sbp_quantity = quantitySold item,
      sbp_revenue = currency @ '' '' @ toFixed2 (totalRevenue item),
      sbp_percent = (if totalRev > 0 then toFixed1 (percentOfTotal totalRev item) else ''0'') @ ''%''\<rparr>"

record sbp_view =
  sbp_units_card :: int
  sbp_revenue_card :: string
  sbp_rows :: "sbp_row list"
  sbp_empty :: bool
  sbp_foot_quantity :: int
  sbp_foot_revenue :: string

definition SalesByProductPage :: "company_settings \<Rightarrow> sale list \<Rightarrow> string \<Rightarrow> sbp_view" where
  "SalesByProductPage settings sales term =
     (let rows = filteredData term (aggregatedData sales);
          tq = totalQuantity rows; tr = report_totalRevenue rows;
          cur = currencySymbol settings
      in \<lparr>sbp_units_card = tq, sbp_revenue_card = cur @ '' '' @ toFixed2 tr,
          sbp_rows = map (sbp_row cur tr) rows, sbp_empty = (rows = []),
          sbp_foot_quantity = tq, sbp_foot_revenue = cur @ '' '' @ toFixed2 tr\<rparr>)"

subsection \<open>Sales history\<close>

definition getClientDetails :: "client list \<Rightarrow> string option \<Rightarrow> client option" where
  "getClientDetails clients cid = find (\<lambda>c. Some (client_id c) = cid) clients"

definition payment_label :: "sale \<Rightarrow> string" where
  "payment_label sale = (if paymentMethod sale = '''' then ''Efectivo'' else paymentMethod sale)"

record history_row =
  hrow_id :: string
  hrow_date :: timestamp
  hrow_client :: string
  hrow_method :: string
  hrow_total :: string
  hrow_completed :: bool
  hrow_status :: string

definition history_row :: "string \<Rightarrow> client list \<Rightarrow> sale \<Rightarrow> history_row" where
  "history_row currency clients sale =
     \<lparr>hrow_id = ''#'' @ sale_id sale, hrow_date = date sale,
      hrow_client = getClientName clients (clientId sale),
      hrow_method = payment_label sale,
      hrow_total = currency @ '' '' @ toFixed2 (sale_total sale),
      hrow_completed = (sale_status sale = Completed),
      hrow_status = (if sale_status sale = Completed then ''Completada'' else ''Cancelada'')\<rparr>"

text \<open>The table's rows, and whether the message ``No hay registros de ventas.''
  is shown.\<close>

definition history_table :: "string \<Rightarrow> client list \<Rightarrow> history_state \<Rightarrow> history_row list \<times> bool" where
  "history_table currency clients h =
     (map (history_row currency clients) (hist_sales h), hist_sales h = [])"

record detail_line =
  dl_name :: string
  dl_code :: string
  dl_quantity :: int
  dl_price :: string
  dl_total :: string

definition detail_line :: "string \<Rightarrow> cart_item \<Rightarrow> detail_line" where
  "detail_line currency item =
     \<lparr>dl_name = name item, dl_code = code item, dl_quantity = quantity item,
      dl_price = currency @ '' '' @ toFixed2 (finalPrice item),
      dl_total = currency @ '' '' @ toFixed2 (finalPrice item * of_int (quantity item))\<rparr>"

record sale_detail =
  detail_title :: string
  detail_date :: timestamp
  detail_client :: string
  detail_taxId :: string
  detail_method :: string
  detail_lines :: "detail_line list"
  detail_subtotal :: string
  detail_taxName :: string
  detail_tax :: string
  detail_total :: string

definition sale_detail :: "string \<Rightarrow> string \<Rightarrow> client list \<Rightarrow> sale \<Rightarrow> sale_detail" where
  "sale_detail currency taxLabel clients sale =
     \<lparr>detail_title = ''Detalle de Venta #'' @ sale_id sale, detail_date = date sale,
      detail_client = getClientName clients (clientId sale),
      detail_taxId = (case getClientDetails clients (clientId sale) of
                        Some c \<Rightarrow> if taxId c = '''' then ''N/A'' else taxId c | None \<Rightarrow> ''N/A''),
      detail_method = payment_label sale,
      detail_lines = map (detail_line currency) (items sale),
      detail_subtotal = currency @ '' '' @ toFixed2 (subtotal sale),
      detail_taxName = taxLabel,
      detail_tax = currency @ '' '' @ toFixed2 (saleTax sale),
      detail_total = currency @ '' '' @ toFixed2 (sale_total sale)\<rparr>"

text \<open>\<open>{selectedSale && <Modal isOpen={isModalOpen} ...>}\<close>: the modal is shown
  when a sale is selected and the modal flag is set.\<close>

definition history_modal ::
  "company_settings option \<Rightarrow> client list \<Rightarrow> history_state \<Rightarrow> sale_detail option" where
  "history_modal settings clients h =
     (case selectedSale h of
        Some sale \<Rightarrow> if hist_modal h
                     then Some (sale_detail (or_default currencySymbol ''S/'' settings)
                                 (or_default taxName ''Impuesto'' settings) clients sale)
                     else None
      | None \<Rightarrow> None)"

definition history_closeModal :: "history_state \<Rightarrow> history_state" where
  "history_closeModal h = h\<lparr>hist_modal := False\<rparr>"

subsection \<open>Properties\<close>

lemma tenths_bound: "\<bar>of_nat (tenths x) / 10 - \<bar>x\<bar>\<bar> \<le> (1 / 20 :: money)"
proof -
  have "(of_nat (tenths x) :: money) = of_int \<lfloor>\<bar>x\<bar> * 10 + 1 / 2\<rfloor>"
    by (simp add: tenths_def)
  then show ?thesis using round_half_bound [of 10 x] by simp
qed

lemma toFixed1_nonneg: "0 \<le> x \<Longrightarrow> toFixed1 x = string_of_nat (tenths x div 10) @ ''.'' @ pad 1 (tenths x mod 10)"
  by (simp add: toFixed1_def Let_def)

lemma sbp_rows_page:
  "sbp_rows (SalesByProductPage settings sales term) =
     map (sbp_row (currencySymbol settings) (report_totalRevenue (filteredData term (aggregatedData sales))))
       (filteredData term (aggregatedData sales))"
  by (simp add: SalesByProductPage_def Let_def)

text \<open>C28. The \<open>% del Total\<close> column of the sales-by-product page, when the
  filtered revenue is positive and no row is negative: every cell is a decimal
  with one digit after the point, and the numbers shown add up to 100 within a
  twentieth per row (each cell is within 0.05 of its exact share, and the exact
  shares add up to 100). They need not add up to exactly 100.\<close>

theorem sbp_percent_column:
  assumes pos: "0 < report_totalRevenue (filteredData term (aggregatedData sales))"
    and nn: "list_all (\<lambda>r. 0 \<le> totalRevenue r) (filteredData term (aggregatedData sales))"
  shows "\<exists>ds. map sbp_percent (sbp_rows (SalesByProductPage settings sales term)) =
               map (\<lambda>d. string_of_nat (d div 10) @ ''.'' @ pad 1 (d mod 10) @ ''%'') ds \<and>
             \<bar>of_nat (sum_list ds) / 10 - 100\<bar> \<le> of_nat (length ds) / (20 :: money)"
proof -
  define rows where "rows = filteredData term (aggregatedData sales)"
  define T where "T = report_totalRevenue rows"
  define ds where "ds = map (\<lambda>r. tenths (percentOfTotal T r)) rows"
  have Tpos: "0 < T" using pos by (simp add: rows_def T_def)
  have pnn: "0 \<le> percentOfTotal T r" if "r \<in> set rows" for r
    using nn that Tpos by (simp add: rows_def list_all_iff percentOfTotal_def)
  have "map sbp_percent (sbp_rows (SalesByProductPage settings sales term)) =
        map (\<lambda>r. toFixed1 (percentOfTotal T r) @ ''%'') rows"
    using Tpos by (simp add: sbp_rows_page sbp_row_def rows_def T_def)
  also have "\<dots> = map (\<lambda>d. string_of_nat (d div 10) @ ''.'' @ pad 1 (d mod 10) @ ''%'') ds"
    unfolding ds_def map_map by (intro map_cong refl) (simp add: pnn toFixed1_nonneg)
  finally have cells: "map sbp_percent (sbp_rows (SalesByProductPage settings sales term)) =
        map (\<lambda>d. string_of_nat (d div 10) @ ''.'' @ pad 1 (d mod 10) @ ''%'') ds" .
  have err: "\<forall>r \<in> set rows. \<bar>of_nat (tenths (percentOfTotal T r)) / 10 - percentOfTotal T r\<bar> \<le> (1 / 20 :: money)"
  proof
    fix r assume "r \<in> set rows"
    then have "\<bar>percentOfTotal T r\<bar> = percentOfTotal T r" using pnn by simp
    then show "\<bar>of_nat (tenths (percentOfTotal T r)) / 10 - percentOfTotal T r\<bar> \<le> 1 / 20"
      using tenths_bound [of "percentOfTotal T r"] by simp
  qed
  have "\<bar>sum_list (map (\<lambda>r. of_nat (tenths (percentOfTotal T r)) / 10) rows) - sum_list (map (percentOfTotal T) rows)\<bar>
        \<le> of_nat (length rows) * (1 / 20 :: money)"
    using sum_list_abs_diff_le [OF err] by simp
  moreover have "sum_list (map (percentOfTotal T) rows) = 100"
    using Tpos unfolding T_def by (rule percentOfTotal_sum)
  moreover have "(of_nat (sum_list ds) :: money) / 10 = sum_list (map (\<lambda>r. of_nat (tenths (percentOfTotal T r)) / 10) rows)"
    unfolding ds_def by (rule of_nat_sum_list_divide)
  ultimately have "\<bar>of_nat (sum_list ds) / 10 - 100\<bar> \<le> of_nat (length ds) / (20 :: money)"
    by (simp add: ds_def)
  with cells show ?thesis by blast
qed

text \<open>Three products with equal revenue: each cell reads 33.3%, and the column
  adds up to 99.9.\<close>

lemma sbp_percent_three_rows:
  "map sbp_percent (sbp_rows (SalesByProductPage DEFAULT_SETTINGS
     [\<lparr>sale_id = ''1'', date = 0, clientId = None, paymentMethod = ''Efectivo'',
       items = [item_of (MOCK_PRODUCTS ! 0) 1 100, item_of (MOCK_PRODUCTS ! 1) 1 100, item_of (MOCK_PRODUCTS ! 2) 1 100],
       subtotal = 300, tax = 0, sale_total = 300, sale_status = Completed\<rparr>] '''')) =
   [''33.3%'', ''33.3%'', ''33.3%'']"
proof -
  have f: "\<lfloor>(2003 / 6 :: money)\<rfloor> = 333" by (simp add: floor_eq_iff)
  show ?thesis
    by (simp add: sbp_rows_page sbp_row_def toFixed1_def tenths_def percentOfTotal_def f filteredData_def
        aggregatedData_def report_totalRevenue_def MOCK_PRODUCTS_def toLowerCase_def string_of_nat_eval)
qed

theorem sbp_percent_column_witness:
  "0 < report_totalRevenue (filteredData '''' (aggregatedData (MOCK_SALES 0))) \<and>
   list_all (\<lambda>r. 0 \<le> totalRevenue r) (filteredData '''' (aggregatedData (MOCK_SALES 0))) \<and>
   (\<exists>ds. map sbp_percent (sbp_rows (SalesByProductPage DEFAULT_SETTINGS (MOCK_SALES 0) '''')) =
               map (\<lambda>d. string_of_nat (d div 10) @ ''.'' @ pad 1 (d mod 10) @ ''%'') ds \<and>
             \<bar>of_nat (sum_list ds) / 10 - 100\<bar> \<le> of_nat (length ds) / (20 :: money))"
proof -
  have h1: "0 < report_totalRevenue (filteredData '''' (aggregatedData (MOCK_SALES 0)))"
    by (simp add: report_totalRevenue_def filteredData_def aggregatedData_def MOCK_SALES_def MOCK_PRODUCTS_def
        toLowerCase_def)
  have h2: "list_all (\<lambda>r. 0 \<le> totalRevenue r) (filteredData '''' (aggregatedData (MOCK_SALES 0)))"
    by (simp add: filteredData_def aggregatedData_def MOCK_SALES_def MOCK_PRODUCTS_def toLowerCase_def)
  show ?thesis using h1 h2 sbp_percent_column [OF h1 h2, of DEFAULT_SETTINGS] by blast
qed

lemma history_modal_view:
  "history_modal settings clients (handleViewDetail sale h) =
     Some (sale_detail (or_default currencySymbol ''S/'' settings) (or_default taxName ''Impuesto'' settings) clients sale)"
  by (simp add: history_modal_def handleViewDetail_def)

lemma history_modal_close: "history_modal settings clients (history_closeModal h) = None"
  by (simp add: history_modal_def history_closeModal_def split: option.split)

lemma history_table_delete:
  assumes "confirmed"
  shows "map hrow_id (fst (history_table c cl (handleDelete confirmed sid h))) =
         filter (\<lambda>r. r \<noteq> ''#'' @ sid) (map hrow_id (fst (history_table c cl h)))"
  using assms by (simp add: history_table_def handleDelete_def history_row_def filter_map comp_def)

end
