(* ===== verification/CrudViews.thy ===== *)
theory CrudViews
  imports Crud Pages
begin

text \<open>
  The master-data pages beyond their save and delete handlers: the
  \<open>onChange\<close> handlers of their modal forms (\<open>setFormData({...formData,
  field: value})\<close>, or \<open>setName\<close>, \<open>setColor\<close>, \<open>setIsActive\<close> on the pages
  whose form is a pair), each an edit of \<open>crud_form\<close>; and what each page
  renders from its \<open>crud_state\<close>: the list (rows or cards) and the modal's
  \<open>isOpen\<close> and title. The number inputs of the product form are edited
  with the number they parse to (\<open>parseFloat\<close>/\<open>parseInt\<close> of a cleared
  input, \<open>NaN\<close>, has no value in the model's rationals and integers). The
  \<open>Modal\<close> component itself is not among the sources; the model keeps the
  props the pages pass to it.
\<close>

record modal_view =
  modal_isOpen :: bool
  modal_title :: string

definition crud_modal_view :: "string \<Rightarrow> string \<Rightarrow> ('e, 'f) crud_state \<Rightarrow> modal_view" where
  "crud_modal_view editTitle newTitle st =
     \<lparr>modal_isOpen = crud_modal st, modal_title = (if crud_editing st \<noteq> None then editTitle else newTitle)\<rparr>"

subsection \<open>Products\<close>

datatype product_edit =
    PCode string | PName string | PBrand string | PCategory string | PBuyPrice money
  | PStock int | PMinStock int | PRetail money | PWholesale money | PSpecial money

definition products_setField :: "product_edit \<Rightarrow> (product, product) crud_state \<Rightarrow> (product, product) crud_state" where
  "products_setField e st =
     crud_edit_form (\<lambda>f. case e of
        PCode v \<Rightarrow> f\<lparr>code := v\<rparr> | PName v \<Rightarrow> f\<lparr>name := v\<rparr> | PBrand v \<Rightarrow> f\<lparr>brandId := v\<rparr>
      | PCategory v \<Rightarrow> f\<lparr>categoryId := v\<rparr> | PBuyPrice v \<Rightarrow> f\<lparr>buyPrice := v\<rparr> | PStock v \<Rightarrow> f\<lparr>stock := v\<rparr>
      | PMinStock v \<Rightarrow> f\<lparr>minStock := v\<rparr> | PRetail v \<Rightarrow> f\<lparr>priceRetail := v\<rparr>
      | PWholesale v \<Rightarrow> f\<lparr>priceWholesale := v\<rparr> | PSpecial v \<Rightarrow> f\<lparr>priceSpecial := v\<rparr>) st"

text \<open>The brand and category selects: a blank ``Seleccionar'' option, then one
  option (value, label) per mock brand or category.\<close>

definition brand_options :: "(string \<times> string) list" where
  "brand_options = ('''', ''Seleccionar'') # map (\<lambda>b. (brand_id b, brand_name b)) MOCK_BRANDS"

definition category_options :: "(string \<times> string) list" where
  "category_options = ('''', ''Seleccionar'') # map (\<lambda>c. (category_id c, category_name c)) MOCK_CATEGORIES"

definition ProductsPage :: "company_settings \<Rightarrow> (product, product) crud_state \<Rightarrow> product_card list \<times> modal_view" where
  "ProductsPage settings st =
     (products_cards settings (crud_items st), crud_modal_view ''Editar Producto'' ''Nuevo Producto'' st)"

subsection \<open>Clients\<close>

datatype client_field = CName | CTaxId | CPhone | CEmail | CAddress

definition clients_setField :: "client_field \<Rightarrow> string \<Rightarrow> (client, client) crud_state \<Rightarrow> (client, client) crud_state" where
  "clients_setField fld v st =
     crud_edit_form (\<lambda>c. case fld of
        CName \<Rightarrow> c\<lparr>client_name := v\<rparr> | CTaxId \<Rightarrow> c\<lparr>taxId := v\<rparr> | CPhone \<Rightarrow> c\<lparr>client_phone := v\<rparr>
      | CEmail \<Rightarrow> c\<lparr>client_email := v\<rparr> | CAddress \<Rightarrow> c\<lparr>client_address := v\<rparr>) st"

record client_row =
  crow_name :: string
  crow_address :: string
  crow_taxId :: string
  crow_email :: string
  crow_phone :: string

definition client_row :: "client \<Rightarrow> client_row" where
  "client_row c = \<lparr>crow_name = client_name c, crow_address = client_address c, crow_taxId = taxId c,
                   crow_email = client_email c, crow_phone = client_phone c\<rparr>"

definition ClientsPage :: "string \<Rightarrow> (client, client) crud_state \<Rightarrow> client_row list \<times> modal_view" where
  "ClientsPage term st =
     (map client_row (filteredClients term (crud_items st)), crud_modal_view ''Editar Cliente'' ''Nuevo Cliente'' st)"

subsection \<open>Users\<close>

datatype user_edit = UName string | UEmail string | URole UserRole | UActive bool

definition users_setField :: "user_edit \<Rightarrow> (user, user) crud_state \<Rightarrow> (user, user) crud_state" where
  "users_setField e st =
     crud_edit_form (\<lambda>u. case e of
        UName v \<Rightarrow> u\<lparr>user_name := v\<rparr> | UEmail v \<Rightarrow> u\<lparr>user_email := v\<rparr>
      | URole r \<Rightarrow> u\<lparr>role := r\<rparr> | UActive a \<Rightarrow> u\<lparr>user_active := a\<rparr>) st"

text \<open>The values of the string enum \<open>UserRole\<close>, which the table shows and the
  role select lists (\<open>Object.values(UserRole)\<close>).\<close>

primrec role_label :: "UserRole \<Rightarrow> string" where
  "role_label ADMIN = ''Administrador''"
| "role_label SELLER = ''Vendedor''"
| "role_label SALES_MANAGER = ''Gerente de Ventas''"
| "role_label STOCK_MANAGER = ''Encargado de Stock''"

definition role_options :: "UserRole list" where
  "role_options = [ADMIN, SELLER, SALES_MANAGER, STOCK_MANAGER]"

record user_row =
  urow_avatar :: "string option"
  urow_name :: string
  urow_email :: string
  urow_role :: string
  urow_status :: string

definition user_row :: "user \<Rightarrow> user_row" where
  "user_row u = \<lparr>urow_avatar = avatarUrl u, urow_name = user_name u, urow_email = user_email u,
                 urow_role = role_label (role u), urow_status = (if user_active u then ''Activo'' else ''Inactivo'')\<rparr>"

definition UsersPage :: "string \<Rightarrow> (user, user) crud_state \<Rightarrow> user_row list \<times> modal_view" where
  "UsersPage term st =
     (map user_row (filteredUsers term (crud_items st)), crud_modal_view ''Editar Usuario'' ''Nuevo Usuario'' st)"

subsection \<open>Categories and brands\<close>

text \<open>The swatches of the two color pickers; a click on one is \<open>setColor\<close>.\<close>

definition category_palette :: "string list" where
  "category_palette = [''#ff6b6b'', ''#4ecdc4'', ''#ffe66d'', ''#1a535c'', ''#ff9f1c'', ''#3b82f6'', ''#8b5cf6'', ''#ec4899'']"

definition brand_palette :: "string list" where
  "brand_palette = [''#000000'', ''#0051ba'', ''#1428a0'', ''#555555'', ''#dc2626'', ''#16a34a'', ''#d97706'', ''#9333ea'']"

definition setName :: "string \<Rightarrow> ('e, string \<times> 'c) crud_state \<Rightarrow> ('e, string \<times> 'c) crud_state" where
  "setName v st = crud_edit_form (\<lambda>(n, c). (v, c)) st"

definition setColor :: "string \<Rightarrow> ('e, 'n \<times> string) crud_state \<Rightarrow> ('e, 'n \<times> string) crud_state" where
  "setColor v st = crud_edit_form (\<lambda>(n, c). (n, v)) st"

definition upper_char :: "char \<Rightarrow> char" where
  "upper_char c = (let n = (of_char c :: nat) in if 97 \<le> n \<and> n \<le> 122 then char_of (n - 32) else c)"

record swatch_card =
  card_swatch :: string
  card_initials :: "string option"
  card_title :: string
  card_id :: string

text \<open>A category card shows \<open>cat.name.substring(0, 2).toUpperCase()\<close> (on the
  ASCII letters) in its swatch; a brand card shows an icon there (\<open>None\<close>).\<close>

definition category_card :: "category \<Rightarrow> swatch_card" where
  "category_card c = \<lparr>card_swatch = category_color c, card_initials = Some (map upper_char (take 2 (category_name c))),
                      card_title = category_name c, card_id = ''ID: '' @ category_id c\<rparr>"

definition CategoriesPage :: "(category, string \<times> string) crud_state \<Rightarrow> swatch_card list \<times> modal_view \<times> string" where
  "CategoriesPage st =
     (map category_card (crud_items st),
      crud_modal_view (''Editar Categor'' @ i_acute @ ''a'') (''Nueva Categor'' @ i_acute @ ''a'') st,
      if crud_editing st \<noteq> None then ''Actualizar'' else ''Guardar'')"

definition brand_card :: "brand \<Rightarrow> swatch_card" where
  "brand_card b = \<lparr>card_swatch = brand_color b, card_initials = None,
                   card_title = brand_name b, card_id = ''ID: '' @ brand_id b\<rparr>"

definition BrandsPage :: "(brand, string \<times> string) crud_state \<Rightarrow> swatch_card list \<times> modal_view \<times> string" where
  "BrandsPage st =
     (map brand_card (crud_items st), crud_modal_view ''Editar Marca'' ''Nueva Marca'' st,
      if crud_editing st \<noteq> None then ''Actualizar'' else ''Guardar'')"

subsection \<open>Payment methods\<close>

definition setIsActive :: "bool \<Rightarrow> ('e, string \<times> bool) crud_state \<Rightarrow> ('e, string \<times> bool) crud_state" where
  "setIsActive a st = crud_edit_form (\<lambda>(n, _). (n, a)) st"

record pm_card =
  pm_dimmed :: bool
  pm_title :: string
  pm_status :: string
  pm_card_id :: string

definition pm_card :: "payment_method \<Rightarrow> pm_card" where
  "pm_card m = \<lparr>pm_dimmed = (\<not> payment_active m), pm_title = payment_name m,
                pm_status = (if payment_active m then ''Activo'' else ''Inactivo''), pm_card_id = ''ID: '' @ payment_id m\<rparr>"

definition PaymentMethodsPage :: "payment_method list \<Rightarrow> (payment_method, string \<times> bool) crud_state \<Rightarrow> pm_card list \<times> modal_view" where
  "PaymentMethodsPage pms st =
     (map pm_card pms, crud_modal_view (''Editar M'' @ e_acute @ ''todo de Pago'') (''Nuevo M'' @ e_acute @ ''todo de Pago'') st)"

subsection \<open>Properties\<close>

lemma products_save_edited:
  assumes "p \<in> set (crud_items st)"
  shows "f \<in> set (crud_items (products_handleSave now ((products_handleOpenModal (Some p) st)\<lparr>crud_form := f\<rparr>)))"
proof -
  have "crud_items (products_handleSave now ((products_handleOpenModal (Some p) st)\<lparr>crud_form := f\<rparr>)) =
        map (\<lambda>x. if product_id x = product_id p then f else x) (crud_items st)"
    by (simp add: products_handleSave_def products_handleOpenModal_def crud_save_def crud_open_def)
  then show ?thesis using assms by auto
qed

text \<open>C31. The product form accepts a minimum stock of 0: opening a product with no
  stock, typing 0 into the minimum-stock input and saving puts into the list a
  product whose card's stock bar has width \<open>NaN\<close> (the division \<open>0 / (0 * 3)\<close>).\<close>

theorem product_form_zero_minStock_NaN:
  assumes "p \<in> set (crud_items st)" and "stock p = 0"
  shows "p\<lparr>minStock := 0\<rparr> \<in> set (crud_items (products_handleSave now
                                (products_setField (PMinStock 0) (products_handleOpenModal (Some p) st)))) \<and>
         card_bar (product_card settings (p\<lparr>minStock := 0\<rparr>)) = JNaN"
proof
  have "products_setField (PMinStock 0) (products_handleOpenModal (Some p) st) =
        (products_handleOpenModal (Some p) st)\<lparr>crud_form := p\<lparr>minStock := 0\<rparr>\<rparr>"
    by (simp add: products_setField_def crud_edit_form_def products_handleOpenModal_def crud_open_def)
  then show "p\<lparr>minStock := 0\<rparr> \<in> set (crud_items (products_handleSave now
               (products_setField (PMinStock 0) (products_handleOpenModal (Some p) st))))"
    using products_save_edited [OF assms(1), of "p\<lparr>minStock := 0\<rparr>" now] by simp
  show "card_bar (product_card settings (p\<lparr>minStock := 0\<rparr>)) = JNaN"
    using assms(2) by (simp add: product_card_def stockBarWidth_zero_min)
qed

theorem product_form_zero_minStock_NaN_witness:
  "product_blank \<in> set (crud_items (crud_init [product_blank] product_blank)) \<and> stock product_blank = 0 \<and>
   product_blank\<lparr>minStock := 0\<rparr> \<in> set (crud_items (products_handleSave 1
     (products_setField (PMinStock 0) (products_handleOpenModal (Some product_blank) (crud_init [product_blank] product_blank))))) \<and>
   card_bar (product_card DEFAULT_SETTINGS (product_blank\<lparr>minStock := 0\<rparr>)) = JNaN"
proof -
  have m: "product_blank \<in> set (crud_items (crud_init [product_blank] product_blank))" by (simp add: crud_init_def)
  have s: "stock product_blank = 0" by (simp add: product_blank_def)
  from product_form_zero_minStock_NaN [OF m s, of 1 DEFAULT_SETTINGS]
  have "product_blank\<lparr>minStock := 0\<rparr> \<in> set (crud_items (products_handleSave 1
     (products_setField (PMinStock 0) (products_handleOpenModal (Some product_blank) (crud_init [product_blank] product_blank))))) \<and>
   card_bar (product_card DEFAULT_SETTINGS (product_blank\<lparr>minStock := 0\<rparr>)) = JNaN" .
  with m s show ?thesis by (intro conjI) (assumption | erule conjE)+
qed

end
