(* ===== verification/PosView.thy ===== *)
theory PosView
  imports Ticket
begin

text \<open>
  The cart panel and the modals of \<open>src/pages/Sales/POS.tsx\<close>, as what
  \<open>POSPage\<close> renders from \<open>pos_state\<close>: the cart lines (or the empty-cart
  message), the payment-method select, the totals, the pay button with its
  \<open>disabled\<close> flag, the client picker and the success modal shown after a
  checkout. Amounts are the strings \<open>toFixed(2)\<close> prints; the tax rate in the
  label \<open>taxName (taxRate%)\<close> is kept as the number. The client picker's two
  handlers (open, and a click on a client) are the state changes this part
  adds to \<open>Cart\<close>.
\<close>

record cart_line_view =
  clv_image :: string
  clv_name :: string
  clv_quantity :: int
  clv_total :: string

definition cart_line_view :: "string \<Rightarrow> cart_item \<Rightarrow> cart_line_view" where
  "cart_line_view cur item =
     \<lparr>clv_image = imageUrl item, clv_name = name item, clv_quantity = quantity item,
      clv_total = cur @ '' '' @ toFixed2 (finalPrice item * of_int (quantity item))\<rparr>"

record pos_panel =
  panel_empty :: bool
  panel_lines :: "cart_line_view list"
  panel_payment_options :: "(string \<times> string \<times> bool) list"
  panel_payment_selected :: string
  panel_subtotal :: string
  panel_tax_name :: string
  panel_tax_rate :: money
  panel_tax :: string
  panel_total :: string
  pay_label :: string
  pay_disabled :: bool

text \<open>The select's options are (value, label, disabled): the disabled
  placeholder, then one option per payment method the page received.\<close>

definition pos_panel :: "company_settings \<Rightarrow> payment_method list \<Rightarrow> pos_state \<Rightarrow> pos_panel" where
  "pos_panel settings pms s =
     (let cur = currencySymbol settings; c = cart s
      in \<lparr>panel_empty = (c = []),
          panel_lines = map (cart_line_view cur) c,
          panel_payment_options =
            ('''', ''Seleccione...'', True) # map (\<lambda>pm. (payment_name pm, payment_name pm, False)) pms,
          panel_payment_selected = selectedPaymentMethod s,
          panel_subtotal = cur @ '' '' @ toFixed2 (subTotal c),
          panel_tax_name = taxName settings, panel_tax_rate = taxRate settings,
          panel_tax = cur @ '' '' @ toFixed2 (taxAmount settings c),
          panel_total = cur @ '' '' @ toFixed2 (pos_total settings c),
          pay_label = ''Pagar '' @ cur @ '' '' @ toFixed2 (pos_total settings c),
          pay_disabled = (c = [])\<rparr>)"

subsection \<open>Client picker\<close>

definition openClientModal :: "pos_state \<Rightarrow> pos_state" where
  "openClientModal s = s\<lparr>isClientModalOpen := True\<rparr>"

definition closeClientModal :: "pos_state \<Rightarrow> pos_state" where
  "closeClientModal s = s\<lparr>isClientModalOpen := False\<rparr>"

definition pickClient :: "client \<Rightarrow> pos_state \<Rightarrow> pos_state" where
  "pickClient c s = s\<lparr>selectedClient := Some c, isClientModalOpen := False\<rparr>"

record client_choice =
  choice_name :: string
  choice_taxId :: string
  choice_selected :: bool

definition client_picker :: "pos_state \<Rightarrow> bool \<times> client_choice list" where
  "client_picker s =
     (isClientModalOpen s,
      map (\<lambda>c. \<lparr>choice_name = client_name c, choice_taxId = taxId c,
                 choice_selected = (case selectedClient s of Some sc \<Rightarrow> client_id sc = client_id c | None \<Rightarrow> False)\<rparr>)
          MOCK_CLIENTS)"

subsection \<open>Success modal\<close>

record success_view =
  sv_amount :: string
  sv_client :: string
  sv_method :: string

definition success_modal :: "company_settings \<Rightarrow> pos_state \<Rightarrow> success_view option" where
  "success_modal settings s =
     (if showSuccessModal s
      then (case lastSale s of
              Some sale \<Rightarrow> Some \<lparr>sv_amount = currencySymbol settings @ '' '' @ toFixed2 (sale_total sale),
                                 sv_client = (case selectedClient s of Some c \<Rightarrow> client_name c | None \<Rightarrow> ''Consumidor Final''),
                                 sv_method = paymentMethod sale\<rparr>
            | None \<Rightarrow> None)
      else None)"

subsection \<open>Properties\<close>

text \<open>After a committing checkout the success modal repeats the amount the pay
  button showed, names the selected client (or the walk-in customer) and the
  payment method; the amount is the one reported to \<open>onSaleComplete\<close>.\<close>

lemma checkout_success_modal:
  assumes "selectedPaymentMethod s \<noteq> ''''" and "handleCheckout settings sid now db s = (db', s', r)"
  shows "\<exists>v. success_modal settings s' = Some v \<and> pay_label (pos_panel settings pms s) = ''Pagar '' @ sv_amount v \<and>
             sv_client v = (case selectedClient s of Some c \<Rightarrow> client_name c | None \<Rightarrow> ''Consumidor Final'') \<and>
             sv_method v = selectedPaymentMethod s \<and> r = Some (pos_total settings (cart s))"
  using assms by (auto simp: handleCheckout_def success_modal_def pos_panel_def Let_def)

lemma pickClient_picker:
  "client_picker (pickClient c s) =
     (False, map (\<lambda>x. \<lparr>choice_name = client_name x, choice_taxId = taxId x,
                        choice_selected = (client_id c = client_id x)\<rparr>) MOCK_CLIENTS)"
  by (simp add: client_picker_def pickClient_def)

lemma pay_disabled_empty: "pay_disabled (pos_panel settings pms s) = (cart s = [])"
  by (simp add: pos_panel_def Let_def)

end
