(* ===== verification/InventoryDocs.thy ===== *)
theory InventoryDocs
  imports Pages
begin

text \<open>
  The rest of \<open>src/pages/Inventory/InventoryReport.tsx\<close>: the search handler,
  the text lines \<open>handlePrintPDF\<close> writes above and below the table (the
  report date, printed with the browser's locale, and the \<open>toLocaleString\<close>
  of the inventory value are not modelled), the page-footer loop over the
  pages \<open>autoTable\<close> produced, and the name of the downloaded CSV file,
  \<open>inventario_${new Date().toISOString().split('T')[0]}.csv\<close>, whose date
  part is computed from the clock with the proleptic Gregorian calendar of
  \<open>toISOString\<close> (UTC). The CSV link: \<open>encodeURI\<close> on the UTF-8 bytes of the
  text, and the browser's reading of the \<open>data:\<close> URL (the fragment cut at
  the first \<open>#\<close>, then percent-decoding), which gives the downloaded file.
\<close>

definition inventory_setSearch :: "string \<Rightarrow> string \<Rightarrow> string" where
  "inventory_setSearch v term = v"

definition inventory_pdf_title :: "company_settings option \<Rightarrow> string" where
  "inventory_pdf_title settings =
     (case settings of Some st \<Rightarrow> if company_name st = '''' then ''Reporte de Inventario'' else company_name st
      | None \<Rightarrow> ''Reporte de Inventario'')"

definition inventory_pdf_stats :: "product list \<Rightarrow> string list" where
  "inventory_pdf_stats products =
     [''Total Productos: '' @ string_of_nat (length products), ''Unidades Totales: '' @ int_to_string (totalStock products)]"

definition inventory_pdf_columns :: "string list" where
  "inventory_pdf_columns =
     [''C'' @ o_acute @ ''digo'', ''Producto'', ''Marca'', ''Categor'' @ i_acute @ ''a'', ''Stock'',
      ''M'' @ i_acute @ ''nimo'', ''Costo'', ''Valor Total'']"

definition a_acute :: string where "a_acute = [CHR 0xC3, CHR 0xA1]"

text \<open>\<open>for (let i = 1; i <= pageCount; i++)\<close>: one footer per page.\<close>

definition inventory_pdf_footers :: "nat \<Rightarrow> string list" where
  "inventory_pdf_footers pageCount =
     map (\<lambda>i. ''P'' @ a_acute @ ''gina '' @ string_of_nat i @ '' de '' @ string_of_nat pageCount @
              '' - Generado por PerfiSoft POS'') [1..<pageCount + 1]"

subsection \<open>The date part of toISOString\<close>

text \<open>Days since 1970-01-01 to (year, month, day), the civil-from-days
  computation on eras of 400 years.\<close>

definition civil_from_days :: "nat \<Rightarrow> nat \<times> nat \<times> nat" where
  "civil_from_days days =
     (let z = days + 719468; era = z div 146097; doe = z - era * 146097;
          yoe = (doe - doe div 1460 + doe div 36524 - doe div 146096) div 365;
          doy = doe - (365 * yoe + yoe div 4 - yoe div 100);
          mp = (5 * doy + 2) div 153;
          d = doy - (153 * mp + 2) div 5 + 1;
          m = (if mp < 10 then mp + 3 else mp - 9);
          y = yoe + era * 400 + (if m \<le> 2 then 1 else 0)
      in (y, m, d))"

definition iso_date :: "timestamp \<Rightarrow> string" where
  "iso_date t =
     (let (y, m, d) = civil_from_days (t div 86400000)
      in (if y \<le> 9999 then pad 4 y else ''+'' @ pad 6 y) @ ''-'' @ pad 2 m @ ''-'' @ pad 2 d)"

definition inventory_csv_filename :: "timestamp \<Rightarrow> string" where
  "inventory_csv_filename now = ''inventario_'' @ iso_date now @ ''.csv''"

subsection \<open>The CSV download link\<close>

text \<open>\<open>encodeURI\<close> on a string of UTF-8 bytes: letters, digits and
  \<open>-_.!~*'();/?:@&=+$,#\<close> are kept, every other byte becomes \<open>%XY\<close> with
  upper-case hexadecimal digits.\<close>

definition uri_kept :: "char \<Rightarrow> bool" where
  "uri_kept c = (is_alnum c \<or> c \<in> set (''-_.!~*();/?:@&=+$,#'' @ [CHR 0x27]))"

definition hex_digit :: "nat \<Rightarrow> char" where
  "hex_digit n = (if n < 10 then char_of (48 + n) else char_of (55 + n))"

definition percent_escape :: "char \<Rightarrow> string" where
  "percent_escape c = [CHR ''%'', hex_digit (of_char c div 16), hex_digit (of_char c mod 16)]"

definition encodeURI :: "string \<Rightarrow> string" where
  "encodeURI s = concat (map (\<lambda>c. if uri_kept c then [c] else percent_escape c) s)"

text \<open>What the browser downloads from the \<open>data:\<close> link: the URL parser ends the
  URL at the first \<open>#\<close> (the rest is the fragment), and the \<open>data:\<close> URL
  processor percent-decodes what follows the first comma (\<open>%XY\<close> with two
  hexadecimal digits is a byte, anything else is kept).\<close>

definition hex_value :: "char \<Rightarrow> nat option" where
  "hex_value c =
     (let n = (of_char c :: nat)
      in if 48 \<le> n \<and> n \<le> 57 then Some (n - 48)
         else if 65 \<le> n \<and> n \<le> 70 then Some (n - 55)
         else if 97 \<le> n \<and> n \<le> 102 then Some (n - 87) else None)"

fun percent_decode :: "string \<Rightarrow> string" where
  "percent_decode (c # h # l # rest) =
     (if c = CHR ''%'' then
        (case (hex_value h, hex_value l) of
           (Some x, Some y) \<Rightarrow> char_of (16 * x + y) # percent_decode rest
         | _ \<Rightarrow> c # percent_decode (h # l # rest))
      else c # percent_decode (h # l # rest))"
| "percent_decode cs = cs"

definition strip_fragment :: "string \<Rightarrow> string" where
  "strip_fragment u = takeWhile (\<lambda>c. c \<noteq> CHR ''#'') u"

definition data_url_body :: "string \<Rightarrow> string" where
  "data_url_body u = percent_decode (drop 1 (dropWhile (\<lambda>c. c \<noteq> CHR '','') u))"

text \<open>\<open>handleExport\<close>'s link: \<open>href\<close> is \<open>encodeURI(csvContent)\<close>, and the
  click downloads the body of that URL.\<close>

definition inventory_download :: "brand list \<Rightarrow> category list \<Rightarrow> product list \<Rightarrow> string" where
  "inventory_download brands cats shown = data_url_body (strip_fragment (encodeURI (inventory_csv brands cats shown)))"

subsection \<open>Properties\<close>

lemma inventory_pdf_footers_length: "length (inventory_pdf_footers n) = n"
  by (simp add: inventory_pdf_footers_def)

lemma inventory_pdf_footers_nth:
  assumes "i < n"
  shows "inventory_pdf_footers n ! i =
     ''P'' @ a_acute @ ''gina '' @ string_of_nat (Suc i) @ '' de '' @ string_of_nat n @ '' - Generado por PerfiSoft POS''"
proof -
  have "i < length [1..<n + 1]" using assms by simp
  moreover have "[1..<n + 1] ! i = Suc i" using assms by (simp only: nth_upt)
  ultimately show ?thesis unfolding inventory_pdf_footers_def by (simp only: nth_map)
qed
lemma civil_from_days_example: "civil_from_days 19675 = (2023, 11, 14)"
  by (simp add: civil_from_days_def Let_def)
lemma inventory_pdf_footers_distinct: "distinct (inventory_pdf_footers n)"
  by (auto simp: inventory_pdf_footers_def distinct_map inj_on_def)

lemma encodeURI_append [simp]: "encodeURI (xs @ ys) = encodeURI xs @ encodeURI ys"
  by (simp add: encodeURI_def)

lemma encodeURI_Cons:
  "encodeURI (c # s) = (if uri_kept c then [c] else percent_escape c) @ encodeURI s"
  by (simp add: encodeURI_def)

lemma hex_value_hex_digit: "n < 16 \<Longrightarrow> hex_value (hex_digit n) = Some n"
proof -
  assume "n < 16"
  then have "n \<in> set [0..<16]" by simp
  then show ?thesis by (auto simp: hex_value_def hex_digit_def Let_def)
qed

lemma percent_decode_other: "c \<noteq> CHR ''%'' \<Longrightarrow> percent_decode (c # rest) = c # percent_decode rest"
  by (cases rest rule: remdups_adj.cases) auto

lemma of_char_div_16: "(of_char c :: nat) div 16 < 16"
  by (simp add: less_mult_imp_div_less [where n = 16, of "of_char c" 16])

lemma percent_decode_escape: "percent_decode (percent_escape c @ rest) = c # percent_decode rest"
proof -
  have "hex_value (hex_digit (of_char c div 16)) = Some (of_char c div 16)"
    by (rule hex_value_hex_digit) (rule of_char_div_16)
  moreover have "hex_value (hex_digit (of_char c mod 16)) = Some (of_char c mod 16)"
    by (rule hex_value_hex_digit) simp
  moreover have "char_of (16 * (of_char c div 16) + of_char c mod (16::nat)) = c"
    by simp
  ultimately show ?thesis by (simp add: percent_escape_def)
qed

lemma percent_escape_no_hash: "CHR ''#'' \<notin> set (percent_escape c)"
proof -
  have h: "CHR ''#'' \<noteq> hex_digit n" if "n < 16" for n
  proof -
    have code: "(of_char (hex_digit n) :: nat) = (if n < 10 then 48 + n else 55 + n)"
      using that by (simp add: hex_digit_def take_bit_nat_eq_self)
    show ?thesis
    proof
      assume "CHR ''#'' = hex_digit n"
      then have "(of_char (hex_digit n) :: nat) = 35" by (simp flip: \<open>CHR ''#'' = hex_digit n\<close>)
      with code show False by (simp split: if_splits)
    qed
  qed
  have "CHR ''#'' \<noteq> hex_digit (of_char c div 16)" by (rule h) (rule of_char_div_16)
  moreover have "CHR ''#'' \<noteq> hex_digit (of_char c mod 16)" by (rule h) simp
  ultimately show ?thesis by (simp add: percent_escape_def)
qed

text \<open>Decoding undoes \<open>encodeURI\<close>.\<close>

lemma percent_decode_encodeURI: "percent_decode (encodeURI s) = s"
proof (induction s)
  case Nil
  then show ?case by (simp add: encodeURI_def)
next
  case (Cons c s)
  show ?case
  proof (cases "uri_kept c")
    case True
    then have "c \<noteq> CHR ''%''" by (auto simp: uri_kept_def is_alnum_def)
    with True Cons.IH show ?thesis by (simp add: encodeURI_Cons percent_decode_other)
  next
    case False
    with Cons.IH show ?thesis by (simp add: encodeURI_Cons percent_decode_escape)
  qed
qed

text \<open>\<open>encodeURI\<close> keeps \<open>#\<close>, and only there: the fragment starts where the
  text had its first \<open>#\<close>.\<close>

lemma strip_fragment_encodeURI: "strip_fragment (encodeURI s) = encodeURI (takeWhile (\<lambda>c. c \<noteq> CHR ''#'') s)"
proof (induction s)
  case Nil
  then show ?case by (simp add: strip_fragment_def encodeURI_def)
next
  case (Cons c s)
  show ?case
  proof (cases "c = CHR ''#''")
    case True
    then show ?thesis by (simp add: strip_fragment_def encodeURI_Cons uri_kept_def encodeURI_def)
  next
    case False
    have "\<forall>x \<in> set (if uri_kept c then [c] else percent_escape c). x \<noteq> CHR ''#''"
      using False percent_escape_no_hash by auto
    then have "strip_fragment (encodeURI (c # s)) = (if uri_kept c then [c] else percent_escape c) @ strip_fragment (encodeURI s)"
      by (simp add: strip_fragment_def encodeURI_Cons takeWhile_append2)
    with False Cons.IH show ?thesis by (simp add: encodeURI_Cons)
  qed
qed

lemma inventory_csv_prefix:
  "inventory_csv brands cats shown = ''data:text/csv;charset=utf-8,'' @ drop 28 (inventory_csv brands cats shown)"
  by (simp add: inventory_csv_def)

lemma takeWhile_not_hash_eq: "takeWhile (\<lambda>c. c \<noteq> CHR ''#'') s = s \<longleftrightarrow> CHR ''#'' \<notin> set s"
  by (induction s) auto

text \<open>C34. The file the inventory report's CSV button downloads is the CSV text
  up to its first \<open>#\<close>: \<open>encodeURI\<close> leaves \<open>#\<close> unescaped and the browser
  reads it as the start of the link's fragment. The download is the whole CSV
  exactly when no product, brand or category name contains a \<open>#\<close>.\<close>

theorem inventory_download_cut:
  "let body = drop 28 (inventory_csv brands cats shown)
   in inventory_download brands cats shown = takeWhile (\<lambda>c. c \<noteq> CHR ''#'') body \<and>
      (inventory_download brands cats shown = body \<longleftrightarrow> CHR ''#'' \<notin> set body)"
proof -
  define body where "body = drop 28 (inventory_csv brands cats shown)"
  have pre: "encodeURI ''data:text/csv;charset=utf-8,'' = ''data:text/csv;charset=utf-8,''"
    by (simp add: encodeURI_def uri_kept_def is_alnum_def)
  have "inventory_download brands cats shown =
        data_url_body (strip_fragment (''data:text/csv;charset=utf-8,'' @ encodeURI body))"
    unfolding inventory_download_def body_def
    by (subst inventory_csv_prefix) (simp only: encodeURI_append pre)
  also have "\<dots> = data_url_body (''data:text/csv;charset=utf-8,'' @ strip_fragment (encodeURI body))"
    by (simp add: strip_fragment_def)
  also have "\<dots> = percent_decode (strip_fragment (encodeURI body))"
    by (simp add: data_url_body_def)
  also have "\<dots> = takeWhile (\<lambda>c. c \<noteq> CHR ''#'') body"
    by (simp add: strip_fragment_encodeURI percent_decode_encodeURI)
  finally have d: "inventory_download brands cats shown = takeWhile (\<lambda>c. c \<noteq> CHR ''#'') body" .
  then show ?thesis unfolding body_def [symmetric] Let_def using takeWhile_not_hash_eq by simp
qed


end
