(* ===== verification/TicketLayout.thy ===== *)
theory TicketLayout
  imports Ticket
begin

text \<open>
  Where the two tickets put their text. \<open>generateTicket\<close> of
  \<open>src/pages/Sales/POS.tsx\<close> and \<open>generateTicketPDF\<close> of
  \<open>src/pages/Sales/SalesHistory.tsx\<close> write on a jsPDF page of fixed format
  \<open>[80, 200]\<close> (millimetres), keeping the vertical position in a variable
  \<open>y\<close> that each block advances. A layout is the list of the \<open>doc.text\<close> calls
  as (\<open>y\<close>, the strings drawn at that height), in the order the code makes
  them; the item loop is \<open>item_rows\<close>, 4 mm per line. The x positions, fonts
  and the logo image are not modelled; whether \<open>addImage\<close> succeeds is the
  parameter \<open>logoOk\<close>, and the lines \<open>splitTextToSize\<close> cuts the address into
  (which depend on font metrics) are a parameter. jsPDF does not break
  pages on its own, so text placed below 200 mm is not on the ticket.
\<close>

definition ticket_page_height :: nat where
  "ticket_page_height = 200"

primrec item_rows :: "nat \<Rightarrow> (cart_item \<Rightarrow> string list) \<Rightarrow> cart_item list \<Rightarrow> (nat \<times> string list) list" where
  "item_rows y f [] = []"
| "item_rows y f (item # rest) = (y, f item) # item_rows (y + 4) f rest"

definition ticket_logo_height :: "company_settings \<Rightarrow> bool \<Rightarrow> nat" where
  "ticket_logo_height settings logoOk = (if logoUrl settings \<noteq> '''' \<and> logoOk then 25 else 5)"

definition pos_ticket_layout ::
  "company_settings \<Rightarrow> bool \<Rightarrow> string list \<Rightarrow> client option \<Rightarrow> (timestamp \<Rightarrow> string) \<Rightarrow> sale \<Rightarrow> (nat \<times> string list) list" where
  "pos_ticket_layout settings logoOk splitAddress client fmtDate sale =
     (let clientName = (case client of Some c \<Rightarrow> client_name c | None \<Rightarrow> ''Consumidor Final'');
          currency = currencySymbol settings;
          y1 = 5 + ticket_logo_height settings logoOk;
          y2 = y1 + 5;
          y3 = y2 + (if address settings \<noteq> '''' then length splitAddress * 4 else 0);
          y4 = y3 + (if phone settings \<noteq> '''' then 5 else 0);
          y5 = y4 + 31;
          y6 = y5 + 4 * length (items sale) + 2
      in [(y1, [company_name settings])] @
         (if address settings \<noteq> '''' then [(y2, splitAddress)] else []) @
         (if phone settings \<noteq> '''' then [(y3, [''Tel: '' @ phone settings])] else []) @
         [(y4, [dashes]), (y4 + 5, [''Ticket #: '' @ slice_last 6 (sale_id sale)]),
          (y4 + 9, [''Fecha: '' @ fmtDate (date sale)]), (y4 + 13, [''Cliente: '' @ take 25 clientName]),
          (y4 + 17, [''Pago: '' @ paymentMethod sale]), (y4 + 22, [dashes]),
          (y4 + 27, [''CANT'', ''DESC'', ''TOTAL''])] @
         item_rows y5 (ticket_item 22) (items sale) @
         [(y6, [dashes]), (y6 + 5, [''Subtotal:'', currency @ '' '' @ toFixed2 (subtotal sale)]),
          (y6 + 9, [taxName settings @ '':'', currency @ '' '' @ toFixed2 (tax sale)]),
          (y6 + 14, [''TOTAL:'', currency @ '' '' @ toFixed2 (sale_total sale)]),
          (y6 + 24, [inverted_excl @ ''Gracias por su preferencia!''])])"

definition history_ticket_layout ::
  "company_settings option \<Rightarrow> client list \<Rightarrow> (timestamp \<Rightarrow> string) \<Rightarrow> sale \<Rightarrow> (nat \<times> string list) list" where
  "history_ticket_layout settings clients fmtDate sale =
     (let currency = or_default currencySymbol ''S/'' settings;
          taxLabel = or_default taxName ''Impuesto'' settings;
          addr = or_default address '''' settings; ph = or_default phone '''' settings;
          y2 = 15;
          y3 = y2 + (if addr \<noteq> '''' then 4 else 0);
          y4 = y3 + (if ph \<noteq> '''' then 5 else 0);
          y5 = y4 + 31;
          y6 = y5 + 4 * length (items sale) + 2
      in [(10, [or_default company_name ''Punto de Venta'' settings])] @
         (if addr \<noteq> '''' then [(y2, [addr])] else []) @
         (if ph \<noteq> '''' then [(y3, [''Tel: '' @ ph])] else []) @
         [(y4, [dashes]), (y4 + 5, [''Ticket #: '' @ sale_id sale]),
          (y4 + 9, [''Fecha: '' @ fmtDate (date sale)]),
          (y4 + 13, [''Cliente: '' @ getClientName clients (clientId sale)]),
          (y4 + 17, [''Pago: '' @ paymentMethod sale]), (y4 + 22, [dashes]),
          (y4 + 27, [''CANT.'', ''DESCRIPCI'' @ O_acute @ ''N'', ''TOTAL''])] @
         item_rows y5 (ticket_item 20) (items sale) @
         [(y6, [dashes]), (y6 + 5, [''Subtotal:'', currency @ '' '' @ toFixed2 (subtotal sale)]),
          (y6 + 9, [taxLabel @ '':'', currency @ '' '' @ toFixed2 (saleTax sale)]),
          (y6 + 14, [''TOTAL:'', currency @ '' '' @ toFixed2 (sale_total sale)]),
          (y6 + 22, [inverted_excl @ ''Gracias por su compra!''])])"

definition on_page :: "(nat \<times> string list) list \<Rightarrow> bool" where
  "on_page layout = list_all (\<lambda>p. fst p \<le> ticket_page_height) layout"

subsection \<open>Properties\<close>

lemma map_snd_item_rows [simp]: "map snd (item_rows y f xs) = map f xs"
  by (induction xs arbitrary: y) simp_all

lemma item_rows_bounds: "p \<in> set (item_rows y f xs) \<Longrightarrow> y \<le> fst p \<and> fst p + 4 \<le> y + 4 * length xs"
proof (induction xs arbitrary: y)
  case Nil
  then show ?case by simp
next
  case (Cons x xs)
  show ?case
  proof (cases "p = (y, f x)")
    case True
    then show ?thesis by simp
  next
    case False
    then have "p \<in> set (item_rows (y + 4) f xs)" using Cons.prems by simp
    then have "y + 4 \<le> fst p \<and> fst p + 4 \<le> y + 4 + 4 * length xs" by (rule Cons.IH)
    then show ?thesis by simp
  qed
qed

lemma sorted_item_rows: "sorted (map fst (item_rows y f xs))"
  by (induction xs arbitrary: y) (auto dest: item_rows_bounds)

lemma sorted_le_last: "sorted xs \<Longrightarrow> x \<in> set xs \<Longrightarrow> x \<le> last xs"
proof (induction xs)
  case Nil
  then show ?case by simp
next
  case (Cons a xs)
  show ?case
  proof (cases "xs = []")
    case True
    then show ?thesis using Cons.prems by simp
  next
    case False
    then have "last xs \<in> set xs" by simp
    then have "a \<le> last xs" using Cons.prems(1) by simp
    moreover have "x \<in> set xs \<Longrightarrow> x \<le> last xs" using Cons.IH Cons.prems(1) by simp
    ultimately show ?thesis using Cons.prems(2) False by auto
  qed
qed

lemma on_page_sorted:
  assumes "sorted (map fst layout)" and "layout \<noteq> []"
  shows "on_page layout = (fst (last layout) \<le> ticket_page_height)"
proof -
  have "fst p \<le> fst (last layout)" if "p \<in> set layout" for p
    using sorted_le_last [OF assms(1), of "fst p"] that assms(2) by (simp add: last_map)
  then show ?thesis using assms(2) unfolding on_page_def list_all_iff by (meson last_in_set order_trans)
qed

text \<open>The text of the layouts is the text the ticket models of \<open>Ticket\<close> list
  (for the POS ticket, when the address is empty or fits on one line).\<close>

lemma pos_ticket_layout_text:
  assumes "address settings = '''' \<or> splitAddress = [address settings]"
  shows "pos_ticket settings client fmtDate (Some sale) =
           Some (concat (map snd (pos_ticket_layout settings logoOk splitAddress client fmtDate sale)))"
  using assms by (auto simp: pos_ticket_def pos_ticket_layout_def Let_def map_concat)

lemma history_ticket_layout_text:
  "history_ticket settings clients fmtDate (Some sale) =
     Some (concat (map snd (history_ticket_layout settings clients fmtDate sale)))"
  by (simp add: history_ticket_def history_ticket_layout_def Let_def)

lemma sorted_pos_ticket_layout: "sorted (map fst (pos_ticket_layout settings logoOk sa client fmtDate sale))"
  by (auto simp: pos_ticket_layout_def Let_def sorted_append sorted_item_rows dest: item_rows_bounds)

lemma sorted_history_ticket_layout: "sorted (map fst (history_ticket_layout settings clients fmtDate sale))"
  by (auto simp: history_ticket_layout_def Let_def sorted_append sorted_item_rows dest: item_rows_bounds)

lemma last_pos_ticket_layout:
  "fst (last (pos_ticket_layout settings logoOk sa client fmtDate sale)) =
     67 + ticket_logo_height settings logoOk + (if address settings \<noteq> '''' then 4 * length sa else 0) +
     (if phone settings \<noteq> '''' then 5 else 0) + 4 * length (items sale)"
  by (simp add: pos_ticket_layout_def Let_def)

lemma pos_ticket_layout_not_Nil: "pos_ticket_layout settings logoOk sa client fmtDate sale \<noteq> []"
  by (simp add: pos_ticket_layout_def Let_def)

text \<open>C38. The POS ticket fits its 200 mm page exactly when its last line, the
  thank-you footer at \<open>67 mm\<close> plus the logo, address and phone blocks plus 4 mm per
  sale line, is within the page: with no page break, the lines of a longer sale
  past that bound, and the totals and footer, are cut off.\<close>

theorem pos_ticket_on_page:
  "on_page (pos_ticket_layout settings logoOk sa client fmtDate sale) =
     (67 + ticket_logo_height settings logoOk + (if address settings \<noteq> '''' then 4 * length sa else 0) +
      (if phone settings \<noteq> '''' then 5 else 0) + 4 * length (items sale) \<le> 200)"
  using on_page_sorted [OF sorted_pos_ticket_layout pos_ticket_layout_not_Nil]
  by (simp add: last_pos_ticket_layout ticket_page_height_def)

lemma history_ticket_on_page:
  "on_page (history_ticket_layout settings clients fmtDate sale) =
     (70 + (if or_default address '''' settings \<noteq> '''' then 4 else 0) +
      (if or_default phone '''' settings \<noteq> '''' then 5 else 0) + 4 * length (items sale) \<le> 200)"
proof -
  have "fst (last (history_ticket_layout settings clients fmtDate sale)) =
     70 + (if or_default address '''' settings \<noteq> '''' then 4 else 0) +
     (if or_default phone '''' settings \<noteq> '''' then 5 else 0) + 4 * length (items sale)"
    by (simp add: history_ticket_layout_def Let_def)
  moreover have "history_ticket_layout settings clients fmtDate sale \<noteq> []"
    by (simp add: history_ticket_layout_def Let_def)
  ultimately show ?thesis
    using on_page_sorted [OF sorted_history_ticket_layout] by (simp add: ticket_page_height_def)
qed

text \<open>A sale of 33 lines overflows both tickets, whatever the settings.\<close>

lemma long_sale_off_page:
  assumes "32 < length (items sale)"
  shows "\<not> on_page (pos_ticket_layout settings logoOk sa client fmtDate sale) \<and>
         \<not> on_page (history_ticket_layout st clients fmtDate sale)"
  using assms on_page_sorted [OF sorted_pos_ticket_layout pos_ticket_layout_not_Nil]
  by (simp add: last_pos_ticket_layout ticket_page_height_def history_ticket_on_page ticket_logo_height_def)

end
