(* ===== verification/ReportDocs.thy ===== *)
theory ReportDocs
  imports InventoryDocs ReportViews
begin

text \<open>
  The remaining document and chart code of the report pages. The text lines of
  the sales-by-product PDF (\<open>generatePDF\<close> of
  \<open>src/pages/Sales/SalesByProduct.tsx\<close>) around its table; the
  \<open>didParseCell\<close> hook of the inventory PDF, which sets in bold the row whose
  index is \<open>tableRows.length - 1\<close>; the two outputs of the sales-history ticket
  (a new tab, or a file \<open>Ticket_<id>.pdf\<close>); and the series of the two
  dashboard charts, which \<open>src/pages/Dashboard.tsx\<close> takes from its module
  constants. Dates printed with the browser's locale are a parameter.
\<close>

definition salesByProduct_pdf_text :: "company_settings \<Rightarrow> string \<Rightarrow> product_sales_data list \<Rightarrow> string list" where
  "salesByProduct_pdf_text settings today rows =
     [''Reporte de Ventas por Producto'', company_name settings, ''Fecha: '' @ today,
      ''Total Unidades: '' @ int_to_string (totalQuantity rows),
      ''Total Ingresos: '' @ currencySymbol settings @ '' '' @ toFixed2 (report_totalRevenue rows)]"

definition salesByProduct_pdf_head :: "string list" where
  "salesByProduct_pdf_head = [''C'' @ o_acute @ ''digo'', ''Producto'', ''Cant. Vendida'', ''Total Ingresos'']"

text \<open>\<open>didParseCell\<close>: the indices of the body rows drawn in bold.\<close>

definition inventory_pdf_bold_rows :: "string list list \<Rightarrow> nat list" where
  "inventory_pdf_bold_rows tableRows = filter (\<lambda>i. i = length tableRows - 1) [0..<length tableRows]"

datatype ticket_action = PrintTicket | DownloadTicket

datatype pdf_output = OpenInNewTab | SaveFile string

definition history_ticket_output :: "ticket_action \<Rightarrow> sale \<Rightarrow> pdf_output" where
  "history_ticket_output action sale =
     (case action of PrintTicket \<Rightarrow> OpenInNewTab | DownloadTicket \<Rightarrow> SaveFile (''Ticket_'' @ sale_id sale @ ''.pdf''))"

text \<open>The bar chart plots \<open>data\<close> with the y-axis ticks \<open>S/ ${value}\<close>; the pie
  chart has one cell per entry of \<open>categoryData\<close>, filled with its colour, and a
  legend of (colour, name) in the same order.\<close>

definition dashboard_bars :: "(string \<times> nat \<times> string) list" where
  "dashboard_bars = map (\<lambda>(n, v). (n, v, ''S/ '' @ string_of_nat v)) dashboard_data"

definition dashboard_pie :: "(nat \<times> string) list \<times> (string \<times> string) list" where
  "dashboard_pie = (map (\<lambda>(n, v, c). (v, c)) categoryData, map (\<lambda>(n, v, c). (c, n)) categoryData)"

subsection \<open>Properties\<close>

text \<open>The only row set in bold is the last one, which is the totals row the
  page appends after the product rows.\<close>

lemma inventory_pdf_bold_totals:
  "inventory_pdf_bold_rows (inventory_pdf_rows cur brands cats allProducts shown) = [length shown] \<and>
   inventory_pdf_rows cur brands cats allProducts shown ! length shown =
     ['''', ''TOTALES'', '''', '''', int_to_string (totalStock allProducts), '''', ''-'',
      cur @ '' '' @ toFixed2 (totalValue allProducts)]"
proof
  have l: "length (inventory_pdf_rows cur brands cats allProducts shown) = Suc (length shown)"
    by (simp add: inventory_pdf_rows_def)
  have "filter (\<lambda>i. i = length shown) [0..<length shown] = []" by (simp add: filter_empty_conv)
  then have "filter (\<lambda>i. i = length shown) [0..<Suc (length shown)] = [length shown]" by simp
  with l show "inventory_pdf_bold_rows (inventory_pdf_rows cur brands cats allProducts shown) = [length shown]"
    by (simp add: inventory_pdf_bold_rows_def)
  show "inventory_pdf_rows cur brands cats allProducts shown ! length shown =
     ['''', ''TOTALES'', '''', '''', int_to_string (totalStock allProducts), '''', ''-'',
      cur @ '' '' @ toFixed2 (totalValue allProducts)]"
    by (simp add: inventory_pdf_rows_def nth_append)
qed

lemma dashboard_pie_legend_colours: "map fst (snd dashboard_pie) = map snd (fst dashboard_pie)"
  by (simp add: dashboard_pie_def case_prod_beta)

end
