(* ===== verification/ToastClock.thy ===== *)
theory ToastClock
  imports Timers
begin

text \<open>
  The toast effect of \<open>src/pages/Sales/POS.tsx\<close> interleaved with user input.
  React runs the effect after a render in which one of its dependencies
  \<open>[errorToast, successToast]\<close> changed, first calling the cleanup of the
  previous run (\<open>clearTimeout\<close>); a render that leaves both unchanged keeps the
  pending timer. \<open>toast_clock\<close> is the clock, the POS state and the pending
  timer (its deadline and which toast it clears). \<open>toast_render\<close> is a render
  after any handler produced a new state at time \<open>t\<close>; \<open>toast_fire_at\<close> is the
  timer's callback at its deadline, itself followed by a render.
  \<open>toast_reach\<close> is the set of clocks reachable from a mount by renders that
  happen before the pending deadline and by timer callbacks; the invariant
  \<open>timer_ok\<close> relates the timer to the toasts shown and bounds its deadline.
  Toast values are compared as values of \<open>pos_error\<close> and \<open>pos_notice\<close>; the
  source compares the message strings they render to.
\<close>

datatype toast_kind = ErrorTimer | SuccessTimer

record toast_clock =
  tc_time :: timestamp
  tc_pos :: pos_state
  tc_timer :: "(timestamp \<times> toast_kind) option"

definition toast_effect :: "timestamp \<Rightarrow> pos_state \<Rightarrow> (timestamp \<times> toast_kind) option" where
  "toast_effect t s =
     (if errorToast s \<noteq> None then Some (t + 3000, ErrorTimer)
      else if successToast s \<noteq> None then Some (t + 2000, SuccessTimer)
      else None)"

definition toast_deps :: "pos_state \<Rightarrow> pos_error option \<times> pos_notice option" where
  "toast_deps s = (errorToast s, successToast s)"

definition toast_render :: "timestamp \<Rightarrow> pos_state \<Rightarrow> toast_clock \<Rightarrow> toast_clock" where
  "toast_render t s' c =
     \<lparr>tc_time = t, tc_pos = s',
      tc_timer = (if toast_deps s' = toast_deps (tc_pos c) then tc_timer c else toast_effect t s')\<rparr>"

definition toast_mount :: "timestamp \<Rightarrow> pos_state \<Rightarrow> toast_clock" where
  "toast_mount t s = \<lparr>tc_time = t, tc_pos = s, tc_timer = toast_effect t s\<rparr>"

definition toast_fire_at :: "toast_clock \<Rightarrow> toast_clock option" where
  "toast_fire_at c =
     (case tc_timer c of
        None \<Rightarrow> None
      | Some (d, ErrorTimer) \<Rightarrow> Some (toast_render d ((tc_pos c)\<lparr>errorToast := None\<rparr>) c)
      | Some (d, SuccessTimer) \<Rightarrow> Some (toast_render d ((tc_pos c)\<lparr>successToast := None\<rparr>) c))"

definition before_deadline :: "timestamp \<Rightarrow> toast_clock \<Rightarrow> bool" where
  "before_deadline t c = (tc_time c \<le> t \<and> (case tc_timer c of Some (d, _) \<Rightarrow> t < d | None \<Rightarrow> True))"

inductive toast_reach :: "toast_clock \<Rightarrow> bool" where
  mount: "toast_reach (toast_mount t s)"
| user: "toast_reach c \<Longrightarrow> before_deadline t c \<Longrightarrow> toast_reach (toast_render t s' c)"
| fire: "toast_reach c \<Longrightarrow> toast_fire_at c = Some c' \<Longrightarrow> toast_reach c'"

definition timer_ok :: "toast_clock \<Rightarrow> bool" where
  "timer_ok c =
     (case tc_timer c of
        None \<Rightarrow> errorToast (tc_pos c) = None \<and> successToast (tc_pos c) = None
      | Some (d, ErrorTimer) \<Rightarrow> errorToast (tc_pos c) \<noteq> None \<and> tc_time c < d \<and> d \<le> tc_time c + 3000
      | Some (d, SuccessTimer) \<Rightarrow> errorToast (tc_pos c) = None \<and> successToast (tc_pos c) \<noteq> None \<and>
                                  tc_time c < d \<and> d \<le> tc_time c + 2000)"

subsection \<open>Properties\<close>

lemma timer_ok_effect: "timer_ok \<lparr>tc_time = t, tc_pos = s, tc_timer = toast_effect t s\<rparr>"
  by (simp add: timer_ok_def toast_effect_def)

lemma timer_ok_render:
  assumes "timer_ok c" and "before_deadline t c"
  shows "timer_ok (toast_render t s' c)"
proof (cases "toast_deps s' = toast_deps (tc_pos c)")
  case True
  then have "errorToast s' = errorToast (tc_pos c)" "successToast s' = successToast (tc_pos c)"
    by (simp_all add: toast_deps_def)
  with True assms show ?thesis
    by (auto simp: toast_render_def timer_ok_def before_deadline_def split: option.splits toast_kind.splits)
next
  case False
  then show ?thesis using timer_ok_effect [of t s'] by (simp add: toast_render_def)
qed

lemma timer_ok_fire:
  assumes "timer_ok c" and "toast_fire_at c = Some c'"
  shows "timer_ok c'"
proof -
  obtain d k where tm: "tc_timer c = Some (d, k)" using assms(2) by (cases "tc_timer c") (auto simp: toast_fire_at_def)
  show ?thesis
  proof (cases k)
    case ErrorTimer
    then have "c' = toast_render d ((tc_pos c)\<lparr>errorToast := None\<rparr>) c" using assms(2) tm by (simp add: toast_fire_at_def)
    moreover have "toast_deps ((tc_pos c)\<lparr>errorToast := None\<rparr>) \<noteq> toast_deps (tc_pos c)"
      using assms(1) tm ErrorTimer by (auto simp: timer_ok_def toast_deps_def)
    ultimately show ?thesis using timer_ok_effect by (simp add: toast_render_def)
  next
    case SuccessTimer
    then have "c' = toast_render d ((tc_pos c)\<lparr>successToast := None\<rparr>) c" using assms(2) tm by (simp add: toast_fire_at_def)
    moreover have "toast_deps ((tc_pos c)\<lparr>successToast := None\<rparr>) \<noteq> toast_deps (tc_pos c)"
      using assms(1) tm SuccessTimer by (auto simp: timer_ok_def toast_deps_def)
    ultimately show ?thesis using timer_ok_effect by (simp add: toast_render_def)
  qed
qed

text \<open>C26. Interleaved with any user input, the toast timer is always consistent
  with the toasts on screen: no timer is pending exactly when no toast is shown;
  while an error toast is shown the pending timer clears it within 3000 ms; a
  success toast gets its 2000 ms timer only once no error toast is shown.\<close>

theorem toast_reach_timer_ok:
  assumes "toast_reach c"
  shows "timer_ok c"
  using assms
proof (induction rule: toast_reach.induct)
  case (mount t s)
  then show ?case using timer_ok_effect by (simp add: toast_mount_def)
next
  case (user c t s')
  then show ?case using timer_ok_render by blast
next
  case (fire c c')
  then show ?case using timer_ok_fire by blast
qed

text \<open>A success toast rendered while an error toast is shown restarts the error
  toast's 3000 ms timer.\<close>

lemma success_restarts_error_timer:
  assumes "errorToast s' \<noteq> None" and "successToast s' \<noteq> successToast (tc_pos c)"
  shows "tc_timer (toast_render t s' c) = Some (t + 3000, ErrorTimer)"
  using assms by (simp add: toast_render_def toast_deps_def toast_effect_def)

theorem toast_reach_timer_ok_witness:
  "toast_reach (toast_mount 0 ((pos_init []) \<lparr>errorToast := Some NoPaymentMethod\<rparr>)) \<and>
   timer_ok (toast_mount 0 ((pos_init []) \<lparr>errorToast := Some NoPaymentMethod\<rparr>)) \<and>
   tc_timer (toast_mount 0 ((pos_init []) \<lparr>errorToast := Some NoPaymentMethod\<rparr>)) = Some (3000, ErrorTimer)"
proof -
  have r: "toast_reach (toast_mount 0 ((pos_init []) \<lparr>errorToast := Some NoPaymentMethod\<rparr>))" by (rule toast_reach.mount)
  have "tc_timer (toast_mount 0 ((pos_init []) \<lparr>errorToast := Some NoPaymentMethod\<rparr>)) = Some (3000, ErrorTimer)"
    by (simp add: toast_mount_def toast_effect_def)
  with r toast_reach_timer_ok [OF r] show ?thesis by simp
qed

end
