(* ===== verification/ClosureDocs.thy ===== *)
theory ClosureDocs
  imports Ticket
begin

text \<open>
  The closure-report PDF of the cash-register page (\<open>generateClosureReport\<close> of
  \<open>src/pages/CashRegister.tsx\<close>), which \<open>handleSubmit\<close> opens 500 ms after a
  close. The document is the sequence of its \<open>doc.text\<close> lines and
  \<open>autoTable\<close> tables (head rows, body rows), in the order the code emits them;
  fonts, colours and the table geometry are jsPDF's. Dates printed with the
  browser's locale (\<open>toLocaleString\<close>, \<open>toLocaleTimeString\<close>) are parameters.
  \<open>Session.generateClosureReport\<close> models the figures of the same function;
  the root theory shows what the document prints after a close in a reachable
  state, against the ledger.
\<close>

datatype pdf_block = PdfText string | PdfTable "string list list" "string list list"

definition cr_getClientName :: "string option \<Rightarrow> string" where
  "cr_getClientName cid = getClientName MOCK_CLIENTS cid"

text \<open>\<open>`${currency} ${x.toFixed(2)}`\<close>.\<close>

definition money_cell :: "string \<Rightarrow> money \<Rightarrow> string" where
  "money_cell currency x = currency @ '' '' @ toFixed2 x"

text \<open>\<open>infoData\<close>. \<open>session.finalAmount?.toFixed(2)\<close> prints \<open>undefined\<close> for a
  missing amount, while the difference reads it as 0 (\<open>|| 0\<close>).\<close>

definition closure_info_rows :: "string \<Rightarrow> (timestamp \<Rightarrow> string) \<Rightarrow> cash_register_session \<Rightarrow> string list list" where
  "closure_info_rows currency fmt session =
     [[''Apertura:'', fmt (openedAt session)],
      [''Cierre:'', case closedAt session of Some t \<Rightarrow> fmt t | None \<Rightarrow> ''-''],
      [''Monto Inicial:'', money_cell currency (initialAmount session)],
      [''Ventas Registradas:'', money_cell currency (salesTotal session)],
      [''Total Esperado:'', money_cell currency (initialAmount session + salesTotal session)],
      [''Monto Real (Contado):'', currency @ '' '' @ (case finalAmount session of Some x \<Rightarrow> toFixed2 x | None \<Rightarrow> ''undefined'')],
      [''Diferencia:'', money_cell currency
         ((case finalAmount session of Some x \<Rightarrow> x | None \<Rightarrow> 0) - (initialAmount session + salesTotal session))]]"

definition closure_payment_rows :: "string \<Rightarrow> cash_register_session \<Rightarrow> string list list" where
  "closure_payment_rows currency session = [[''Efectivo / General'', money_cell currency (salesTotal session)]]"

definition closure_sale_row :: "string \<Rightarrow> (timestamp \<Rightarrow> string) \<Rightarrow> sale \<Rightarrow> string list" where
  "closure_sale_row currency fmtTime s =
     [sale_id s, fmtTime (date s), cr_getClientName (clientId s), string_of_nat (length (items s)),
      money_cell currency (sale_total s)]"

definition closure_sales_head :: "string list list" where
  "closure_sales_head = [[''ID Venta'', ''Hora'', ''Cliente'', ''Items'', ''Total'']]"

definition closure_payment_head :: "string list list" where
  "closure_payment_head = [[''M'' @ e_acute @ ''todo'', ''Monto'']]"

text \<open>The whole document: \<open>now\<close> is the generation time's locale text, \<open>fmt\<close> and
  \<open>fmtTime\<close> the locale date and time of a timestamp, \<open>sales\<close> the live
  \<open>MOCK_SALES\<close>.\<close>

definition closure_pdf ::
  "company_settings \<Rightarrow> string \<Rightarrow> (timestamp \<Rightarrow> string) \<Rightarrow> (timestamp \<Rightarrow> string) \<Rightarrow> sale list \<Rightarrow>
   cash_register_session \<Rightarrow> pdf_block list" where
  "closure_pdf settings now fmt fmtTime sales session =
     (let currency = currencySymbol settings
      in [PdfText ''Reporte de Cierre de Caja'', PdfText (company_name settings), PdfText (''Generado: '' @ now),
          PdfText ''Resumen del Turno'', PdfTable [] (closure_info_rows currency fmt session),
          PdfText (''M'' @ e_acute @ ''todos de Pago''),
          PdfTable closure_payment_head (closure_payment_rows currency session),
          PdfText ''Detalle de Ventas del Turno'',
          PdfTable closure_sales_head (map (closure_sale_row currency fmtTime) (sessionSales sales session))])"

lemma closure_info_rows_unclosed:
  assumes "finalAmount session = None"
  shows "closure_info_rows currency fmt session ! 5 = [''Monto Real (Contado):'', currency @ '' undefined'']
       \<and> closure_info_rows currency fmt session ! 6 =
           [''Diferencia:'', money_cell currency (- (initialAmount session + salesTotal session))]"
  using assms by (simp add: closure_info_rows_def)

text \<open>The session \<open>handleSubmit\<close> hands to the report when it closes the
  register: the open session with the closing time, the typed count, the live
  sales total and the closing status.\<close>

lemma handleSubmit_closed_session:
  assumes "handleSubmit sid now sales a c = (a', c', Some r)"
  shows "\<exists>cs. currentSession a = Some cs \<and> actionType c = CloseAction \<and>
           r = generateClosureReport sales
                 (cs\<lparr>closedAt := Some now, finalAmount := Some (case amount c of Some x \<Rightarrow> x | None \<Rightarrow> 0),
                     salesTotal := currentSales a, session_status := Closed,
                     session_notes := close_notes (session_notes cs) (cr_notes c)\<rparr>)"
  using assms by (cases "actionType c") (auto simp: handleSubmit_def Let_def split: option.splits)

lemma report_session_generateClosureReport [simp]:
  "report_session (generateClosureReport sales cs) = cs"
  by (simp add: generateClosureReport_def)

end
