(* ===== verification/Spec2Isabelle.thy ===== *)
theory Spec2Isabelle
  imports System Reports Crud Admin Ticket Export Layout Timers Pages ReportViews CrudViews PosView InventoryDocs TicketLayout ReportDocs ToastClock ClosureDocs
begin

text \<open>
  \<^bold>\<open>A verification library for the POSMODERNO point-of-sale demo.\<close>

  \<^bold>\<open>The program.\<close> A React/TypeScript single-page application. The
  module \<open>src/services/mockData.ts\<close> holds the mock tables; two of them,
  \<open>MOCK_PRODUCTS\<close> and \<open>MOCK_SALES\<close>, are mutated in place by the checkout
  and read by the reports, so they act as the shared catalog and sales
  ledger. \<open>src/App.tsx\<close> owns the logged-in user, the company settings,
  the open cash-register session and the payment methods, mirrors them in
  \<open>localStorage\<close>, and routes to the pages. The POS page
  (\<open>src/pages/Sales/POS.tsx\<close>) holds the cart, resolves prices by tier,
  enforces the stock limits and commits a sale; its \<open>onSaleComplete\<close>
  callback adds the sale total to the open session. The register page
  (\<open>src/pages/CashRegister.tsx\<close>) opens and closes sessions and builds the
  closure report from the ledger. The report pages read the ledger and the
  catalog; the master-data pages edit page-local copies of the mock tables,
  except the payment methods and the settings, which they hand back to
  \<open>App\<close>.

  \<^bold>\<open>Theories.\<close>
  \<^item> \<open>Prelude\<close>: the number model (money is \<open>rat\<close>, stock \<open>int\<close>,
    timestamps \<open>nat\<close> milliseconds), the JavaScript helpers (\<open>findIndex\<close>,
    \<open>toLowerCase\<close>, \<open>includes\<close>, \<open>trim\<close>, \<open>Date.now().toString()\<close> as
    \<open>string_of_nat\<close> with its reading back \<open>nat_of_string\<close>) and the shared
    list and sum lemmas.
  \<^item> \<open>Types\<close>: every interface and enum of \<open>src/types.ts\<close>; \<open>MockData\<close>: the
    tables of \<open>mockData.ts\<close> (\<open>MOCK_SALES\<close> takes the load time its dates
    are computed from).
  \<^item> \<open>Pricing\<close>, \<open>Cart\<close>: \<open>getPrice\<close>, re-pricing, and every state change of
    \<open>POSPage\<close> but the checkout, on the record \<open>pos_state\<close> of its
    \<open>useState\<close> hooks (\<open>addToCart\<close>, \<open>handleKeyDown\<close>, \<open>updateQuantity\<close>,
    \<open>removeFromCart\<close>, \<open>handlePriceTypeChange\<close>, \<open>handleNewSale\<close>, the
    totals); errors are the \<open>pos_error\<close> values put into \<open>errorToast\<close>.
  \<^item> \<open>Checkout\<close>: \<open>handleCheckout\<close> on the \<open>store\<close> of the two mutable
    tables, with the stock loop \<open>deductStock\<close> and the \<open>unshift\<close>.
  \<^item> \<open>Session\<close>: \<open>App\<close>'s state with \<open>localStorage\<close> as a map from keys to
    stored values, the mount-time load, its handlers; the register page's
    state, \<open>handleSubmit\<close> and \<open>generateClosureReport\<close>.
  \<^item> \<open>System\<close>: the composed program. One record holds the store, the
    \<open>App\<close> state, the POS and register page states, the routed page and the
    clock; \<open>sys_exec\<close> performs a user action by calling the handler the
    rendered UI wires to it (a checkout also calls \<open>onSaleComplete\<close>, sale
    and session ids are \<open>Date.now().toString()\<close>), \<open>sys_enabled\<close> is the
    condition under which the UI offers it (routes only for a logged-in user,
    POS controls only with an open register and no sale-complete modal, the
    pay button disabled on an empty cart, out-of-stock cards inert, ``open''
    only while closed and ``close'' only while open); leaving a page
    unmounts it. \<open>reachable t0\<close> is the inductive set of states reachable
    from a fresh browser that loaded the module at \<open>t0\<close>; \<open>sys_inv\<close> is the
    invariant proved for it by rule induction (\<open>reachable_sys_inv\<close>).
  \<^item> \<open>Reports\<close>: the sales-by-product aggregation (a \<open>Map\<close> in insertion
    order), which refines the abstract per-product \<open>rollup\<close>; the report's
    filter, totals and percentages; the sales-history page; the dashboard and
    inventory statistics.
  \<^item> \<open>Crud\<close>: the shape shared by the master-data pages, once over the
    entity and form types, and its instances for products, clients, users,
    categories, brands and payment methods. \<open>Admin\<close>: the settings form with
    \<open>parseFloat\<close>, and the login form; for both, the browser's constraint
    validation of their \<open>required\<close> inputs (the tax rate's \<open>min\<close>, \<open>max\<close>
    and \<open>step\<close>, the HTML check of an e-mail address), without which
    \<open>onSubmit\<close> does not fire.
  \<^item> \<open>Ticket\<close>: the text of the POS ticket (\<open>generateTicket\<close>) and of the
    sales-history ticket (\<open>generateTicketPDF\<close>) as the list of strings handed
    to \<open>doc.text\<close>, with \<open>toFixed(2)\<close>, \<open>slice(-6)\<close> and the cut of long
    item names. \<open>Export\<close>: the cells of the inventory PDF table, the
    inventory CSV text (with its quoting of names) and the sales-by-product PDF
    table.
  \<^item> \<open>Layout\<close>: the application shell of \<open>src/components/Layout.tsx\<close>:
    its state \<open>isSidebarOpen\<close>, the rendered sidebar (header, the Dashboard
    link and three titled sections of \<open>SidebarItem\<close> links with their active
    flags, the logout label) and profile as the record \<open>layout_view\<close>, and
    the click handlers \<open>layout_handle\<close>; \<open>route_page\<close> and
    \<open>layout_action\<close> map a click to the \<open>Navigate\<close> or \<open>Logout\<close> action of
    \<open>System\<close>.
  \<^item> \<open>Timers\<close>: the toast-clearing effect of \<open>POSPage\<close> (3000 ms for an
    error toast, then 2000 ms for a success toast) and its iteration to rest,
    a \<open>while_option\<close> loop over the clock and the POS state.
  \<^item> \<open>Pages\<close>: what the catalog pages render: the product cards of the
    products page (low-stock flag, stock bar, prices), with the bar's width in
    JavaScript number semantics (\<open>js_number\<close>: \<open>Infinity\<close> and \<open>NaN\<close>
    included), the dashboard's stat cards, and the inventory report's stat
    cards and table.
  \<^item> \<open>ReportDocs\<close>: the text of the sales-by-product PDF, the bold totals
    row of the inventory PDF, the two outputs of the history ticket, and the
    series of the dashboard charts.
  \<^item> \<open>ClosureDocs\<close>: the closure-report PDF of the register page
    (\<open>generateClosureReport\<close>) as its sequence of text lines and tables;
    this theory proves what it prints after a close in a reachable state.
  \<^item> \<open>TicketLayout\<close>: the vertical position of every \<open>doc.text\<close> call of
    the two tickets on their fixed 80 by 200 mm page, and when all of it is on
    the page.
  \<^item> \<open>InventoryDocs\<close>: the rest of the inventory report: its search
    handler, the text around the PDF table, the page-footer loop, and the CSV
    file name with the date part of \<open>toISOString\<close> computed from the clock;
    \<open>encodeURI\<close> and the browser's reading of the \<open>data:\<close> link, which give
    the downloaded CSV file.
  \<^item> \<open>ToastClock\<close>: the toast effect interleaved with user input: renders
    that re-run the effect when a toast changed (clearing the old timer), timer
    callbacks at their deadlines, and the inductive set of reachable clocks.
  \<^item> \<open>PosView\<close>: what the POS page renders around the cart: the cart lines,
    the payment select, the totals, the pay button and its \<open>disabled\<close> flag,
    the client picker with its two handlers, and the success modal.
  \<^item> \<open>ReportViews\<close>: what the two ledger report pages render: the
    sales-by-product cards, rows (with the \<open>toFixed(1)\<close> percent column) and
    footer, and the sales-history table and its detail modal.
  \<^item> \<open>CrudViews\<close>: the form \<open>onChange\<close> handlers of the six master-data pages
    as edits of the generic form, and what each page renders (rows or cards,
    the modal's \<open>isOpen\<close> and title).
  \<^item> This theory: the specification's walk-through as a trace, and the
    properties of the composed program.

  \<^bold>\<open>What is proved.\<close> Per handler (in the component theories): the error
  branches (out of stock, stock exceeded, missing payment method, blank
  names), the committing branches field by field, idempotence of re-pricing,
  the open/close transitions of the register and the persistence round trip.
  Per page: id-distinctness and edit round trips of the generic CRUD page, the
  13-digit barcode, the \<open>parseFloat\<close>/\<open>toString\<close> and
  \<open>parseFloat\<close>/\<open>toFixed(2)\<close> round trips, the ticket of a committed
  checkout, the repetition of printed ticket numbers, the CSV quoting
  round trip, the cut of the downloaded CSV at its first \<open>#\<close>, and that the
  one-decimal percent column of the sales-by-product page adds up to 100
  within 0.05 per row (and not always exactly). For the
  composed program: the specification's scenario, checked as a run (stocks 49
  and 9, session total 1239, variance 0); and in every reachable state nonnegative stock,
  conservation of stock against the sales since load, the session total equal
  to the sum of its sales, the cart invariant, consistent closing reports,
  unique sale ids, the per-product report accounting for revenue and stock,
  a well-formed ledger, and that the register can always be closed; the
  shell's logout button is the enabled \<open>Logout\<close> step, after which the
  shell renders nothing and no page can be navigated to. For the shell: exactly
  the link of the current path is highlighted, and the menu button changes
  only the labels. For the toast effect: termination of the loop, with the
  time it takes and the state it leaves, and, interleaved with any input, that
  the pending timer always matches the toasts shown and bounds their display. For the pages: the three pages that
  count low stock agree, and in every reachable state the stock bar of a
  product with a positive minimum stays within 0 to 100 percent, while the
  product form lets a minimum of 0 through and the bar of an empty product then
  has width \<open>NaN\<close>. For the closing PDF: after a close in any reachable
  state it prints the float, the ledger sales since the session opened, the
  typed count and the difference, and lists those sales. For the tickets: the POS ticket is on its page exactly
  when its footer is, and in every reachable state a checkout's ticket is.

  \<^bold>\<open>Assumptions and bounds.\<close> Every action happens at a later millisecond
  than the previous one (\<open>sys_clock\<close> strictly increases), which is what
  makes the clock-derived ids unique; the mock sales' ids 1001 and 1002 cannot
  collide with them once the clock is past 1002. No function of the model
  needs fuel: every loop of the source is a fold over a list,
  \<open>string_of_nat\<close> terminates by the measure of its argument, and the one
  loop that is not a fold, the re-run of the toast effect, is a
  \<open>while_option\<close> whose termination is proved with the number of toasts
  shown as measure (\<open>toasts_settle_terminates\<close>). The scenario uses the load
  time \<open>1700000000000\<close>.

  \<^bold>\<open>Not modelled.\<close> Of the PDF tickets, the fonts, the horizontal
  positions, the logo image and the wrapping of the address (the number of
  lines it wraps to is a parameter); the table geometry of the report exports (their cells are modelled),
  the drawing of the charts (their series are modelled), the icons and CSS classes of the shell
  (its header search box and bell have no handlers in the source), sounds,
  focus handling;
  the settings page's 3 s success banner and the login page's 800 ms delay
  are single callbacks, modelled as \<open>settings_success_timeout\<close> and
  \<open>login_timer\<close> in \<open>Admin\<close>; JavaScript
  floating point (money is exact, and \<open>toFixed\<close> rounds the exact value half
  away from zero);
  \<open>NaN\<close> from the number inputs of the product form; exponents in
  \<open>parseFloat\<close>. The master-data pages are modelled as pages, not as
  actions of \<open>System\<close>: their edits stay page-local, except payment methods
  and settings, which \<open>System\<close> receives through \<open>ChangePaymentMethods\<close> and
  \<open>SaveSettings\<close> with arbitrary values. A browser reload in the middle of a
  run (which resets the mock tables but keeps the stored session) is not a
  step of \<open>System\<close>; the persistence round trip is proved for \<open>App\<close> alone.
\<close>

section \<open>The specification's scenario as traces\<close>

text \<open>
  The walk-through of the specification, as timed user actions from a fresh
  browser that loaded the module at \<open>scenario_t0\<close>: log in, open the register
  with a float of 100, go to the POS and click product A (id 1, stock 50,
  retail 150) and product B (id 3, stock 10, retail 900); then pay with the
  preselected method; then dismiss the ticket, go back to the register and
  type the counted cash 1339 into the closing dialog.
\<close>

definition scenario_t0 :: timestamp where
  "scenario_t0 = 1700000000000"

definition scenario_open :: "(timestamp \<times> action) list" where
  "scenario_open =
    [(scenario_t0 + 1, Login ''admin@perfisoft.com''), (scenario_t0 + 2, Navigate CashRegisterPage),
     (scenario_t0 + 3, OpenModal OpenAction), (scenario_t0 + 4, SetAmount (Some 100)),
     (scenario_t0 + 5, Submit), (scenario_t0 + 6, Navigate PosPage),
     (scenario_t0 + 7, ClickProduct (MOCK_PRODUCTS ! 0)), (scenario_t0 + 8, ClickProduct (MOCK_PRODUCTS ! 2))]"

definition scenario_pay :: "(timestamp \<times> action) list" where
  "scenario_pay = [(scenario_t0 + 9, Checkout)]"

definition scenario_close :: "(timestamp \<times> action) list" where
  "scenario_close =
    [(scenario_t0 + 10, NewSale), (scenario_t0 + 11, Navigate CashRegisterPage),
     (scenario_t0 + 12, OpenModal CloseAction), (scenario_t0 + 13, SetAmount (Some 1339))]"

lemmas scenario_defs = scenario_t0_def scenario_open_def scenario_pay_def scenario_close_def
  sys_init_def MOCK_PRODUCTS_def MOCK_SALES_def MOCK_PAYMENT_METHODS_def
  MOCK_USERS_def DEFAULT_SETTINGS_def pos_init_def cr_init_def app_init_def loadFromStorage_def
  handleLogin_def remount_def pos_ready_def isRegisterOpen_def handleOpenAction_def handleSubmit_def
  handleSessionChange_def filteredProducts_def toLowerCase_def lower_char_def clickProduct_def isOutOfStock_def
  addToCart_def getPrice_def handleCheckout_def deductStock_def updateSessionSales_def live_stock_def
  activePaymentMethods_def pos_total_def taxAmount_def subTotal_def handleNewSale_def
  generateClosureReport_def sessionSales_def currentSales_def close_notes_def Let_def

text \<open>The specification's scenario, run on the composed program as a check of the
  model against the walk-through.\<close>

lemma spec_scenario:
  "case run (scenario_open @ scenario_pay @ scenario_close) (sys_init scenario_t0) of
     None \<Rightarrow> False
   | Some s \<Rightarrow>
       map stock (catalog (sys_db s)) = [49, 35, 9, 8] \<and>
       map_option salesTotal (currentSession (sys_app s)) = Some 1239 \<and>
       sys_enabled Submit s \<and>
       (case handleSubmit (string_of_nat (scenario_t0 + 14)) (scenario_t0 + 14) (ledger (sys_db s)) (sys_app s) (sys_cr s) of
          (a', c', rep) \<Rightarrow> currentSession a' = None \<and> map_option report_difference rep = Some 0 \<and>
            map_option (\<lambda>r. map sale_id (report_sales r)) rep = Some [string_of_nat (scenario_t0 + 9)])"
  by (simp add: scenario_defs)

section \<open>Properties of the composed program\<close>

text \<open>C1. In every reachable state every product of the live catalog has a
  nonnegative stock: the add-to-cart and quantity guards of the POS keep each
  cart line within the stock, and checkout deducts exactly the cart.\<close>

theorem reachable_stock_nonneg:
  assumes "reachable t0 s" and "p \<in> set (catalog (sys_db s))"
  shows "0 \<le> stock p"
  using reachable_sys_inv [OF assms(1)] assms(2) by (auto simp: sys_inv_def list_all_iff)

text \<open>C2. Stock is conserved: in every reachable state the ledger is the mock
  sales with the sales made since load in front of them, and the live stock of
  every product is its initial stock less the quantity of it those sales hold.\<close>

theorem reachable_stock_conservation:
  assumes "reachable t0 s"
  shows "\<exists>new. ledger (sys_db s) = new @ MOCK_SALES t0 \<and>
     (\<forall>k. live_stock (catalog (sys_db s)) k = map_option (\<lambda>n. n - sold new k) (live_stock MOCK_PRODUCTS k))"
  using reachable_sys_inv [OF assms] unfolding sys_inv_def stock_conserved_def by blast

text \<open>C3. The running sales total of the open register session is the sum of
  the totals of the ledger's sales dated at or after its opening: every
  committed checkout adds its total to the session and its sale to the ledger.\<close>

theorem reachable_session_sales:
  assumes "reachable t0 s" and "currentSession (sys_app s) = Some cs"
  shows "salesTotal cs = sum_list (map sale_total (sessionSales (ledger (sys_db s)) cs))"
  using reachable_sys_inv [OF assms(1)] assms(2) by (simp add: sys_inv_def session_ok_def)

text \<open>C4. Whenever the POS is interactive (no sale-complete modal), the cart
  has distinct product ids and every line has a positive quantity within the
  live stock of its product.\<close>

theorem reachable_cart_inv:
  assumes "reachable t0 s" and "\<not> showSuccessModal (sys_pos s)"
  shows "cart_inv (catalog (sys_db s)) (cart (sys_pos s))"
  using reachable_sys_inv [OF assms(1)] assms(2) by (simp add: sys_inv_def)

text \<open>C5. A closing report produced in a reachable state is consistent: the
  expected cash is the float plus the sum of the totals of the sales the report
  lists.\<close>

theorem reachable_closure_consistent:
  assumes "reachable t0 s" and "currentSession (sys_app s) = Some cs"
    and "actionType (sys_cr s) = CloseAction"
    and "snd (snd (handleSubmit sid t (ledger (sys_db s)) (sys_app s) (sys_cr s))) = Some r"
  shows "report_expected r = initialAmount cs + sum_list (map sale_total (report_sales r))"
proof -
  have "salesTotal cs = sum_list (map sale_total (sessionSales (ledger (sys_db s)) cs))"
    using reachable_sys_inv [OF assms(1)] assms(2) by (simp add: sys_inv_def session_ok_def)
  with assms(2-4) show ?thesis
    by (auto simp: handleSubmit_def Let_def handleSessionChange_def currentSales_def generateClosureReport_def
        sessionSales_def)
qed

text \<open>C21. The closure-report PDF printed after a close in a reachable state
  shows the register's real figures: its summary table gives the float, the sum
  of the ledger sales since the session opened as the sales and in the expected
  cash, the count typed in the dialog, and their difference; its sale table
  lists exactly those ledger sales.\<close>

theorem reachable_closure_pdf:
  assumes "reachable t0 s" and "currentSession (sys_app s) = Some cs"
    and "handleSubmit sid t (ledger (sys_db s)) (sys_app s) (sys_cr s) = (a', c', Some r)"
  shows "let S = sessionSales (ledger (sys_db s)) cs; cur = currencySymbol settings;
             counted = (case amount (sys_cr s) of Some x \<Rightarrow> x | None \<Rightarrow> 0);
             expected = initialAmount cs + sum_list (map sale_total S);
             doc = closure_pdf settings now fmt fmtTime (ledger (sys_db s)) (report_session r)
         in doc ! 4 = PdfTable [] [[''Apertura:'', fmt (openedAt cs)], [''Cierre:'', fmt t],
                                   [''Monto Inicial:'', money_cell cur (initialAmount cs)],
                                   [''Ventas Registradas:'', money_cell cur (sum_list (map sale_total S))],
                                   [''Total Esperado:'', money_cell cur expected],
                                   [''Monto Real (Contado):'', money_cell cur counted],
                                   [''Diferencia:'', money_cell cur (counted - expected)]] \<and>
            doc ! 8 = PdfTable closure_sales_head (map (closure_sale_row cur fmtTime) S)"
proof -
  have inv: "salesTotal cs = sum_list (map sale_total (sessionSales (ledger (sys_db s)) cs))"
    using reachable_sys_inv [OF assms(1)] assms(2) by (simp add: sys_inv_def session_ok_def)
  obtain cs' where cs': "currentSession (sys_app s) = Some cs'"
    and r: "r = generateClosureReport (ledger (sys_db s))
                 (cs'\<lparr>closedAt := Some t, finalAmount := Some (case amount (sys_cr s) of Some x \<Rightarrow> x | None \<Rightarrow> 0),
                      salesTotal := currentSales (sys_app s), session_status := Closed,
                      session_notes := close_notes (session_notes cs') (cr_notes (sys_cr s))\<rparr>)"
    using handleSubmit_closed_session [OF assms(3)] by blast
  have "cs' = cs" using cs' assms(2) by simp
  with r inv assms(2) show ?thesis
    by (simp add: closure_pdf_def closure_info_rows_def currentSales_def sessionSales_def money_cell_def Let_def)
qed

text \<open>C6. Sale ids are unique: every sale recorded since load carries the
  decimal rendering of its own timestamp, the timestamps strictly decrease
  along the ledger, and none can be a mock sale's id once the clock is past
  1002 ms.\<close>

theorem reachable_sale_ids_distinct:
  assumes "reachable t0 s" and "1002 < t0"
  shows "distinct (map sale_id (ledger (sys_db s)))"
proof -
  obtain new where l: "ledger (sys_db s) = new @ MOCK_SALES t0" and srt: "sorted_wrt (>) (map date new)"
    and ok: "list_all (new_sale_ok t0) new"
    using reachable_sys_inv [OF assms(1)] unfolding sys_inv_def stock_conserved_def by blast
  have ids: "map sale_id new = map string_of_nat (map date new)"
    using ok by (simp add: list_all_iff new_sale_ok_def)
  have "distinct (map date new)" using srt by (rule sorted_wrt_greater_distinct)
  then have d: "distinct (map sale_id new)" unfolding ids by (simp add: distinct_map inj_on_def)
  have m: "map sale_id (MOCK_SALES t0) = [string_of_nat 1001, string_of_nat 1002]"
    by (simp add: MOCK_SALES_def string_of_nat_eval)
  have "\<forall>x\<in>set new. sale_id x \<noteq> string_of_nat 1001 \<and> sale_id x \<noteq> string_of_nat 1002"
    using ok assms(2) by (auto simp: list_all_iff new_sale_ok_def)
  with d show ?thesis by (auto simp: l m)
qed

lemma ledger_sales_ok:
  assumes "reachable t0 s"
  shows "\<forall>x\<in>set (ledger (sys_db s)). sale_status x = Completed \<and> subtotal x = subTotal (items x)"
proof -
  obtain new where l: "ledger (sys_db s) = new @ MOCK_SALES t0" and ok: "list_all (new_sale_ok t0) new"
    using reachable_sys_inv [OF assms(1)] unfolding sys_inv_def stock_conserved_def by blast
  have "list_all (\<lambda>x. sale_status x = Completed \<and> subtotal x = subTotal (items x)) (MOCK_SALES t0)"
    by (simp add: MOCK_SALES_def subTotal_def MOCK_PRODUCTS_def)
  with ok show ?thesis by (auto simp: l list_all_iff new_sale_ok_def)
qed

text \<open>C7. The aggregation round trip of the specification on the live ledger:
  the revenue column of the sales-by-product report sums to the sum of the
  subtotals of the ledger's sales (all of which are completed).\<close>

theorem reachable_report_revenue:
  assumes "reachable t0 s"
  shows "report_totalRevenue (aggregatedData (ledger (sys_db s))) = sum_list (map subtotal (ledger (sys_db s)))"
proof -
  have ok: "\<forall>x\<in>set (ledger (sys_db s)). sale_status x = Completed \<and> subtotal x = subTotal (items x)"
    using assms by (rule ledger_sales_ok)
  then have "completed (ledger (sys_db s)) = ledger (sys_db s)"
    by (simp add: completed_def)
  moreover have "sum_list (map (\<lambda>x. subTotal (items x)) (ledger (sys_db s))) = sum_list (map subtotal (ledger (sys_db s)))"
    using ok by (intro sum_list_map_cong_set) simp
  ultimately show ?thesis by (simp add: aggregate_revenue_total)
qed

text \<open>C8. The report accounts for every stock movement: the live stock of a
  product is its initial stock less the units of it the sales-by-product
  rollup shows now beyond those it showed at load.\<close>

theorem reachable_report_stock:
  assumes "reachable t0 s" and "live_stock MOCK_PRODUCTS k = Some n0"
  shows "live_stock (catalog (sys_db s)) k =
           Some (n0 - (qty_of (lines_of (ledger (sys_db s))) k - qty_of (lines_of (MOCK_SALES t0)) k))"
proof -
  obtain new where l: "ledger (sys_db s) = new @ MOCK_SALES t0" and ok: "list_all (new_sale_ok t0) new"
    and cons: "\<And>k. live_stock (catalog (sys_db s)) k = map_option (\<lambda>n. n - sold new k) (live_stock MOCK_PRODUCTS k)"
    using reachable_sys_inv [OF assms(1)] unfolding sys_inv_def stock_conserved_def by blast
  have "completed new = new" using ok by (simp add: completed_def list_all_iff new_sale_ok_def)
  then have "qty_of (lines_of new) k = sold new k"
    by (simp add: lines_of_def qty_of_concat sold_def comp_def)
  then show ?thesis using assms(2) by (simp add: cons l lines_of_append qty_of_append)
qed

text \<open>C9. The ledger is well formed in every reachable state: every sale is
  completed, its subtotal is the sum of its lines, its total is subtotal plus
  tax, and it is a mock sale or a sale made after load whose id is its own
  timestamp.\<close>

theorem reachable_ledger_wellformed:
  assumes "reachable t0 s"
  shows "\<forall>x\<in>set (ledger (sys_db s)). sale_status x = Completed \<and> subtotal x = subTotal (items x) \<and>
           sale_total x = subtotal x + tax x \<and>
           (x \<in> set (MOCK_SALES t0) \<or> (sale_id x = string_of_nat (date x) \<and> t0 < date x))"
proof -
  obtain new where l: "ledger (sys_db s) = new @ MOCK_SALES t0" and ok: "list_all (new_sale_ok t0) new"
    using reachable_sys_inv [OF assms] unfolding sys_inv_def stock_conserved_def by blast
  have "list_all (\<lambda>x. sale_status x = Completed \<and> subtotal x = subTotal (items x) \<and> sale_total x = subtotal x + tax x)
          (MOCK_SALES t0)"
    by (simp add: MOCK_SALES_def subTotal_def MOCK_PRODUCTS_def)
  with ok show ?thesis by (auto simp: l list_all_iff new_sale_ok_def)
qed

text \<open>C10. The register can always be closed: from every reachable state with a
  logged-in user and an open session some sequence of UI actions reaches a
  state with no open session.\<close>

theorem reachable_close_possible:
  assumes "reachable t0 s" and "app_user (sys_app s) \<noteq> None" and "currentSession (sys_app s) \<noteq> None"
  shows "\<exists>tr s'. run tr s = Some s' \<and> reachable t0 s' \<and> currentSession (sys_app s') = None"
  using close_possible [OF assms(2,3)] run_reachable [OF _ assms(1)] by blast

text \<open>C13. Deactivating a payment method on the payment-methods page removes it
  from the list the POS offers, once \<open>App\<close> has stored the new list.\<close>

theorem toggleStatus_hides_method:
  assumes "distinct (map payment_id pms)" and "m \<in> set pms" and "payment_active m"
  shows "payment_id m \<notin> set (map payment_id (activePaymentMethods
           (handlePaymentMethodsChange (toggleStatus (payment_id m) pms) a)))"
proof -
  have key: "x = m" if "x \<in> set pms" "payment_id x = payment_id m" for x
    using distinct_key_eq [OF assms(1) that(1) assms(2) that(2)] .
  have "\<forall>y\<in>set (toggleStatus (payment_id m) pms). payment_id y = payment_id m \<longrightarrow> \<not> payment_active y"
    using assms(3) by (auto simp: toggleStatus_def dest: key)
  then show ?thesis by (auto simp: activePaymentMethods_def handlePaymentMethodsChange_def)
qed

lemma scenario_run_Some:
  obtains s where "run (scenario_open @ scenario_pay @ scenario_close) (sys_init scenario_t0) = Some s"
    "map stock (catalog (sys_db s)) = [49, 35, 9, 8]"
    "currentSession (sys_app s) = Some \<lparr>session_id = string_of_nat (scenario_t0 + 5), openedAt = scenario_t0 + 5, closedAt = None,
       initialAmount = 100, finalAmount = None, salesTotal = 1239, session_status = Open, session_notes = Some ''''\<rparr>"
    "actionType (sys_cr s) = CloseAction" "app_user (sys_app s) = Some (MOCK_USERS ! 0)"
proof -
  have "case run (scenario_open @ scenario_pay @ scenario_close) (sys_init scenario_t0) of None \<Rightarrow> False
    | Some s \<Rightarrow> map stock (catalog (sys_db s)) = [49, 35, 9, 8] \<and>
     currentSession (sys_app s) = Some \<lparr>session_id = string_of_nat (scenario_t0 + 5), openedAt = scenario_t0 + 5, closedAt = None,
       initialAmount = 100, finalAmount = None, salesTotal = 1239, session_status = Open, session_notes = Some ''''\<rparr> \<and>
     actionType (sys_cr s) = CloseAction \<and> app_user (sys_app s) = Some (MOCK_USERS ! 0)"
    by (simp add: scenario_defs)
  with that show ?thesis by (auto simp: case_option_False_iff)
qed

theorem reachable_stock_nonneg_witness:
  "\<exists>s. reachable scenario_t0 s \<and> catalog (sys_db s) ! 2 \<in> set (catalog (sys_db s)) \<and>
     stock (catalog (sys_db s) ! 2) = 9 \<and> 0 \<le> stock (catalog (sys_db s) ! 2)"
proof -
  obtain s where r: "run (scenario_open @ scenario_pay @ scenario_close) (sys_init scenario_t0) = Some s"
    and st: "map stock (catalog (sys_db s)) = [49, 35, 9, 8]"
    by (rule scenario_run_Some)
  have reach: "reachable scenario_t0 s" by (rule run_reachable [OF r reachable.init])
  have len: "2 < length (catalog (sys_db s))" using arg_cong [OF st, of length] by simp
  then have mem: "catalog (sys_db s) ! 2 \<in> set (catalog (sys_db s))" by (rule nth_mem)
  have "stock (catalog (sys_db s) ! 2) = 9" using arg_cong [OF st, of "\<lambda>l. l ! 2"] len by simp
  with reach mem reachable_stock_nonneg [OF reach mem] show ?thesis by blast
qed

lemma scenario_open_Some:
  obtains s where "run scenario_open (sys_init scenario_t0) = Some s"
    "\<not> showSuccessModal (sys_pos s)" "map product_id (cart (sys_pos s)) = [''1'', ''3'']"
    "map quantity (cart (sys_pos s)) = [1, 1]"
proof -
  have "case run scenario_open (sys_init scenario_t0) of None \<Rightarrow> False
    | Some s \<Rightarrow> \<not> showSuccessModal (sys_pos s) \<and> map product_id (cart (sys_pos s)) = [''1'', ''3''] \<and>
       map quantity (cart (sys_pos s)) = [1, 1]"
    by (simp add: scenario_defs)
  with that show ?thesis by (auto simp: case_option_False_iff)
qed

theorem reachable_stock_conservation_witness:
  "\<exists>s. reachable scenario_t0 s \<and> map stock (catalog (sys_db s)) = [49, 35, 9, 8] \<and>
     (\<exists>new. ledger (sys_db s) = new @ MOCK_SALES scenario_t0 \<and>
       (\<forall>k. live_stock (catalog (sys_db s)) k = map_option (\<lambda>n. n - sold new k) (live_stock MOCK_PRODUCTS k)))"
proof -
  obtain s where r: "run (scenario_open @ scenario_pay @ scenario_close) (sys_init scenario_t0) = Some s"
    and st: "map stock (catalog (sys_db s)) = [49, 35, 9, 8]"
    by (rule scenario_run_Some)
  have reach: "reachable scenario_t0 s" by (rule run_reachable [OF r reachable.init])
  with st reachable_stock_conservation [OF reach] show ?thesis
    by (intro exI [where x = s] conjI) assumption+
qed

theorem reachable_session_sales_witness:
  "\<exists>s. reachable scenario_t0 s \<and>
     currentSession (sys_app s) = Some \<lparr>session_id = string_of_nat (scenario_t0 + 5), openedAt = scenario_t0 + 5, closedAt = None,
       initialAmount = 100, finalAmount = None, salesTotal = 1239, session_status = Open, session_notes = Some ''''\<rparr> \<and>
     1239 = sum_list (map sale_total (sessionSales (ledger (sys_db s)) \<lparr>session_id = string_of_nat (scenario_t0 + 5),
       openedAt = scenario_t0 + 5, closedAt = None, initialAmount = 100, finalAmount = None, salesTotal = 1239,
       session_status = Open, session_notes = Some ''''\<rparr>))"
proof -
  obtain s where r: "run (scenario_open @ scenario_pay @ scenario_close) (sys_init scenario_t0) = Some s"
    and cs: "currentSession (sys_app s) = Some \<lparr>session_id = string_of_nat (scenario_t0 + 5), openedAt = scenario_t0 + 5, closedAt = None,
       initialAmount = 100, finalAmount = None, salesTotal = 1239, session_status = Open, session_notes = Some ''''\<rparr>"
    by (rule scenario_run_Some)
  have reach: "reachable scenario_t0 s" by (rule run_reachable [OF r reachable.init])
  have "1239 = sum_list (map sale_total (sessionSales (ledger (sys_db s)) \<lparr>session_id = string_of_nat (scenario_t0 + 5),
       openedAt = scenario_t0 + 5, closedAt = None, initialAmount = 100, finalAmount = None, salesTotal = 1239,
       session_status = Open, session_notes = Some ''''\<rparr>))"
    using reachable_session_sales [OF reach cs] by simp
  with reach cs show ?thesis by (intro exI [where x = s] conjI) assumption+
qed

theorem reachable_cart_inv_witness:
  "\<exists>s. reachable scenario_t0 s \<and> \<not> showSuccessModal (sys_pos s) \<and>
     map product_id (cart (sys_pos s)) = [''1'', ''3''] \<and> cart_inv (catalog (sys_db s)) (cart (sys_pos s))"
proof -
  obtain s where r: "run scenario_open (sys_init scenario_t0) = Some s"
    and m: "\<not> showSuccessModal (sys_pos s)" and ids: "map product_id (cart (sys_pos s)) = [''1'', ''3'']"
    by (rule scenario_open_Some)
  have reach: "reachable scenario_t0 s" by (rule run_reachable [OF r reachable.init])
  from reachable_cart_inv [OF reach m] reach m ids show ?thesis
    by (intro exI [where x = s] conjI) assumption+
qed

theorem reachable_closure_consistent_witness:
  "\<exists>s r. reachable scenario_t0 s \<and> actionType (sys_cr s) = CloseAction \<and>
     snd (snd (handleSubmit (string_of_nat (scenario_t0 + 14)) (scenario_t0 + 14) (ledger (sys_db s)) (sys_app s) (sys_cr s))) = Some r \<and>
     report_expected r = 100 + sum_list (map sale_total (report_sales r))"
proof -
  obtain s where r: "run (scenario_open @ scenario_pay @ scenario_close) (sys_init scenario_t0) = Some s"
    and cs: "currentSession (sys_app s) = Some \<lparr>session_id = string_of_nat (scenario_t0 + 5), openedAt = scenario_t0 + 5, closedAt = None,
       initialAmount = 100, finalAmount = None, salesTotal = 1239, session_status = Open, session_notes = Some ''''\<rparr>"
    and ca: "actionType (sys_cr s) = CloseAction"
    by (rule scenario_run_Some)
  have reach: "reachable scenario_t0 s" by (rule run_reachable [OF r reachable.init])
  obtain rep where rep: "snd (snd (handleSubmit (string_of_nat (scenario_t0 + 14)) (scenario_t0 + 14) (ledger (sys_db s)) (sys_app s) (sys_cr s))) = Some rep"
    using cs ca by (simp add: handleSubmit_def Let_def)
  have "report_expected rep = 100 + sum_list (map sale_total (report_sales rep))"
    using reachable_closure_consistent [OF reach cs ca rep] by simp
  with reach ca rep show ?thesis by (intro exI [where x = s] exI [where x = rep] conjI) assumption+
qed


theorem reachable_closure_pdf_witness:
  "\<exists>s cs a' c' r. reachable scenario_t0 s \<and> currentSession (sys_app s) = Some cs \<and>
     handleSubmit (string_of_nat (scenario_t0 + 14)) (scenario_t0 + 14) (ledger (sys_db s)) (sys_app s) (sys_cr s) =
       (a', c', Some r) \<and>
     (let S = sessionSales (ledger (sys_db s)) cs; cur = currencySymbol DEFAULT_SETTINGS;
          counted = (case amount (sys_cr s) of Some x \<Rightarrow> x | None \<Rightarrow> 0);
          expected = initialAmount cs + sum_list (map sale_total S);
          doc = closure_pdf DEFAULT_SETTINGS ''now'' (\<lambda>_. ''d'') (\<lambda>_. ''h'') (ledger (sys_db s)) (report_session r)
      in doc ! 4 = PdfTable [] [[''Apertura:'', ''d''], [''Cierre:'', ''d''],
                                [''Monto Inicial:'', money_cell cur (initialAmount cs)],
                                [''Ventas Registradas:'', money_cell cur (sum_list (map sale_total S))],
                                [''Total Esperado:'', money_cell cur expected],
                                [''Monto Real (Contado):'', money_cell cur counted],
                                [''Diferencia:'', money_cell cur (counted - expected)]] \<and>
         doc ! 8 = PdfTable closure_sales_head (map (closure_sale_row cur (\<lambda>_. ''h'')) S))"
proof -
  obtain s where r: "run (scenario_open @ scenario_pay @ scenario_close) (sys_init scenario_t0) = Some s"
    and cs: "currentSession (sys_app s) = Some \<lparr>session_id = string_of_nat (scenario_t0 + 5), openedAt = scenario_t0 + 5, closedAt = None,
       initialAmount = 100, finalAmount = None, salesTotal = 1239, session_status = Open, session_notes = Some ''''\<rparr>"
    and ca: "actionType (sys_cr s) = CloseAction"
    by (rule scenario_run_Some)
  have reach: "reachable scenario_t0 s" by (rule run_reachable [OF r reachable.init])
  obtain a' c' rep where h: "handleSubmit (string_of_nat (scenario_t0 + 14)) (scenario_t0 + 14) (ledger (sys_db s)) (sys_app s) (sys_cr s) = (a', c', rep)"
    by (metis prod_cases3)
  have "rep \<noteq> None" using h cs ca by (auto simp: handleSubmit_def Let_def)
  then obtain rp where rp: "rep = Some rp" by blast
  have hs: "handleSubmit (string_of_nat (scenario_t0 + 14)) (scenario_t0 + 14) (ledger (sys_db s)) (sys_app s) (sys_cr s) = (a', c', Some rp)"
    using h rp by simp
  show ?thesis
    using reachable_closure_pdf [OF reach cs hs, of DEFAULT_SETTINGS "''now''" "\<lambda>_. ''d''" "\<lambda>_. ''h''"] reach cs hs
    by (intro exI [where x = s]) auto
qed

theorem reachable_sale_ids_distinct_witness:
  "\<exists>s. reachable scenario_t0 s \<and> 1002 < scenario_t0 \<and> distinct (map sale_id (ledger (sys_db s)))"
proof -
  obtain s where r: "run (scenario_open @ scenario_pay @ scenario_close) (sys_init scenario_t0) = Some s"
    by (rule scenario_run_Some)
  have reach: "reachable scenario_t0 s" by (rule run_reachable [OF r reachable.init])
  have t: "1002 < scenario_t0" by (simp add: scenario_t0_def)
  from reachable_sale_ids_distinct [OF reach t] reach t show ?thesis
    by (intro exI [where x = s] conjI) assumption+
qed

theorem reachable_report_revenue_witness:
  "\<exists>s. reachable scenario_t0 s \<and> map stock (catalog (sys_db s)) = [49, 35, 9, 8] \<and>
     report_totalRevenue (aggregatedData (ledger (sys_db s))) = sum_list (map subtotal (ledger (sys_db s)))"
proof -
  obtain s where r: "run (scenario_open @ scenario_pay @ scenario_close) (sys_init scenario_t0) = Some s"
    and st: "map stock (catalog (sys_db s)) = [49, 35, 9, 8]"
    by (rule scenario_run_Some)
  have reach: "reachable scenario_t0 s" by (rule run_reachable [OF r reachable.init])
  from reachable_report_revenue [OF reach] reach st show ?thesis
    by (intro exI [where x = s] conjI) assumption+
qed

theorem reachable_report_stock_witness:
  "\<exists>s. reachable scenario_t0 s \<and> live_stock MOCK_PRODUCTS ''3'' = Some 10 \<and>
     live_stock (catalog (sys_db s)) ''3'' =
       Some (10 - (qty_of (lines_of (ledger (sys_db s))) ''3'' - qty_of (lines_of (MOCK_SALES scenario_t0)) ''3''))"
proof -
  obtain s where r: "run (scenario_open @ scenario_pay @ scenario_close) (sys_init scenario_t0) = Some s"
    by (rule scenario_run_Some)
  have reach: "reachable scenario_t0 s" by (rule run_reachable [OF r reachable.init])
  have k: "live_stock MOCK_PRODUCTS ''3'' = Some 10" by (simp add: live_stock_def MOCK_PRODUCTS_def)
  from reachable_report_stock [OF reach k] reach k show ?thesis
    by (intro exI [where x = s] conjI) assumption+
qed


theorem reachable_ledger_wellformed_witness:
  "\<exists>s. reachable scenario_t0 s \<and> map stock (catalog (sys_db s)) = [49, 35, 9, 8] \<and>
     (\<forall>x\<in>set (ledger (sys_db s)). sale_status x = Completed \<and> subtotal x = subTotal (items x) \<and>
        sale_total x = subtotal x + tax x \<and>
        (x \<in> set (MOCK_SALES scenario_t0) \<or> (sale_id x = string_of_nat (date x) \<and> scenario_t0 < date x)))"
proof -
  obtain s where r: "run (scenario_open @ scenario_pay @ scenario_close) (sys_init scenario_t0) = Some s"
    and st: "map stock (catalog (sys_db s)) = [49, 35, 9, 8]"
    by (rule scenario_run_Some)
  have reach: "reachable scenario_t0 s" by (rule run_reachable [OF r reachable.init])
  from reachable_ledger_wellformed [OF reach] reach st show ?thesis
    by (intro exI [where x = s] conjI) assumption+
qed

theorem reachable_close_possible_witness:
  "\<exists>s. reachable scenario_t0 s \<and> app_user (sys_app s) \<noteq> None \<and> currentSession (sys_app s) \<noteq> None \<and>
     (\<exists>tr s'. run tr s = Some s' \<and> reachable scenario_t0 s' \<and> currentSession (sys_app s') = None)"
proof -
  obtain s where r: "run (scenario_open @ scenario_pay @ scenario_close) (sys_init scenario_t0) = Some s"
    and cs: "currentSession (sys_app s) = Some \<lparr>session_id = string_of_nat (scenario_t0 + 5), openedAt = scenario_t0 + 5,
       closedAt = None, initialAmount = 100, finalAmount = None, salesTotal = 1239, session_status = Open,
       session_notes = Some ''''\<rparr>"
    and u: "app_user (sys_app s) = Some (MOCK_USERS ! 0)"
    by (rule scenario_run_Some)
  have reach: "reachable scenario_t0 s" by (rule run_reachable [OF r reachable.init])
  have h2: "app_user (sys_app s) \<noteq> None" using u by simp
  have h3: "currentSession (sys_app s) \<noteq> None" using cs by simp
  have e: "\<exists>tr s'. run tr s = Some s' \<and> reachable scenario_t0 s' \<and> currentSession (sys_app s') = None"
    by (rule reachable_close_possible [OF reach h2 h3])
  show ?thesis using reach h2 h3 e by (intro exI [where x = s] conjI) assumption+
qed

theorem toggleStatus_hides_method_witness:
  "distinct (map payment_id MOCK_PAYMENT_METHODS) \<and> MOCK_PAYMENT_METHODS ! 0 \<in> set MOCK_PAYMENT_METHODS \<and>
   payment_active (MOCK_PAYMENT_METHODS ! 0) \<and>
   payment_id (MOCK_PAYMENT_METHODS ! 0) \<notin> set (map payment_id (activePaymentMethods
     (handlePaymentMethodsChange (toggleStatus (payment_id (MOCK_PAYMENT_METHODS ! 0)) MOCK_PAYMENT_METHODS)
       (app_init Map.empty))))"
proof -
  have h1: "distinct (map payment_id MOCK_PAYMENT_METHODS)" by (simp add: MOCK_PAYMENT_METHODS_def)
  have h2: "MOCK_PAYMENT_METHODS ! 0 \<in> set MOCK_PAYMENT_METHODS" by (simp add: MOCK_PAYMENT_METHODS_def)
  have h3: "payment_active (MOCK_PAYMENT_METHODS ! 0)" by (simp add: MOCK_PAYMENT_METHODS_def)
  from h1 h2 h3 toggleStatus_hides_method [OF h1 h2 h3] show ?thesis by (intro conjI) assumption+
qed

text \<open>C14. The logout button of the shell, pressed in any reachable state with a logged-in
  user, is the enabled \<open>Logout\<close> step of the composed system; after it the shell
  renders no sidebar and no page can be navigated to until the next login.\<close>

theorem layout_logout_ends_shell:
  assumes "reachable t0 s" and "app_user (sys_app s) \<noteq> None" and "sys_clock s < t"
    and "layout_handle LogoutClick ls = Some (ls', eff)"
  shows "\<exists>a. layout_action eff = Some a \<and> reachable t0 (sys_exec t a s) \<and>
             Layout (app_user (sys_app (sys_exec t a s))) st p ls' = None \<and>
             (\<forall>q. \<not> sys_enabled (Navigate q) (sys_exec t a s))"
proof -
  have eff: "eff = CallLogout" using assms(4) by (simp add: layout_handle_def)
  have en: "sys_enabled Logout s" using assms(2) by simp
  have u: "app_user (sys_app (sys_exec t Logout s)) = None"
    by (simp add: remount_def handleLogout_def)
  have "reachable t0 (sys_exec t Logout s)" by (rule reachable.step [OF assms(1) en assms(3)])
  with u show ?thesis by (simp add: eff layout_action_def Layout_def)
qed

theorem layout_logout_ends_shell_witness:
  "\<exists>s a. reachable scenario_t0 s \<and> app_user (sys_app s) = Some (MOCK_USERS ! 0) \<and>
     layout_handle LogoutClick layout_init = Some (layout_init, CallLogout) \<and>
     layout_action CallLogout = Some a \<and> reachable scenario_t0 (sys_exec (sys_clock s + 1) a s) \<and>
     Layout (app_user (sys_app (sys_exec (sys_clock s + 1) a s))) DEFAULT_SETTINGS ''/'' layout_init = None"
proof -
  obtain s where r: "run (scenario_open @ scenario_pay @ scenario_close) (sys_init scenario_t0) = Some s"
    and u: "app_user (sys_app s) = Some (MOCK_USERS ! 0)"
    by (rule scenario_run_Some)
  have reach: "reachable scenario_t0 s" by (rule run_reachable [OF r reachable.init])
  have h: "layout_handle LogoutClick layout_init = Some (layout_init, CallLogout)"
    by (simp add: layout_handle_def)
  obtain a where a: "layout_action CallLogout = Some a" "reachable scenario_t0 (sys_exec (sys_clock s + 1) a s)"
    "Layout (app_user (sys_app (sys_exec (sys_clock s + 1) a s))) DEFAULT_SETTINGS ''/'' layout_init = None"
    using layout_logout_ends_shell [OF reach _ _ h, of "sys_clock s + 1" DEFAULT_SETTINGS "''/''"] u by auto
  with reach u h show ?thesis by (intro exI [where x = s] exI [where x = a] conjI) assumption+
qed

text \<open>C11. In every reachable state the stock bar of each product card of the
  products page, for a product with a positive minimum stock, has a finite
  width between 0 and 100 percent: stock never goes negative, so the
  \<open>Math.min\<close> guard is the only bound the width needs.\<close>

theorem reachable_stock_bar_bounds:
  assumes "reachable t0 s" and "p \<in> set (catalog (sys_db s))" and "0 < minStock p"
  shows "\<exists>w. card_bar (product_card st p) = JNum w \<and> 0 \<le> w \<and> w \<le> 100"
proof -
  have "0 \<le> stock p"
    using reachable_sys_inv [OF assms(1)] assms(2) by (auto simp: sys_inv_def list_all_iff)
  then show ?thesis using stockBarWidth_bounds assms(3) by (simp add: product_card_def)
qed

theorem reachable_stock_bar_bounds_witness:
  "reachable 0 (sys_init 0) \<and> MOCK_PRODUCTS ! 2 \<in> set (catalog (sys_db (sys_init 0))) \<and>
   0 < minStock (MOCK_PRODUCTS ! 2) \<and>
   card_bar (product_card DEFAULT_SETTINGS (MOCK_PRODUCTS ! 2)) = JNum (200 / 9)"
proof -
  have r: "reachable 0 (sys_init 0)" by (rule reachable.init)
  have m: "MOCK_PRODUCTS ! 2 \<in> set (catalog (sys_db (sys_init 0)))"
    by (simp add: sys_init_def MOCK_PRODUCTS_def)
  have pos: "0 < minStock (MOCK_PRODUCTS ! 2)" by (simp add: MOCK_PRODUCTS_def)
  obtain w where "card_bar (product_card DEFAULT_SETTINGS (MOCK_PRODUCTS ! 2)) = JNum w"
    using reachable_stock_bar_bounds [OF r m pos] by blast
  have "card_bar (product_card DEFAULT_SETTINGS (MOCK_PRODUCTS ! 2)) = JNum (200 / 9)"
    by (simp add: product_card_def stockBarWidth_def MOCK_PRODUCTS_def)
  with r m pos show ?thesis by blast
qed

lemma cart_inv_length:
  assumes "cart_inv ps c"
  shows "length c \<le> length ps"
proof -
  have "set (map product_id c) \<subseteq> set (map product_id ps)"
  proof
    fix k assume "k \<in> set (map product_id c)"
    then obtain item where "item \<in> set c" "product_id item = k" by auto
    then have "live_stock ps k \<noteq> None"
      using assms by (auto simp: cart_inv_def list_all_iff line_ok_def split: option.splits)
    then show "k \<in> set (map product_id ps)"
      by (auto simp: live_stock_def dest!: find_Some_in_set)
  qed
  then have "card (set (map product_id c)) \<le> card (set (map product_id ps))" by (rule card_mono [OF finite_set])
  also have "\<dots> \<le> length ps" using card_length [of "map product_id ps"] by simp
  finally show ?thesis using assms distinct_card [of "map product_id c"] by (simp add: cart_inv_def)
qed

text \<open>C12. In every reachable state a checkout prints a ticket that fits its
  200 mm page, for any logo and phone and an address of up to 21 lines: the
  cart holds at most one line per catalog product, and the catalog keeps its four
  products, so the 33 lines that would overflow the ticket cannot occur.\<close>

theorem reachable_checkout_ticket_fits:
  assumes "reachable t0 s" and "sys_enabled Checkout s" and "selectedPaymentMethod (sys_pos s) \<noteq> ''''"
    and "length sa \<le> 21"
  shows "\<exists>sale. lastSale (sys_pos (sys_exec t Checkout s)) = Some sale \<and> length (items sale) \<le> 4 \<and>
           on_page (pos_ticket_layout (app_settings (sys_app s)) logoOk sa client fmtDate sale)"
proof -
  have inv: "sys_inv t0 s" by (rule reachable_sys_inv [OF assms(1)])
  have "\<not> showSuccessModal (sys_pos s)" using assms(2) by (simp add: pos_ready_def)
  with inv have "cart_inv (catalog (sys_db s)) (cart (sys_pos s))" by (simp add: sys_inv_def)
  then have "length (cart (sys_pos s)) \<le> length (catalog (sys_db s))" by (rule cart_inv_length)
  also have "length (catalog (sys_db s)) = length (map product_id (catalog (sys_db s)))" by simp
  also have "\<dots> = length (map product_id MOCK_PRODUCTS)" using inv by (simp only: sys_inv_def)
  also have "\<dots> = 4" by (simp add: MOCK_PRODUCTS_def)
  finally have len: "length (cart (sys_pos s)) \<le> 4" .
  have "\<exists>sale. lastSale (sys_pos (sys_exec t Checkout s)) = Some sale \<and> items sale = cart (sys_pos s)"
    using assms(3) by (simp add: handleCheckout_def Let_def)
  then obtain sale where ls: "lastSale (sys_pos (sys_exec t Checkout s)) = Some sale" and it: "items sale = cart (sys_pos s)"
    by blast
  have "on_page (pos_ticket_layout (app_settings (sys_app s)) logoOk sa client fmtDate sale)"
    using on_page_sorted [OF sorted_pos_ticket_layout pos_ticket_layout_not_Nil] len it assms(4)
    by (simp add: last_pos_ticket_layout ticket_page_height_def ticket_logo_height_def)
  with ls it len show ?thesis by auto
qed

lemma scenario_open_ready:
  obtains s where "run scenario_open (sys_init scenario_t0) = Some s" "sys_enabled Checkout s"
    "selectedPaymentMethod (sys_pos s) \<noteq> ''''"
proof -
  have "case run scenario_open (sys_init scenario_t0) of None \<Rightarrow> False
    | Some s \<Rightarrow> sys_enabled Checkout s \<and> selectedPaymentMethod (sys_pos s) \<noteq> ''''"
    by (simp add: scenario_defs pos_ready_def)
  with that show ?thesis by (auto simp: case_option_False_iff)
qed

theorem reachable_checkout_ticket_fits_witness:
  "\<exists>s sale. reachable scenario_t0 s \<and> sys_enabled Checkout s \<and> selectedPaymentMethod (sys_pos s) \<noteq> '''' \<and>
     length [''Av. Principal 123''] \<le> (21::nat) \<and>
     lastSale (sys_pos (sys_exec (scenario_t0 + 9) Checkout s)) = Some sale \<and> length (items sale) \<le> 4 \<and>
     on_page (pos_ticket_layout (app_settings (sys_app s)) True [''Av. Principal 123''] None (\<lambda>_. ''14/11/2023'') sale)"
proof -
  obtain s where r: "run scenario_open (sys_init scenario_t0) = Some s" and en: "sys_enabled Checkout s"
    and pm: "selectedPaymentMethod (sys_pos s) \<noteq> ''''"
    by (rule scenario_open_ready)
  have reach: "reachable scenario_t0 s" by (rule run_reachable [OF r reachable.init])
  have l: "length [''Av. Principal 123''] \<le> (21::nat)" by simp
  obtain sale where ls: "lastSale (sys_pos (sys_exec (scenario_t0 + 9) Checkout s)) = Some sale"
    and len: "length (items sale) \<le> 4"
    and op: "on_page (pos_ticket_layout (app_settings (sys_app s)) True [''Av. Principal 123''] None (\<lambda>_. ''14/11/2023'') sale)"
    using reachable_checkout_ticket_fits [OF reach en pm l, of "scenario_t0 + 9" True None "\<lambda>_. ''14/11/2023''"]
    by blast
  from reach en pm l ls len op show ?thesis
    by (intro exI [where x = s] exI [where x = sale] conjI) assumption+
qed

end
